theory Spec2Isabelle
  imports Main
begin

section \<open>Persisted entities (the record store)\<close>

text \<open>
  The durable store is the Prisma client of the services. Its tables are modelled as lists of
  rows in insertion order. Instants (\<open>new Date()\<close>, \<open>Date.now()\<close>) are milliseconds as
  \<open>int\<close>. Nullable columns are \<open>option\<close>s. Columns that no modelled function reads
  (place id, job id, executor, e-mail, password hash) are left out.

  A \<open>string\<close> stands for a JavaScript string whose UTF-16 code units are all below 256, one
  \<open>char\<close> per code unit. The message of a log row carries characters above that range and
  is cut by \<open>substring\<close>, which counts code units, so it is kept as the list of its code
  units.
\<close>

datatype session_status = ACTIVE | DISCONNECTED | TIMEOUT

datatype disconnect_reason = MANUAL | REASON_TIMEOUT | TOKEN_REVOKED | SERVER_SHUTDOWN | REASON_ERROR

datatype log_level = DEBUG | INFO | WARN | ERROR

record session =
  s_id :: string
  s_userId :: string
  s_hubId :: string
  s_wsClientId :: string
  s_gameName :: "string option"
  s_currentStatus :: "string option"
  s_status :: session_status
  s_connectedAt :: int
  s_lastHeartbeatAt :: int
  s_disconnectedAt :: "int option"
  s_disconnectReason :: "disconnect_reason option"
  s_disconnectMessage :: "string option"
  s_alertSent :: bool
  s_alertSentAt :: "int option"
  s_alertDelivered :: "bool option"
  s_alertError :: "string option"

record user =
  u_id :: string
  u_username :: string
  u_userToken :: string
  u_userTokenHash :: string
  u_userTokenHint :: string
  u_userTokenCreatedAt :: int
  u_alertSound :: "string option"
  u_quietHoursEnabled :: bool
  u_quietHoursStart :: "string option"
  u_quietHoursEnd :: "string option"
  u_lifeOrDeathMode :: bool

record hub =
  h_id :: string
  h_name :: string

record active_alert =
  a_id :: string
  a_userId :: string
  a_sessionId :: string
  a_reason :: string
  a_gameName :: string
  a_startedAt :: int
  a_notificationsSent :: nat
  a_maxNotifications :: nat
  a_acknowledged :: bool
  a_acknowledgedAt :: "int option"

record session_log =
  l_sessionId :: string
  l_userId :: string
  l_level :: log_level
  l_message :: "nat list"

section \<open>Collaborators: push fan-out, clock, faults\<close>

text \<open>
  \<open>alertData\<close> is the object \<open>handleTimeout\<close> hands to
  \<open>deviceService.sendCriticalAlertToUser\<close>; \<open>push_result\<close> is what comes back:
  \<open>success\<close> and the JSON text of \<open>results\<close> (absent in the \<open>NO_DEVICES\<close> answer).
\<close>

record alert_data =
  ad_sessionId :: string
  ad_gameName :: string
  ad_hubName :: string
  ad_reason :: string
  ad_lastStatus :: "string option"
  ad_alertSound :: "string option"

record push_result =
  pr_success :: bool
  pr_resultsJson :: "string option"

text \<open>
  Everything a call reads from outside the process: the clock (\<open>nowMs\<close>; \<open>hours\<close> and
  \<open>minutes\<close> are \<open>getHours()\<close> and \<open>getMinutes()\<close> of the server's local time), the
  id the store gives a created row, the outcome of the push fan-out, and which awaited
  calls of \<open>handleTimeout\<close> reject (the store or the transport throwing). Outside
  \<open>handleTimeout\<close> a store call is taken to succeed, except where the client rejects by
  contract: an \<open>update\<close> of a row that does not exist.
\<close>

record env =
  nowMs :: int
  hours :: nat
  minutes :: nat
  newId :: string
  criticalPush :: "string \<Rightarrow> alert_data \<Rightarrow> push_result"
  findFails :: bool
  logFails :: bool
  pushFails :: bool
  loopFails :: bool
  updateFails :: bool

text \<open>
  What an awaited call rejects with. \<open>NotModelled\<close> is not an outcome of the program: it is
  the answer of \<open>handleTimeout\<close> below on a quiet-hours string whose \<open>Number\<close> this
  development does not compute, so that no statement is made about such a run.
\<close>

datatype error = StoreError | PushError | TypeError | NotModelled

text \<open>
  The observable effects of the timeout path, in the order they happen: a SessionLog row
  written, the push fan-out invoked, a session row written.
\<close>

datatype event =
    LogPersisted session_log
  | PushInvoked string alert_data
  | SessionPersisted string

record backend =
  sessions :: "session list"
  users :: "user list"
  hubs :: "hub list"
  activeAlerts :: "active_alert list"
  sessionLogs :: "session_log list"
  activeLoops :: "string \<rightharpoonup> nat"
  intervals :: "(nat \<times> string \<times> string) list"
  nextInterval :: nat
  trace :: "event list"

section \<open>JavaScript helpers\<close>

text \<open>\<open>!v\<close> on a nullable string: \<open>null\<close> and the empty string are falsy.\<close>

definition falsy :: "string option \<Rightarrow> bool" where
  "falsy v = (case v of None \<Rightarrow> True | Some s \<Rightarrow> s = [])"

text \<open>\<open>v || d\<close> on a nullable string.\<close>

definition orElse :: "string option \<Rightarrow> string \<Rightarrow> string" where
  "orElse v d = (case v of None \<Rightarrow> d | Some s \<Rightarrow> if s = [] then d else s)"

text \<open>\<open>s.split(c)\<close> for a one-character separator.\<close>

fun js_split :: "char \<Rightarrow> string \<Rightarrow> string list" where
  "js_split c [] = [[]]"
| "js_split c (x # xs) =
     (if x = c then [] # js_split c xs
      else (case js_split c xs of w # ws \<Rightarrow> (x # w) # ws | [] \<Rightarrow> [[x]]))"

definition digitVal :: "char \<Rightarrow> nat option" where
  "digitVal c = map_of (zip ''0123456789'' [0, 1, 2, 3, 4, 5, 6, 7, 8, 9]) c"

fun digitsVal :: "nat \<Rightarrow> string \<Rightarrow> nat option" where
  "digitsVal acc [] = Some acc"
| "digitsVal acc (c # cs) =
     (case digitVal c of None \<Rightarrow> None | Some d \<Rightarrow> digitsVal (acc * 10 + d) cs)"

text \<open>
  A JavaScript number, as far as the quiet-hours arithmetic is followed: \<open>Integer n\<close> is the
  double that equals the natural number \<open>n\<close>, with \<open>n\<close> at most \<open>2^53\<close>, the range in
  which every integer is a double and sums and products are exact; \<open>NaN\<close> is \<open>NaN\<close>;
  \<open>Unmodelled\<close> is any value this development does not compute.
\<close>

datatype js_number = Integer nat | NaN | Unmodelled

text \<open>
  \<open>Number(s)\<close>: a run of ASCII decimal digits whose value is at most \<open>2^53\<close> is that
  value, and the empty string is 0. Every other string is left \<open>Unmodelled\<close>: \<open>Number\<close>
  also reads surrounding blanks, a sign, a fraction, an exponent, hex, octal and binary
  literals and \<open>Infinity\<close>, and it rounds an integer above \<open>2^53\<close> to the nearest double.
\<close>

definition js_Number :: "string \<Rightarrow> js_number" where
  "js_Number s =
     (case digitsVal 0 s of
        Some n \<Rightarrow> if n \<le> 9007199254740992 then Integer n else Unmodelled
      | None \<Rightarrow> Unmodelled)"

text \<open>
  \<open>const [hour, min] = s.split(':').map(Number)\<close> followed by \<open>hour * 60 + min\<close>.
  With one component only, \<open>min\<close> is \<open>undefined\<close> and the sum is \<open>NaN\<close> whatever the hour
  is. With two integers the sum is exact as long as it stays at most \<open>2^53\<close>.
\<close>

definition minuteOfDay :: "string \<Rightarrow> js_number" where
  "minuteOfDay s =
     (case js_split CHR '':'' s of
        hour # minute # _ \<Rightarrow>
          (case (js_Number hour, js_Number minute) of
             (Integer h, Integer m) \<Rightarrow>
               if h * 60 + m \<le> 9007199254740992 then Integer (h * 60 + m) else Unmodelled
           | (NaN, _) \<Rightarrow> NaN
           | (_, NaN) \<Rightarrow> NaN
           | _ \<Rightarrow> Unmodelled)
      | _ \<Rightarrow> NaN)"

text \<open>
  The format the quiet-hours fields are meant to hold: \<open>HH:MM\<close>, two decimal digits for the
  hour and two for the minute.
\<close>

definition twoDigits :: "nat \<Rightarrow> string" where
  "twoDigits n = [''0123456789'' ! (n div 10), ''0123456789'' ! (n mod 10)]"

definition hhmm :: "nat \<Rightarrow> nat \<Rightarrow> string" where
  "hhmm h m = twoDigits h @ '':'' @ twoDigits m"

definition toUpperChar :: "char \<Rightarrow> char" where
  "toUpperChar c =
     (case map_of (zip ''abcdefghijklmnopqrstuvwxyz'' ''ABCDEFGHIJKLMNOPQRSTUVWXYZ'') c of
        Some u \<Rightarrow> u | None \<Rightarrow> c)"

definition toUpperCase :: "string \<Rightarrow> string" where
  "toUpperCase s = map toUpperChar s"

section \<open>Log sink (logService.js)\<close>

definition normalizeLevel :: "string option \<Rightarrow> log_level" where
  "normalizeLevel level =
     (case map_option toUpperCase level of
        None \<Rightarrow> INFO
      | Some n \<Rightarrow>
          if n = ''DEBUG'' then DEBUG
          else if n = ''INFO'' then INFO
          else if n = ''WARN'' then WARN
          else if n = ''ERROR'' then ERROR
          else INFO)"

text \<open>
  \<open>createLog\<close> catches a failing insert and answers \<open>null\<close>: it never rejects.
  The message is cut by \<open>substring(0, 2000)\<close>, at 2000 code units.
\<close>

definition logRow :: "string \<Rightarrow> string \<Rightarrow> string option \<Rightarrow> nat list \<Rightarrow> session_log" where
  "logRow sessionId userId level message =
     \<lparr> l_sessionId = sessionId, l_userId = userId,
       l_level = normalizeLevel level, l_message = take 2000 message \<rparr>"

definition createLog :: "env \<Rightarrow> string \<Rightarrow> string \<Rightarrow> string option \<Rightarrow> nat list \<Rightarrow> backend \<Rightarrow> backend" where
  "createLog e sessionId userId level message b =
     (if logFails e then b
      else
        (let row = logRow sessionId userId level message
         in b\<lparr> sessionLogs := sessionLogs b @ [row], trace := trace b @ [LogPersisted row] \<rparr>))"

section \<open>Alert loop (alertLoopService.js)\<close>

text \<open>
  Modelled from the spec: the column default of \<open>ActiveAlert.maxNotifications\<close> lives in the
  Prisma schema, which is not among the sources; the specification gives the cap as 30, the
  value of the service's \<open>MAX_NOTIFICATIONS\<close>.
\<close>

definition MAX_NOTIFICATIONS :: nat where
  "MAX_NOTIFICATIONS = 30"

definition clearInterval :: "nat \<Rightarrow> backend \<Rightarrow> backend" where
  "clearInterval h b = b\<lparr> intervals := filter (\<lambda>t. fst t \<noteq> h) (intervals b) \<rparr>"

text \<open>
  \<open>startLoop\<close>: clear the interval recorded for the alert, if any, install a new one
  (\<open>setInterval\<close> hands out the next handle) and record it in \<open>activeLoops\<close>.
\<close>

definition startLoop :: "string \<Rightarrow> string \<Rightarrow> backend \<Rightarrow> backend" where
  "startLoop alertId userId b =
     (let b1 = (case activeLoops b alertId of None \<Rightarrow> b | Some old \<Rightarrow> clearInterval old b);
          h = nextInterval b1
      in b1\<lparr> intervals := intervals b1 @ [(h, alertId, userId)],
              nextInterval := Suc h,
              activeLoops := (activeLoops b1)(alertId \<mapsto> h) \<rparr>)"

definition stopLoop :: "string \<Rightarrow> backend \<Rightarrow> backend" where
  "stopLoop alertId b =
     (case activeLoops b alertId of
        None \<Rightarrow> b
      | Some h \<Rightarrow> (clearInterval h b)\<lparr> activeLoops := (activeLoops b)(alertId := None) \<rparr>)"

text \<open>
  \<open>startAlertLoop(userId, sessionId, reason, gameName)\<close> awaits three store calls, with no
  transaction around them: \<open>user.findUnique\<close>, \<open>activeAlert.findFirst\<close> and
  \<open>activeAlert.create\<close>. Between two of them the event loop runs whatever else is ready,
  another call of \<open>startAlertLoop\<close> included. A call in progress is therefore a record of its
  arguments and of the await it stands at, and \<open>resume\<close> runs it from there up to its next
  await: the store call it was waiting for is executed on the store as it is then, followed
  by the synchronous code behind it (\<open>startLoop\<close> after the \<open>create\<close>).
\<close>

datatype await_point = AtFindUser | AtFindExisting | AtCreate | Returned "active_alert option"

record loop_call =
  lc_userId :: string
  lc_sessionId :: string
  lc_reason :: string
  lc_gameName :: string
  lc_at :: await_point

definition resume :: "env \<Rightarrow> loop_call \<Rightarrow> backend \<Rightarrow> loop_call \<times> backend" where
  "resume e call b =
     (case lc_at call of
        AtFindUser \<Rightarrow>
          (case find (\<lambda>u. u_id u = lc_userId call) (users b) of
             None \<Rightarrow> (call\<lparr> lc_at := Returned None \<rparr>, b)
           | Some u \<Rightarrow>
               if \<not> u_lifeOrDeathMode u then (call\<lparr> lc_at := Returned None \<rparr>, b)
               else (call\<lparr> lc_at := AtFindExisting \<rparr>, b))
      | AtFindExisting \<Rightarrow>
          (case find (\<lambda>a. a_userId a = lc_userId call \<and> \<not> a_acknowledged a) (activeAlerts b) of
             Some existingAlert \<Rightarrow> (call\<lparr> lc_at := Returned (Some existingAlert) \<rparr>, b)
           | None \<Rightarrow> (call\<lparr> lc_at := AtCreate \<rparr>, b))
      | AtCreate \<Rightarrow>
          (let alert = \<lparr> a_id = newId e, a_userId = lc_userId call,
                          a_sessionId = lc_sessionId call, a_reason = lc_reason call,
                          a_gameName = lc_gameName call, a_startedAt = nowMs e,
                          a_notificationsSent = 1, a_maxNotifications = MAX_NOTIFICATIONS,
                          a_acknowledged = False, a_acknowledgedAt = None \<rparr>;
               b1 = b\<lparr> activeAlerts := activeAlerts b @ [alert] \<rparr>
           in (call\<lparr> lc_at := Returned (Some alert) \<rparr>, startLoop (a_id alert) (lc_userId call) b1))
      | Returned result \<Rightarrow> (call, b))"

text \<open>
  Calls in progress side by side: the schedule names, step by step, which call the event
  loop resumes and what the clock and the store's id generator give it then.
\<close>

fun runSchedule :: "(nat \<times> env) list \<Rightarrow> loop_call list \<Rightarrow> backend \<Rightarrow> loop_call list \<times> backend" where
  "runSchedule [] calls b = (calls, b)"
| "runSchedule (step # rest) calls b =
     (if fst step < length calls
      then (case resume (snd step) (calls ! fst step) b of
              (call, b1) \<Rightarrow> runSchedule rest (calls[fst step := call]) b1)
      else runSchedule rest calls b)"

text \<open>
  One call of \<open>startAlertLoop\<close> with nothing else running between its awaits: three resumes
  take it from its first await to its \<open>return\<close> (the last alternative below is never
  taken). This is how \<open>handleTimeout\<close> below uses it.
\<close>

definition startAlertLoop ::
  "env \<Rightarrow> string \<Rightarrow> string \<Rightarrow> string \<Rightarrow> string \<Rightarrow> backend \<Rightarrow> active_alert option \<times> backend" where
  "startAlertLoop e userId sessionId reason gameName b =
     (case runSchedule [(0, e), (0, e), (0, e)]
             [\<lparr> lc_userId = userId, lc_sessionId = sessionId, lc_reason = reason,
                lc_gameName = gameName, lc_at = AtFindUser \<rparr>] b of
        (calls, b1) \<Rightarrow>
          (case map lc_at calls of
             [Returned result] \<Rightarrow> (result, b1)
           | _ \<Rightarrow> (None, b1)))"

text \<open>
  \<open>acknowledgeAlert(alertId, userId)\<close>: the alert must exist, belong to the user and be
  unacknowledged; it is then marked, with the time, and its loop is stopped. \<open>None\<close> is
  the answer \<open>{ success: false }\<close>.
\<close>

definition acknowledgeAlert :: "env \<Rightarrow> string \<Rightarrow> string \<Rightarrow> backend \<Rightarrow> active_alert option \<times> backend" where
  "acknowledgeAlert e alertId userId b =
     (case find (\<lambda>a. a_id a = alertId \<and> a_userId a = userId \<and> \<not> a_acknowledged a)
             (activeAlerts b) of
        None \<Rightarrow> (None, b)
      | Some alert \<Rightarrow>
          (Some alert,
           stopLoop alertId
             (b\<lparr> activeAlerts :=
                   map (\<lambda>a. if a_id a = alertId
                             then a\<lparr> a_acknowledged := True, a_acknowledgedAt := Some (nowMs e) \<rparr>
                             else a) (activeAlerts b) \<rparr>)))"

text \<open>
  \<open>restoreActiveLoops\<close>. Its whole body sits in a \<open>try\<close> whose \<open>catch\<close> only logs. The
  first statement builds the query \<open>{ acknowledged: false, notificationsSent: { lt:
  prisma.raw('maxNotifications') } }\<close>. \<open>prisma\<close> is the default export of
  \<open>database.js\<close>, the client on which the server calls \<open>$connect\<close> and
  \<open>$disconnect\<close> and the user service \<open>$transaction\<close> (the seed script builds its own
  with \<open>new PrismaClient()\<close>). A \<open>PrismaClient\<close> has no member \<open>raw\<close>, so
  \<open>prisma.raw(...)\<close> throws a \<open>TypeError\<close> (\<open>prisma.raw is not a function\<close>) before
  \<open>findMany\<close> is called. The \<open>catch\<close> takes it and the function returns with nothing
  loaded. \<open>restoreQuery\<close> is the filter the query was
  written to express and \<open>restoreOne\<close> the loop body behind it.
\<close>

definition prisma_raw :: "string \<Rightarrow> error + string" where
  "prisma_raw column = Inl TypeError"

definition restoreOne :: "env \<Rightarrow> backend \<Rightarrow> active_alert \<Rightarrow> backend" where
  "restoreOne e b alert =
     (let ageMs = nowMs e - a_startedAt alert
      in if ageMs < 10 * 60 * 1000 then startLoop (a_id alert) (a_userId alert) b
         else b\<lparr> activeAlerts :=
                   map (\<lambda>a. if a_id a = a_id alert then a\<lparr> a_acknowledged := True \<rparr> else a)
                       (activeAlerts b) \<rparr>)"

definition restoreQuery :: "active_alert \<Rightarrow> bool" where
  "restoreQuery a = (\<not> a_acknowledged a \<and> a_notificationsSent a < a_maxNotifications a)"

definition restoreActiveLoops :: "env \<Rightarrow> backend \<Rightarrow> backend" where
  "restoreActiveLoops e b =
     (case prisma_raw ''maxNotifications'' of
        Inl err \<Rightarrow> b
      | Inr column \<Rightarrow> foldl (restoreOne e) b (filter restoreQuery (activeAlerts b)))"

section \<open>Session state machine (sessionService.js)\<close>

text \<open>
  \<open>prisma.session.update({ where, data })\<close> addresses a row by a unique column (\<open>id\<close> or
  \<open>wsClientId\<close>) and rejects when no row matches.
\<close>

definition sessionUpdate :: "(session \<Rightarrow> bool) \<Rightarrow> (session \<Rightarrow> session) \<Rightarrow> backend \<Rightarrow> error + backend" where
  "sessionUpdate wh data b =
     (if \<exists>s \<in> set (sessions b). wh s
      then Inr (b\<lparr> sessions := map (\<lambda>s. if wh s then data s else s) (sessions b) \<rparr>)
      else Inl StoreError)"

text \<open>\<open>prisma.session.updateMany\<close>: every matching row, and the number of them.\<close>

definition sessionUpdateMany :: "(session \<Rightarrow> bool) \<Rightarrow> (session \<Rightarrow> session) \<Rightarrow> backend \<Rightarrow> nat \<times> backend" where
  "sessionUpdateMany wh data b =
     (length (filter wh (sessions b)),
      b\<lparr> sessions := map (\<lambda>s. if wh s then data s else s) (sessions b) \<rparr>)"

definition updateStatus :: "string \<Rightarrow> string option \<Rightarrow> backend \<Rightarrow> error + backend" where
  "updateStatus wsClientId statusText b =
     sessionUpdate (\<lambda>s. s_wsClientId s = wsClientId)
       (\<lambda>s. case statusText of None \<Rightarrow> s | Some t \<Rightarrow> s\<lparr> s_currentStatus := Some t \<rparr>) b"

definition updateHeartbeat :: "env \<Rightarrow> string \<Rightarrow> backend \<Rightarrow> error + backend" where
  "updateHeartbeat e wsClientId b =
     sessionUpdate (\<lambda>s. s_wsClientId s = wsClientId) (\<lambda>s. s\<lparr> s_lastHeartbeatAt := nowMs e \<rparr>) b"

definition disconnectData :: "env \<Rightarrow> disconnect_reason \<Rightarrow> string option \<Rightarrow> session \<Rightarrow> session" where
  "disconnectData e reason message s =
     s\<lparr> s_status := DISCONNECTED, s_disconnectedAt := Some (nowMs e),
        s_disconnectReason := Some reason, s_disconnectMessage := message \<rparr>"

text \<open>
  \<open>disconnectSession(wsClientId, reason, message)\<close>: \<open>null\<close> when no row has the client
  id, otherwise the row is updated and returned.
\<close>

definition disconnectSession ::
  "env \<Rightarrow> string \<Rightarrow> disconnect_reason \<Rightarrow> string option \<Rightarrow> backend \<Rightarrow> session option \<times> backend" where
  "disconnectSession e wsClientId reason message b =
     (case find (\<lambda>s. s_wsClientId s = wsClientId) (sessions b) of
        None \<Rightarrow> (None, b)
      | Some session \<Rightarrow>
          (let b1 = b\<lparr> sessions := map (\<lambda>s. if s_wsClientId s = wsClientId
                                                 then disconnectData e reason message s else s)
                                          (sessions b) \<rparr>
           in (find (\<lambda>s. s_wsClientId s = wsClientId) (sessions b1), b1)))"

definition disconnectSessionById ::
  "env \<Rightarrow> string \<Rightarrow> disconnect_reason \<Rightarrow> string option \<Rightarrow> backend \<Rightarrow> session option \<times> backend" where
  "disconnectSessionById e sessionId reason message b =
     (case find (\<lambda>s. s_id s = sessionId) (sessions b) of
        None \<Rightarrow> (None, b)
      | Some session \<Rightarrow>
          (let b1 = b\<lparr> sessions := map (\<lambda>s. if s_id s = sessionId
                                                 then disconnectData e reason message s else s)
                                          (sessions b) \<rparr>
           in (find (\<lambda>s. s_id s = sessionId) (sessions b1), b1)))"

definition disconnectAllUserSessions :: "env \<Rightarrow> string \<Rightarrow> disconnect_reason \<Rightarrow> backend \<Rightarrow> nat \<times> backend" where
  "disconnectAllUserSessions e userId reason b =
     sessionUpdateMany (\<lambda>s. s_userId s = userId \<and> s_status s = ACTIVE)
       (disconnectData e reason (Some ''User token revoked'')) b"

definition cleanupStaleSessions :: "env \<Rightarrow> backend \<Rightarrow> nat \<times> backend" where
  "cleanupStaleSessions e b =
     sessionUpdateMany (\<lambda>s. s_status s = ACTIVE)
       (disconnectData e SERVER_SHUTDOWN (Some ''Server restarted'')) b"

text \<open>
  \<open>isQuietHours(user)\<close>. After the guard both fields are non-empty strings. A comparison
  with \<open>NaN\<close> is false, so as soon as the start or the end is \<open>NaN\<close> the answer is
  \<open>false\<close>: \<open>startMinutes > endMinutes\<close> fails and so does one side of the conjunction
  that is then returned. \<open>None\<close> is no answer: the start or the end is a number this
  development does not compute.
\<close>

definition isQuietHours :: "env \<Rightarrow> user \<Rightarrow> bool option" where
  "isQuietHours e u =
     (if \<not> u_quietHoursEnabled u \<or> falsy (u_quietHoursStart u) \<or> falsy (u_quietHoursEnd u)
      then Some False
      else
        (let currentMinutes = hours e * 60 + minutes e
         in case (u_quietHoursStart u, u_quietHoursEnd u) of
              (Some quietHoursStart, Some quietHoursEnd) \<Rightarrow>
                (case (minuteOfDay quietHoursStart, minuteOfDay quietHoursEnd) of
                   (Integer startMinutes, Integer endMinutes) \<Rightarrow>
                     Some (if startMinutes > endMinutes
                           then currentMinutes \<ge> startMinutes \<or> currentMinutes < endMinutes
                           else currentMinutes \<ge> startMinutes \<and> currentMinutes < endMinutes)
                 | (NaN, _) \<Rightarrow> Some False
                 | (_, NaN) \<Rightarrow> Some False
                 | _ \<Rightarrow> None)
            | _ \<Rightarrow> Some False))"

record timeout_result =
  tr_session :: session
  tr_alertSent :: bool
  tr_reason :: "string option"
  tr_alertResult :: "push_result option"

text \<open>The \<open>data\<close> of the two session writes of \<open>handleTimeout\<close>.\<close>

definition quietData :: "env \<Rightarrow> session \<Rightarrow> session" where
  "quietData e s =
     s\<lparr> s_status := TIMEOUT, s_disconnectedAt := Some (nowMs e),
        s_disconnectReason := Some REASON_TIMEOUT,
        s_disconnectMessage := Some ''Heartbeat timeout (quiet hours - no alert)'',
        s_alertSent := False \<rparr>"

text \<open>
  \<open>alertError\<close> is \<open>null\<close> on success and \<open>JSON.stringify(alertResult.results)\<close>
  otherwise; with no \<open>results\<close> that is \<open>undefined\<close>, which the store client skips.
\<close>

definition alertedData :: "env \<Rightarrow> push_result \<Rightarrow> session \<Rightarrow> session" where
  "alertedData e alertResult s =
     s\<lparr> s_status := TIMEOUT, s_disconnectedAt := Some (nowMs e),
        s_disconnectReason := Some REASON_TIMEOUT,
        s_disconnectMessage := Some ''Heartbeat timeout'',
        s_alertSent := True,
        s_alertSentAt := Some (nowMs e),
        s_alertDelivered := Some (pr_success alertResult),
        s_alertError := (if pr_success alertResult then None
                         else (case pr_resultsJson alertResult of
                                 None \<Rightarrow> s_alertError s
                               | Some j \<Rightarrow> Some j)) \<rparr>"

text \<open>The quiet-hours branch of \<open>handleTimeout\<close>: one session write, no log, no push.\<close>

definition timeoutQuiet :: "env \<Rightarrow> session \<Rightarrow> backend \<Rightarrow> (error + timeout_result option) \<times> backend" where
  "timeoutQuiet e session b =
     (if updateFails e then (Inl StoreError, b)
      else
        (case sessionUpdate (\<lambda>s. s_id s = s_id session) (quietData e) b of
           Inl err \<Rightarrow> (Inl err, b)
         | Inr b1 \<Rightarrow>
             (Inr (Some \<lparr> tr_session = session, tr_alertSent = False,
                          tr_reason = Some ''QUIET_HOURS'', tr_alertResult = None \<rparr>),
              b1\<lparr> trace := trace b1 @ [SessionPersisted (s_id session)] \<rparr>)))"

text \<open>
  The message of the log row, in code units. In the source file the template literal opens
  with the four characters U+011F, U+0178, U+0161 and U+00A8 (the UTF-8 bytes of the emoji
  U+1F6A8 read in a one-byte code page), and these are what the code writes in front of
  \<open>TIMEOUT\<close>.
\<close>

definition timeoutMessage :: "session \<Rightarrow> nat list" where
  "timeoutMessage session =
     [287, 376, 353, 168]
       @ map of_char ('' TIMEOUT: '' @ orElse (s_gameName session) ''Unknown Game''
                        @ '' - Connection lost (possible crash, kick, or internet failure)'')"

definition timeoutAlertData :: "session \<Rightarrow> user \<Rightarrow> backend \<Rightarrow> alert_data" where
  "timeoutAlertData session u b =
     \<lparr> ad_sessionId = s_id session,
       ad_gameName = orElse (s_gameName session) ''Unknown Game'',
       ad_hubName = orElse (map_option h_name (find (\<lambda>h. h_id h = s_hubId session) (hubs b)))
                      ''Unknown Script'',
       ad_reason = ''Connection lost - possible crash, kick, or internet failure'',
       ad_lastStatus = s_currentStatus session,
       ad_alertSound = u_alertSound u \<rparr>"

text \<open>
  The alert branch of \<open>handleTimeout\<close>, statement by statement: the log row, the push
  fan-out, the alert loop when the user has life-or-death mode, and last the session write.
  A rejecting call leaves the function at that point with what was done so far; a failing
  insert of the log row is caught inside \<open>createLog\<close> and rejects nothing.
\<close>

definition timeoutAlert :: "env \<Rightarrow> session \<Rightarrow> user \<Rightarrow> backend \<Rightarrow> (error + timeout_result option) \<times> backend" where
  "timeoutAlert e session u b =
     (let b1 = createLog e (s_id session) (s_userId session) (Some ''error'')
                 (timeoutMessage session) b;
          alertData = timeoutAlertData session u b1;
          b2 = b1\<lparr> trace := trace b1 @ [PushInvoked (s_userId session) alertData] \<rparr>
      in if pushFails e then (Inl PushError, b2)
         else
           (let alertResult = criticalPush e (s_userId session) alertData
            in if u_lifeOrDeathMode u \<and> loopFails e then (Inl StoreError, b2)
               else
                 (let b3 = (if u_lifeOrDeathMode u
                            then snd (startAlertLoop e (s_userId session) (s_id session)
                                        (ad_reason alertData) (ad_gameName alertData) b2)
                            else b2)
                  in if updateFails e then (Inl StoreError, b3)
                     else
                       (case sessionUpdate (\<lambda>s. s_id s = s_id session)
                               (alertedData e alertResult) b3 of
                          Inl err \<Rightarrow> (Inl err, b3)
                        | Inr b4 \<Rightarrow>
                            (Inr (Some \<lparr> tr_session = session, tr_alertSent = True,
                                         tr_reason = None, tr_alertResult = Some alertResult \<rparr>),
                             b4\<lparr> trace := trace b4 @ [SessionPersisted (s_id session)] \<rparr>)))))"

text \<open>
  \<open>handleTimeout(wsClientId)\<close>: the row with its user joined in; \<open>null\<close> when there is no
  such row. The schema's foreign key gives every session a user; without one
  \<open>session.user.quietHoursEnabled\<close> is a TypeError. \<open>&&\<close> does not call
  \<open>isQuietHours\<close> when quiet hours are off.
\<close>

definition handleTimeout :: "env \<Rightarrow> string \<Rightarrow> backend \<Rightarrow> (error + timeout_result option) \<times> backend" where
  "handleTimeout e wsClientId b =
     (if findFails e then (Inl StoreError, b)
      else
        (case find (\<lambda>s. s_wsClientId s = wsClientId) (sessions b) of
           None \<Rightarrow> (Inr None, b)
         | Some session \<Rightarrow>
             (case find (\<lambda>u. u_id u = s_userId session) (users b) of
                None \<Rightarrow> (Inl TypeError, b)
              | Some u \<Rightarrow>
                  (case (if u_quietHoursEnabled u then isQuietHours e u else Some False) of
                     None \<Rightarrow> (Inl NotModelled, b)
                   | Some quiet \<Rightarrow>
                       if quiet then timeoutQuiet e session b
                       else timeoutAlert e session u b))))"

section \<open>User tokens (userService.js)\<close>

record generated_token =
  g_token :: string
  g_hash :: string
  g_hint :: string

record token_reply =
  t_userToken :: string
  t_userTokenHint :: string
  t_userTokenCreatedAt :: int

text \<open>
  \<open>regenerateUserToken(userId)\<close>. \<open>gen\<close> is what \<open>generateUserToken()\<close> drew (six random
  characters, their SHA-256, the hint). The sessions are written first; the user row second,
  and that update rejects when the user does not exist.
\<close>

definition regenerateUserToken :: "env \<Rightarrow> generated_token \<Rightarrow> string \<Rightarrow> backend \<Rightarrow> (error + token_reply) \<times> backend" where
  "regenerateUserToken e gen userId b =
     (let b1 = snd (sessionUpdateMany (\<lambda>s. s_userId s = userId \<and> s_status s = ACTIVE)
                      (disconnectData e TOKEN_REVOKED (Some ''User token regenerated'')) b)
      in if \<exists>u \<in> set (users b1). u_id u = userId
         then (Inr \<lparr> t_userToken = g_token gen, t_userTokenHint = g_hint gen,
                     t_userTokenCreatedAt = nowMs e \<rparr>,
               b1\<lparr> users := map (\<lambda>u. if u_id u = userId
                                       then u\<lparr> u_userToken := g_token gen, u_userTokenHash := g_hash gen,
                                               u_userTokenHint := g_hint gen,
                                               u_userTokenCreatedAt := nowMs e \<rparr>
                                       else u) (users b1) \<rparr>)
         else (Inl StoreError, b1))"

section \<open>Scenario data\<close>

text \<open>
  One user with overnight quiet hours (23:00 to 07:00) and life-or-death mode, one approved
  hub, and one live session of that user on socket client \<open>c1\<close>.
\<close>

definition user1 :: user where
  "user1 = \<lparr> u_id = ''u1'', u_username = ''alice'', u_userToken = ''ABC234'',
              u_userTokenHash = ''5f2b'', u_userTokenHint = ''ABC234'', u_userTokenCreatedAt = 0,
              u_alertSound = Some ''alarm'', u_quietHoursEnabled = True,
              u_quietHoursStart = Some ''23:00'', u_quietHoursEnd = Some ''07:00'',
              u_lifeOrDeathMode = True \<rparr>"

definition session1 :: session where
  "session1 = \<lparr> s_id = ''s1'', s_userId = ''u1'', s_hubId = ''h1'', s_wsClientId = ''c1'',
                 s_gameName = Some ''G'', s_currentStatus = Some ''Farming'', s_status = ACTIVE,
                 s_connectedAt = 0, s_lastHeartbeatAt = 0, s_disconnectedAt = None,
                 s_disconnectReason = None, s_disconnectMessage = None, s_alertSent = False,
                 s_alertSentAt = None, s_alertDelivered = None, s_alertError = None \<rparr>"

definition backend1 :: backend where
  "backend1 = \<lparr> sessions = [session1], users = [user1],
                 hubs = [\<lparr> h_id = ''h1'', h_name = ''Hub'' \<rparr>],
                 activeAlerts = [], sessionLogs = [], activeLoops = Map.empty,
                 intervals = [], nextInterval = 0, trace = [] \<rparr>"

text \<open>An environment with the local time \<open>h:m\<close>, a delivering push and no faults.\<close>

definition envAt :: "nat \<Rightarrow> nat \<Rightarrow> env" where
  "envAt h m = \<lparr> nowMs = 1000, hours = h, minutes = m, newId = ''a1'',
                 criticalPush = (\<lambda>_ _. \<lparr> pr_success = True, pr_resultsJson = Some ''[]'' \<rparr>),
                 findFails = False, logFails = False, pushFails = False, loopFails = False,
                 updateFails = False \<rparr>"

text \<open>
  The same user with a second live session, on socket client \<open>c6\<close>. Both sessions stop
  sending heartbeats together, both timers fire 30 s later, and each \<open>handleTimeout\<close>
  reaches \<open>startAlertLoop\<close>: call 0 for session \<open>s1\<close>, call 1 for session \<open>s2\<close>. In
  \<open>raceSchedule\<close> the store answers the two look-ups of call 0, then the two look-ups of
  call 1, and only then runs the \<open>create\<close> of call 0 and the \<open>create\<close> of call 1; in
  \<open>serialSchedule\<close> call 0 has returned before call 1 starts.
\<close>

definition session2 :: session where
  "session2 = session1\<lparr> s_id := ''s2'', s_wsClientId := ''c6'' \<rparr>"

definition backend2 :: backend where
  "backend2 = backend1\<lparr> sessions := [session1, session2] \<rparr>"

definition timeoutCalls :: "loop_call list" where
  "timeoutCalls =
     [\<lparr> lc_userId = ''u1'', lc_sessionId = ''s1'',
        lc_reason = ''Connection lost - possible crash, kick, or internet failure'',
        lc_gameName = ''G'', lc_at = AtFindUser \<rparr>,
      \<lparr> lc_userId = ''u1'', lc_sessionId = ''s2'',
        lc_reason = ''Connection lost - possible crash, kick, or internet failure'',
        lc_gameName = ''G'', lc_at = AtFindUser \<rparr>]"

definition stepEnv :: "int \<Rightarrow> string \<Rightarrow> env" where
  "stepEnv t i = (envAt 9 0)\<lparr> nowMs := t, newId := i \<rparr>"

definition raceSchedule :: "(nat \<times> env) list" where
  "raceSchedule =
     [(0, stepEnv 31000 ''a1''), (0, stepEnv 31001 ''a1''),
      (1, stepEnv 31002 ''a2''), (1, stepEnv 31003 ''a2''),
      (0, stepEnv 31004 ''a1''), (1, stepEnv 31005 ''a2'')]"

definition serialSchedule :: "(nat \<times> env) list" where
  "serialSchedule =
     [(0, stepEnv 31000 ''a1''), (0, stepEnv 31001 ''a1''), (0, stepEnv 31002 ''a1''),
      (1, stepEnv 31003 ''a2''), (1, stepEnv 31004 ''a2''), (1, stepEnv 31005 ''a2'')]"

section \<open>Predicates of the alert loop\<close>

text \<open>At most one unacknowledged ActiveAlert per user.\<close>

definition oneUnacknowledgedPerUser :: "active_alert list \<Rightarrow> bool" where
  "oneUnacknowledgedPerUser as =
     (\<forall>a \<in> set as. length (filter (\<lambda>x. a_userId x = a_userId a \<and> \<not> a_acknowledged x) as) \<le> 1)"

text \<open>
  An alert has a running interval when \<open>activeLoops\<close> records a handle for its id and a
  timer with that handle and that alert id is installed.
\<close>

definition running :: "string \<Rightarrow> backend \<Rightarrow> bool" where
  "running alertId b =
     (case activeLoops b alertId of
        None \<Rightarrow> False
      | Some h \<Rightarrow> \<exists>t \<in> set (intervals b). fst t = h \<and> fst (snd t) = alertId)"

text \<open>
  What the constructor and \<open>startLoop\<close>/\<open>stopLoop\<close> maintain: recorded handles are
  installed, no handle is ahead of the counter, and two alerts never share a handle.
\<close>

definition loopsConsistent :: "backend \<Rightarrow> bool" where
  "loopsConsistent b =
     ((\<forall>x h. activeLoops b x = Some h \<longrightarrow> running x b)
      \<and> (\<forall>t \<in> set (intervals b). fst t < nextInterval b)
      \<and> (\<forall>x y h. activeLoops b x = Some h \<and> activeLoops b y = Some h \<longrightarrow> x = y))"

text \<open>
  Two unacknowledged alerts below their cap of 30, one started 200 s and one 1100 s before
  the restart at \<open>nowMs = 1200000\<close>.
\<close>

definition fresh3 :: active_alert where
  "fresh3 = \<lparr> a_id = ''a3'', a_userId = ''u3'', a_sessionId = ''s3'', a_reason = ''lost'',
              a_gameName = ''G'', a_startedAt = 1000000, a_notificationsSent = 4,
              a_maxNotifications = 30, a_acknowledged = False, a_acknowledgedAt = None \<rparr>"

definition stale4 :: active_alert where
  "stale4 = \<lparr> a_id = ''a4'', a_userId = ''u4'', a_sessionId = ''s4'', a_reason = ''lost'',
              a_gameName = ''G'', a_startedAt = 100000, a_notificationsSent = 4,
              a_maxNotifications = 30, a_acknowledged = False, a_acknowledgedAt = None \<rparr>"

definition bootEnv :: env where
  "bootEnv = (envAt 9 0)\<lparr> nowMs := 1200000 \<rparr>"

section \<open>Message router (websocketV2.js)\<close>

text \<open>
  Sockets are numbered. \<open>clients\<close> is the \<open>Map\<close> from socket to client record, kept as an
  association list in insertion order (the order in which the handlers iterate it);
  \<open>openSockets\<close> holds the sockets whose \<open>readyState\<close> is \<open>OPEN\<close>; \<open>sent\<close> collects every
  frame written with \<open>ws.send\<close>, oldest first. \<open>timeouts\<close> are the pending \<open>setTimeout\<close>
  callbacks of the heartbeat monitor: handle, due time, and the client id, session id and
  user id the callback closes over. Of the client record, \<open>connectedAt\<close>, \<open>ip\<close> and
  \<open>deviceId\<close> are left out.
\<close>

datatype client_type = Roblox | Mobile

record client_info =
  c_id :: string
  c_type :: "client_type option"
  c_userId :: "string option"
  c_hubId :: "string option"
  c_sessionId :: "string option"
  c_authenticated :: bool

text \<open>
  Inbound and outbound frames, as far as the modelled handlers read and write them. The
  \<open>data\<close> payload is opaque JSON text.
\<close>

record message =
  m_sessionId :: "string option"
  m_command :: "string option"
  m_status :: "string option"
  m_data :: "string option"

datatype frame =
    ErrorFrame string string
  | CommandFrame string "string option"
  | CommandSent string
  | StatusUpdate "string option" "string option" "string option" int
  | SessionConnectionLost "string option" int

record rate_limit =
  lim_max :: nat
  lim_windowMs :: int

record rate_record =
  rl_count :: nat
  rl_resetTime :: int

record heartbeat_timer =
  hb_timer :: nat
  hb_sessionId :: string
  hb_userId :: string

record router =
  clients :: "(nat \<times> client_info) list"
  openSockets :: "nat set"
  sent :: "(nat \<times> frame) list"
  rateLimits :: "string \<rightharpoonup> rate_record"
  heartbeatTimers :: "string \<rightharpoonup> heartbeat_timer"
  timeouts :: "(nat \<times> int \<times> string \<times> string \<times> string) list"
  nextTimeout :: nat

text \<open>\<open>config.deadman\<close> with the defaults of \<open>config/index.js\<close>.\<close>

record config =
  heartbeatTimeout :: int
  reconnectGracePeriod :: int

definition defaultConfig :: config where
  "defaultConfig = \<lparr> heartbeatTimeout = 30000, reconnectGracePeriod = 5000 \<rparr>"

definition RATE_LIMITS :: "string \<Rightarrow> rate_limit option" where
  "RATE_LIMITS = map_of
     [(''status'', \<lparr> lim_max = 6, lim_windowMs = 60000 \<rparr>),
      (''log'', \<lparr> lim_max = 30, lim_windowMs = 60000 \<rparr>),
      (''notify'', \<lparr> lim_max = 5, lim_windowMs = 60000 \<rparr>),
      (''alert'', \<lparr> lim_max = 5, lim_windowMs = 60000 \<rparr>)]"

definition rateKey :: "string \<Rightarrow> string \<Rightarrow> string" where
  "rateKey clientId type = clientId @ '':'' @ type"

definition checkRateLimit :: "env \<Rightarrow> string \<Rightarrow> string \<Rightarrow> router \<Rightarrow> bool \<times> router" where
  "checkRateLimit e clientId type r =
     (case RATE_LIMITS type of
        None \<Rightarrow> (True, r)
      | Some limit \<Rightarrow>
          (let key = rateKey clientId type;
               now = nowMs e;
               fresh = r\<lparr> rateLimits := (rateLimits r)(key \<mapsto>
                          \<lparr> rl_count = 1, rl_resetTime = now + lim_windowMs limit \<rparr>) \<rparr>
           in case rateLimits r key of
                None \<Rightarrow> (True, fresh)
              | Some record \<Rightarrow>
                  if now > rl_resetTime record then (True, fresh)
                  else if rl_count record \<ge> lim_max limit then (False, r)
                  else (True, r\<lparr> rateLimits := (rateLimits r)(key \<mapsto>
                                  record\<lparr> rl_count := rl_count record + 1 \<rparr>) \<rparr>)))"

text \<open>\<open>send\<close> writes only to an open socket and drops the frame otherwise.\<close>

definition send :: "nat \<Rightarrow> frame \<Rightarrow> router \<Rightarrow> router" where
  "send ws data r = (if ws \<in> openSockets r then r\<lparr> sent := sent r @ [(ws, data)] \<rparr> else r)"

definition sendError :: "nat \<Rightarrow> string \<Rightarrow> string \<Rightarrow> router \<Rightarrow> router" where
  "sendError ws code msg r = send ws (ErrorFrame code msg) r"

definition typeName :: "client_type \<Rightarrow> string" where
  "typeName t = (case t of Roblox \<Rightarrow> ''roblox'' | Mobile \<Rightarrow> ''mobile'')"

definition requireAuth :: "nat \<Rightarrow> client_info \<Rightarrow> client_type \<Rightarrow> router \<Rightarrow> bool \<times> router" where
  "requireAuth ws client expectedType r =
     (if \<not> c_authenticated client
      then (False, sendError ws ''NOT_AUTHENTICATED'' ''Not authenticated'' r)
      else if c_type client \<noteq> Some expectedType
      then (False, sendError ws ''INVALID_MESSAGE''
                     (''This command is for '' @ typeName expectedType @ '' clients only'') r)
      else (True, r))"

definition notifyOne :: "string option \<Rightarrow> frame \<Rightarrow> router \<Rightarrow> nat \<times> client_info \<Rightarrow> router" where
  "notifyOne userId data r entry =
     (if c_type (snd entry) = Some Mobile \<and> c_userId (snd entry) = userId
         \<and> c_authenticated (snd entry)
      then send (fst entry) data r else r)"

definition notifyMobileApps :: "string option \<Rightarrow> frame \<Rightarrow> router \<Rightarrow> router" where
  "notifyMobileApps userId data r = foldl (notifyOne userId data) r (clients r)"

text \<open>
  \<open>handleStatus\<close>. A rejecting \<open>updateStatus\<close> leaves the handler with the error; the
  rate-limit counter has been charged by then.
\<close>

definition handleStatus ::
  "env \<Rightarrow> nat \<Rightarrow> client_info \<Rightarrow> message \<Rightarrow> router \<Rightarrow> backend \<Rightarrow> error option \<times> router \<times> backend" where
  "handleStatus e ws client msg r b =
     (case requireAuth ws client Roblox r of
        (False, r1) \<Rightarrow> (None, r1, b)
      | (True, r1) \<Rightarrow>
          (case checkRateLimit e (c_id client) ''status'' r1 of
             (False, r2) \<Rightarrow>
               (None, sendError ws ''RATE_LIMITED'' ''Status updates limited to 6 per minute'' r2, b)
           | (True, r2) \<Rightarrow>
               (case updateStatus (c_id client) (m_status msg) b of
                  Inl err \<Rightarrow> (Some err, r2, b)
                | Inr b1 \<Rightarrow>
                    (None,
                     notifyMobileApps (c_userId client)
                       (StatusUpdate (c_sessionId client) (m_status msg) (m_data msg) (nowMs e)) r2,
                     b1))))"

text \<open>
  The \<open>status\<close> arm of \<open>handleMessage\<close>: whatever the handler throws is caught and
  answered with an \<open>INVALID_MESSAGE\<close> error frame.
\<close>

definition statusMessage ::
  "env \<Rightarrow> nat \<Rightarrow> client_info \<Rightarrow> message \<Rightarrow> router \<times> backend \<Rightarrow> router \<times> backend" where
  "statusMessage e ws client msg rb =
     (case handleStatus e ws client msg (fst rb) (snd rb) of
        (None, r1, b1) \<Rightarrow> (r1, b1)
      | (Some err, r1, b1) \<Rightarrow>
          (sendError ws ''INVALID_MESSAGE'' ''Invalid message format'' r1, b1))"

text \<open>A run of \<open>status\<close> messages on one socket, each with the clock at its arrival.\<close>

fun statusBurst :: "nat \<Rightarrow> client_info \<Rightarrow> (env \<times> message) list \<Rightarrow> router \<times> backend \<Rightarrow> router \<times> backend" where
  "statusBurst ws client [] rb = rb"
| "statusBurst ws client (em # rest) rb =
     statusBurst ws client rest (statusMessage (fst em) ws client (snd em) rb)"

text \<open>
  \<open>handleCommand\<close>: the first client in the map whose session id is the requested one and
  whose type is \<open>roblox\<close> gets the command.
\<close>

definition handleCommand :: "nat \<Rightarrow> client_info \<Rightarrow> message \<Rightarrow> router \<Rightarrow> router" where
  "handleCommand ws client msg r =
     (case requireAuth ws client Mobile r of
        (False, r1) \<Rightarrow> r1
      | (True, r1) \<Rightarrow>
          (case (m_sessionId msg, m_command msg) of
             (Some sessionId, Some command) \<Rightarrow>
               if sessionId = [] \<or> command = []
               then sendError ws ''INVALID_PARAMS'' ''sessionId and command are required'' r1
               else
                 (case find (\<lambda>target. c_sessionId (snd target) = Some sessionId
                                       \<and> c_type (snd target) = Some Roblox) (clients r1) of
                    Some target \<Rightarrow>
                      send ws (CommandSent sessionId)
                        (send (fst target) (CommandFrame command (m_data msg)) r1)
                  | None \<Rightarrow> sendError ws ''SESSION_NOT_FOUND'' ''Session not connected'' r1)
           | _ \<Rightarrow> sendError ws ''INVALID_PARAMS'' ''sessionId and command are required'' r1))"

text \<open>Heartbeat monitor: one pending timeout per client id.\<close>

definition stopHeartbeatMonitor :: "string \<Rightarrow> router \<Rightarrow> router" where
  "stopHeartbeatMonitor clientId r =
     (case heartbeatTimers r clientId of
        None \<Rightarrow> r
      | Some existing \<Rightarrow>
          r\<lparr> timeouts := filter (\<lambda>t. fst t \<noteq> hb_timer existing) (timeouts r),
             heartbeatTimers := (heartbeatTimers r)(clientId := None) \<rparr>)"

text \<open>\<open>config.deadman?.heartbeatTimeout || 30000\<close>: a configured 0 falls back to the default.\<close>

definition startHeartbeatMonitor :: "config \<Rightarrow> env \<Rightarrow> string \<Rightarrow> string \<Rightarrow> string \<Rightarrow> router \<Rightarrow> router" where
  "startHeartbeatMonitor cfg e clientId sessionId userId r =
     (let r1 = stopHeartbeatMonitor clientId r;
          timeoutMs = (if heartbeatTimeout cfg = 0 then 30000 else heartbeatTimeout cfg);
          h = nextTimeout r1
      in r1\<lparr> timeouts := timeouts r1 @ [(h, nowMs e + timeoutMs, clientId, sessionId, userId)],
              nextTimeout := Suc h,
              heartbeatTimers := (heartbeatTimers r1)(clientId \<mapsto>
                 \<lparr> hb_timer = h, hb_sessionId = sessionId, hb_userId = userId \<rparr>) \<rparr>)"

definition resetHeartbeatMonitor :: "config \<Rightarrow> env \<Rightarrow> string \<Rightarrow> router \<Rightarrow> bool \<times> router" where
  "resetHeartbeatMonitor cfg e clientId r =
     (case heartbeatTimers r clientId of
        None \<Rightarrow> (False, r)
      | Some existing \<Rightarrow>
          (True, startHeartbeatMonitor cfg e clientId (hb_sessionId existing) (hb_userId existing) r))"

text \<open>
  \<open>triggerDeadManSwitch\<close>: the state machine's timeout path; when it answers with a result
  the first socket of that client id is closed (\<open>ws.close()\<close> ends its \<open>OPEN\<close> state).
\<close>

definition triggerDeadManSwitch :: "env \<Rightarrow> string \<Rightarrow> router \<Rightarrow> backend \<Rightarrow> error option \<times> router \<times> backend" where
  "triggerDeadManSwitch e clientId r b =
     (case handleTimeout e clientId b of
        (Inl err, b1) \<Rightarrow> (Some err, r, b1)
      | (Inr None, b1) \<Rightarrow> (None, r, b1)
      | (Inr (Some result), b1) \<Rightarrow>
          (case find (\<lambda>entry. c_id (snd entry) = clientId) (clients r) of
             None \<Rightarrow> (None, r, b1)
           | Some entry \<Rightarrow> (None, r\<lparr> openSockets := openSockets r - {fst entry} \<rparr>, b1)))"

text \<open>
  The timer with handle \<open>h\<close> fires: it must be pending and due; it leaves the pending timers
  and runs its callback. \<open>heartbeatTimers\<close> keeps its entry.
\<close>

definition fireTimeout :: "env \<Rightarrow> nat \<Rightarrow> router \<Rightarrow> backend \<Rightarrow> error option \<times> router \<times> backend" where
  "fireTimeout e h r b =
     (case find (\<lambda>t. fst t = h) (timeouts r) of
        None \<Rightarrow> (None, r, b)
      | Some t \<Rightarrow>
          if nowMs e < fst (snd t) then (None, r, b)
          else triggerDeadManSwitch e (fst (snd (snd t)))
                 (r\<lparr> timeouts := filter (\<lambda>t. fst t \<noteq> h) (timeouts r) \<rparr>) b)"

text \<open>
  \<open>handleClose\<close>: an authenticated producer's consumers are told at once; the socket
  leaves the map; the heartbeat monitor is not touched.
\<close>

definition handleClose :: "env \<Rightarrow> nat \<Rightarrow> router \<Rightarrow> router" where
  "handleClose e ws r =
     (case map_of (clients r) ws of
        None \<Rightarrow> r
      | Some client \<Rightarrow>
          (let r1 = (if c_type client = Some Roblox \<and> c_authenticated client
                     then notifyMobileApps (c_userId client)
                            (SessionConnectionLost (c_sessionId client) (nowMs e)) r
                     else r)
           in r1\<lparr> clients := filter (\<lambda>entry. fst entry \<noteq> ws) (clients r1) \<rparr>))"

text \<open>The frames a fan-out to the consumers of \<open>userId\<close> writes, in map order.\<close>

definition fanout :: "router \<Rightarrow> string option \<Rightarrow> frame \<Rightarrow> (nat \<times> frame) list" where
  "fanout r userId data =
     map (\<lambda>entry. (fst entry, data))
       (filter (\<lambda>entry. c_type (snd entry) = Some Mobile \<and> c_userId (snd entry) = userId
                          \<and> c_authenticated (snd entry) \<and> fst entry \<in> openSockets r)
          (clients r))"

section \<open>Router scenario\<close>

text \<open>
  Socket 7 is the producer of \<open>session1\<close> (user \<open>u1\<close>); socket 8 is a consumer of the same
  user; socket 9 is a consumer of another user, \<open>u2\<close>. All three are open.
\<close>

definition producer1 :: client_info where
  "producer1 = \<lparr> c_id = ''c1'', c_type = Some Roblox, c_userId = Some ''u1'',
                  c_hubId = Some ''h1'', c_sessionId = Some ''s1'', c_authenticated = True \<rparr>"

definition consumer1 :: client_info where
  "consumer1 = \<lparr> c_id = ''c2'', c_type = Some Mobile, c_userId = Some ''u1'',
                  c_hubId = None, c_sessionId = None, c_authenticated = True \<rparr>"

definition consumer2 :: client_info where
  "consumer2 = \<lparr> c_id = ''c3'', c_type = Some Mobile, c_userId = Some ''u2'',
                  c_hubId = None, c_sessionId = None, c_authenticated = True \<rparr>"

definition router0 :: router where
  "router0 = \<lparr> clients = [(7, producer1), (8, consumer1), (9, consumer2)],
                openSockets = {7, 8, 9}, sent = [], rateLimits = Map.empty,
                heartbeatTimers = Map.empty, timeouts = [], nextTimeout = 0 \<rparr>"

definition clockAt :: "int \<Rightarrow> env" where
  "clockAt t = (envAt 9 0)\<lparr> nowMs := t \<rparr>"

definition statusMsg :: "string \<Rightarrow> message" where
  "statusMsg txt = \<lparr> m_sessionId = None, m_command = None, m_status = Some txt, m_data = None \<rparr>"

definition commandMsg :: "string \<Rightarrow> string \<Rightarrow> message" where
  "commandMsg sessionId command =
     \<lparr> m_sessionId = Some sessionId, m_command = Some command, m_status = None, m_data = None \<rparr>"

definition fiveMore :: "(env \<times> message) list" where
  "fiveMore = map (\<lambda>t. (clockAt t, statusMsg ''Farming'')) [1001, 1002, 1003, 1004, 1005]"

text \<open>The router after the producer's \<open>connect\<close> at \<open>nowMs = 1000\<close> has started its monitor.\<close>

definition router1 :: router where
  "router1 = startHeartbeatMonitor defaultConfig (clockAt 1000) ''c1'' ''s1'' ''u1'' router0"

text \<open>
  The router while another producer, client \<open>c5\<close>, has used up its six \<open>status\<close> messages
  of the window that ends at \<open>nowMs = 60500\<close>, and the producer of socket 7 itself has
  used up its five \<open>notify\<close> messages.
\<close>

definition routerOthersLimited :: router where
  "routerOthersLimited =
     router0\<lparr> rateLimits :=
       [rateKey ''c5'' ''status'' \<mapsto> \<lparr> rl_count = 6, rl_resetTime = 60500 \<rparr>,
        rateKey ''c1'' ''notify'' \<mapsto> \<lparr> rl_count = 5, rl_resetTime = 60500 \<rparr>] \<rparr>"

section \<open>Legacy watchdog (deadman.js)\<close>

text \<open>
  The service of the first router generation, keyed by that router's session id (its client
  id). Its state: \<open>monitoredSessions\<close>; the pending \<open>setTimeout\<close> callbacks, which are either
  a heartbeat expiry or the check that \<open>handleAbruptDisconnect\<close> schedules; and, from the
  cache it talks to, the active connections, the push token of each user, the disconnect
  log (newest first, 100 entries) and the critical alerts handed to the push transport.
\<close>

record connection =
  conn_userId :: string
  conn_gameName :: "string option"

datatype watchdog_callback = HeartbeatExpiry string | GraceCheck string

record watchdog =
  monitoredSessions :: "string \<rightharpoonup> nat"
  wd_timeouts :: "(nat \<times> int \<times> watchdog_callback) list"
  wd_nextTimeout :: nat
  activeConnections :: "string \<rightharpoonup> connection"
  userDevices :: "string \<rightharpoonup> string"
  disconnectLog :: "(string \<times> string \<times> string) list"
  fcmAlerts :: "(string \<times> string \<times> string \<times> string) list"

definition stopMonitoring :: "string \<Rightarrow> watchdog \<Rightarrow> watchdog" where
  "stopMonitoring sessionId w =
     (case monitoredSessions w sessionId of
        None \<Rightarrow> w
      | Some timer \<Rightarrow>
          w\<lparr> wd_timeouts := filter (\<lambda>t. fst t \<noteq> timer) (wd_timeouts w),
             monitoredSessions := (monitoredSessions w)(sessionId := None) \<rparr>)"

definition startMonitoring :: "config \<Rightarrow> env \<Rightarrow> string \<Rightarrow> watchdog \<Rightarrow> watchdog" where
  "startMonitoring cfg e sessionId w =
     (let w1 = stopMonitoring sessionId w;
          timer = wd_nextTimeout w1
      in w1\<lparr> wd_timeouts := wd_timeouts w1 @ [(timer, nowMs e + heartbeatTimeout cfg, HeartbeatExpiry sessionId)],
              wd_nextTimeout := Suc timer,
              monitoredSessions := (monitoredSessions w1)(sessionId \<mapsto> timer) \<rparr>)"

definition logDisconnect :: "string \<Rightarrow> string \<Rightarrow> string \<Rightarrow> watchdog \<Rightarrow> watchdog" where
  "logDisconnect sessionId type reason w =
     w\<lparr> disconnectLog := take 100 ((sessionId, type, reason) # disconnectLog w) \<rparr>"

text \<open>
  The watchdog's own \<open>handleTimeout\<close>: forget the monitor; without a connection record
  nothing more; without a push token only the log entry; otherwise the critical alert, the
  connection record deleted and the log entry.
\<close>

definition watchdogTimeout :: "string \<Rightarrow> watchdog \<Rightarrow> watchdog" where
  "watchdogTimeout sessionId w =
     (let w1 = w\<lparr> monitoredSessions := (monitoredSessions w)(sessionId := None) \<rparr>
      in case activeConnections w1 sessionId of
           None \<Rightarrow> w1
         | Some connection \<Rightarrow>
             (case userDevices w1 (conn_userId connection) of
                None \<Rightarrow> logDisconnect sessionId ''timeout'' ''No device registered'' w1
              | Some fcmToken \<Rightarrow>
                  if fcmToken = [] then logDisconnect sessionId ''timeout'' ''No device registered'' w1
                  else
                    logDisconnect sessionId ''timeout'' ''Dead Man Switch triggered''
                      (w1\<lparr> fcmAlerts := fcmAlerts w1 @
                              [(fcmToken, sessionId,
                                ''Heartbeat timeout - possible crash or disconnect'',
                                orElse (conn_gameName connection) ''Unknown Game'')],
                            activeConnections := (activeConnections w1)(sessionId := None) \<rparr>)))"

text \<open>
  \<open>handleAbruptDisconnect\<close> only schedules; \<open>graceCheck\<close> is the callback it schedules.
\<close>

definition handleAbruptDisconnect :: "config \<Rightarrow> env \<Rightarrow> string \<Rightarrow> watchdog \<Rightarrow> watchdog" where
  "handleAbruptDisconnect cfg e sessionId w =
     w\<lparr> wd_timeouts := wd_timeouts w @
           [(wd_nextTimeout w, nowMs e + reconnectGracePeriod cfg, GraceCheck sessionId)],
        wd_nextTimeout := Suc (wd_nextTimeout w) \<rparr>"

definition graceCheck :: "string \<Rightarrow> watchdog \<Rightarrow> watchdog" where
  "graceCheck sessionId w =
     (if monitoredSessions w sessionId \<noteq> None then w
      else (case activeConnections w sessionId of
              None \<Rightarrow> w
            | Some connection \<Rightarrow> watchdogTimeout sessionId w))"

definition watchdog0 :: watchdog where
  "watchdog0 = \<lparr> monitoredSessions = Map.empty, wd_timeouts = [], wd_nextTimeout = 0,
                  activeConnections = Map.empty, userDevices = Map.empty,
                  disconnectLog = [], fcmAlerts = [] \<rparr>"

section \<open>Verified properties\<close>

subsection \<open>The timeout path\<close>

lemma find_Some_mem: "find P xs = Some x \<Longrightarrow> x \<in> set xs \<and> P x"
  by (induction xs) (auto split: if_splits)

text \<open>One call of \<open>startAlertLoop\<close> that nothing interrupts, in closed form.\<close>

lemma startAlertLoop_run:
  "startAlertLoop e userId sessionId reason gameName b =
     (case find (\<lambda>u. u_id u = userId) (users b) of
        None \<Rightarrow> (None, b)
      | Some u \<Rightarrow>
          if \<not> u_lifeOrDeathMode u then (None, b)
          else
            (case find (\<lambda>a. a_userId a = userId \<and> \<not> a_acknowledged a) (activeAlerts b) of
               Some existingAlert \<Rightarrow> (Some existingAlert, b)
             | None \<Rightarrow>
                 (Some \<lparr> a_id = newId e, a_userId = userId, a_sessionId = sessionId,
                          a_reason = reason, a_gameName = gameName, a_startedAt = nowMs e,
                          a_notificationsSent = 1, a_maxNotifications = MAX_NOTIFICATIONS,
                          a_acknowledged = False, a_acknowledgedAt = None \<rparr>,
                  startLoop (newId e) userId
                    (b\<lparr> activeAlerts := activeAlerts b @
                          [\<lparr> a_id = newId e, a_userId = userId, a_sessionId = sessionId,
                             a_reason = reason, a_gameName = gameName, a_startedAt = nowMs e,
                             a_notificationsSent = 1, a_maxNotifications = MAX_NOTIFICATIONS,
                             a_acknowledged = False, a_acknowledgedAt = None \<rparr>] \<rparr>))))"
  by (simp add: startAlertLoop_def resume_def Let_def split: option.splits)

lemma startAlertLoop_keeps:
  "sessions (snd (startAlertLoop e uid sid r g b)) = sessions b"
  "trace (snd (startAlertLoop e uid sid r g b)) = trace b"
  "users (snd (startAlertLoop e uid sid r g b)) = users b"
  "hubs (snd (startAlertLoop e uid sid r g b)) = hubs b"
  "sessionLogs (snd (startAlertLoop e uid sid r g b)) = sessionLogs b"
  by (simp_all add: startAlertLoop_run startLoop_def clearInterval_def Let_def split: option.splits)

lemma error_level: "normalizeLevel (Some ''error'') = ERROR"
  by (simp add: normalizeLevel_def toUpperCase_def toUpperChar_def)

lemma sessionUpdate_mem:
  "x \<in> set (sessions b) \<Longrightarrow> wh x \<Longrightarrow>
   sessionUpdate wh data b = Inr (b\<lparr> sessions := map (\<lambda>s. if wh s then data s else s) (sessions b) \<rparr>)"
  unfolding sessionUpdate_def by auto

text \<open>
  The alert branch under every combination of failing calls: what it answers and what it
  leaves behind, field by field.
\<close>

lemma timeoutAlert_faults:
  fixes u :: user and session :: session and b :: backend and e :: env
  assumes mem: "session \<in> set (sessions b)"
  defines "row \<equiv> logRow (s_id session) (s_userId session) (Some ''error'') (timeoutMessage session)"
    and "alertData \<equiv> timeoutAlertData session u b"
    and "failed \<equiv> pushFails e \<or> (u_lifeOrDeathMode u \<and> loopFails e) \<or> updateFails e"
  shows "fst (timeoutAlert e session u b) =
           (if pushFails e then Inl PushError
            else if failed then Inl StoreError
            else Inr (Some \<lparr> tr_session = session, tr_alertSent = True, tr_reason = None,
                              tr_alertResult = Some (criticalPush e (s_userId session) alertData) \<rparr>))"
    and "sessions (snd (timeoutAlert e session u b)) =
           (if failed then sessions b
            else map (\<lambda>s. if s_id s = s_id session
                          then alertedData e (criticalPush e (s_userId session) alertData) s
                          else s) (sessions b))"
    and "trace (snd (timeoutAlert e session u b)) =
           trace b @ (if logFails e then [] else [LogPersisted row])
             @ [PushInvoked (s_userId session) alertData]
             @ (if failed then [] else [SessionPersisted (s_id session)])"
    and "sessionLogs (snd (timeoutAlert e session u b)) =
           sessionLogs b @ (if logFails e then [] else [row])"
proof -
  define b1 where "b1 = createLog e (s_id session) (s_userId session) (Some ''error'')
                          (timeoutMessage session) b"
  have b1: "sessions b1 = sessions b" "hubs b1 = hubs b"
      "trace b1 = trace b @ (if logFails e then [] else [LogPersisted row])"
      "sessionLogs b1 = sessionLogs b @ (if logFails e then [] else [row])"
    by (simp_all add: b1_def createLog_def Let_def row_def)
  have ad: "timeoutAlertData session u b1 = alertData"
    by (simp add: timeoutAlertData_def alertData_def b1)
  define b2 where "b2 = b1\<lparr> trace := trace b1 @ [PushInvoked (s_userId session) alertData] \<rparr>"
  have b2: "sessions b2 = sessions b"
      "trace b2 = trace b @ (if logFails e then [] else [LogPersisted row])
                    @ [PushInvoked (s_userId session) alertData]"
      "sessionLogs b2 = sessionLogs b @ (if logFails e then [] else [row])"
    by (simp_all add: b2_def b1)
  define b3 where "b3 = (if u_lifeOrDeathMode u
                         then snd (startAlertLoop e (s_userId session) (s_id session)
                                     (ad_reason alertData) (ad_gameName alertData) b2)
                         else b2)"
  have b3: "sessions b3 = sessions b" "trace b3 = trace b2" "sessionLogs b3 = sessionLogs b2"
    by (simp_all add: b3_def b2 startAlertLoop_keeps)
  have mem3: "session \<in> set (sessions b3)"
    using mem b3 by simp
  have upd: "sessionUpdate (\<lambda>s. s_id s = s_id session) d b3 =
      Inr (b3\<lparr> sessions := map (\<lambda>s. if s_id s = s_id session then d s else s) (sessions b3) \<rparr>)" for d
    using sessionUpdate_mem [OF mem3, of "\<lambda>s. s_id s = s_id session" d] by simp
  have run: "timeoutAlert e session u b =
      (if pushFails e then (Inl PushError, b2)
       else if u_lifeOrDeathMode u \<and> loopFails e then (Inl StoreError, b2)
       else if updateFails e then (Inl StoreError, b3)
       else (Inr (Some \<lparr> tr_session = session, tr_alertSent = True, tr_reason = None,
                          tr_alertResult = Some (criticalPush e (s_userId session) alertData) \<rparr>),
             b3\<lparr> sessions := map (\<lambda>s. if s_id s = s_id session
                                       then alertedData e (criticalPush e (s_userId session) alertData) s
                                       else s) (sessions b3),
                 trace := trace b3 @ [SessionPersisted (s_id session)] \<rparr>))"
    unfolding timeoutAlert_def Let_def b1_def [symmetric] ad b2_def [symmetric]
    by (simp add: b3_def upd [unfolded b3_def])
  show "fst (timeoutAlert e session u b) =
           (if pushFails e then Inl PushError
            else if failed then Inl StoreError
            else Inr (Some \<lparr> tr_session = session, tr_alertSent = True, tr_reason = None,
                              tr_alertResult = Some (criticalPush e (s_userId session) alertData) \<rparr>))"
    by (simp add: run failed_def)
  show "sessions (snd (timeoutAlert e session u b)) =
           (if failed then sessions b
            else map (\<lambda>s. if s_id s = s_id session
                          then alertedData e (criticalPush e (s_userId session) alertData) s
                          else s) (sessions b))"
    by (simp add: run failed_def b2 b3)
  show "trace (snd (timeoutAlert e session u b)) =
           trace b @ (if logFails e then [] else [LogPersisted row])
             @ [PushInvoked (s_userId session) alertData]
             @ (if failed then [] else [SessionPersisted (s_id session)])"
    by (simp add: run failed_def b2 b3)
  show "sessionLogs (snd (timeoutAlert e session u b)) =
           sessionLogs b @ (if logFails e then [] else [row])"
    by (simp add: run failed_def b2 b3)
qed

text \<open>The same with the log, the push and the alert loop going through.\<close>

lemma timeoutAlert_effect:
  fixes u :: user and session :: session and b :: backend and e :: env
  assumes mem: "session \<in> set (sessions b)"
    and nf: "\<not> logFails e" "\<not> pushFails e" "\<not> loopFails e"
  defines "row \<equiv> logRow (s_id session) (s_userId session) (Some ''error'') (timeoutMessage session)"
    and "alertData \<equiv> timeoutAlertData session u b"
  shows "fst (timeoutAlert e session u b) =
           (if updateFails e then Inl StoreError
            else Inr (Some \<lparr> tr_session = session, tr_alertSent = True, tr_reason = None,
                              tr_alertResult = Some (criticalPush e (s_userId session) alertData) \<rparr>))"
    and "sessions (snd (timeoutAlert e session u b)) =
           (if updateFails e then sessions b
            else map (\<lambda>s. if s_id s = s_id session
                          then alertedData e (criticalPush e (s_userId session) alertData) s
                          else s) (sessions b))"
    and "trace (snd (timeoutAlert e session u b)) =
           trace b @ [LogPersisted row, PushInvoked (s_userId session) alertData]
             @ (if updateFails e then [] else [SessionPersisted (s_id session)])"
    and "sessionLogs (snd (timeoutAlert e session u b)) = sessionLogs b @ [row]"
  using timeoutAlert_faults [OF mem, of e u] nf
  by (simp_all add: row_def alertData_def)

lemma timeoutQuiet_effect:
  assumes mem: "session \<in> set (sessions b)" and nf: "\<not> updateFails e"
  shows "timeoutQuiet e session b =
           (Inr (Some \<lparr> tr_session = session, tr_alertSent = False,
                        tr_reason = Some ''QUIET_HOURS'', tr_alertResult = None \<rparr>),
            b\<lparr> sessions := map (\<lambda>s. if s_id s = s_id session then quietData e s else s) (sessions b),
               trace := trace b @ [SessionPersisted (s_id session)] \<rparr>)"
  using nf sessionUpdate_mem [OF mem, of "\<lambda>s. s_id s = s_id session" "quietData e"]
  by (simp add: timeoutQuiet_def)

text \<open>
  Parsing \<open>HH:MM\<close>: the two digits before the colon are the hour, the two after it the
  minute, and the minute of the day is \<open>hour * 60 + minute\<close>.
\<close>

lemma digit_at:
  assumes "d < 10"
  shows "digitVal (''0123456789'' ! d) = Some d" and "''0123456789'' ! d \<noteq> CHR '':''"
proof -
  from assms have "d = 0 \<or> d = 1 \<or> d = 2 \<or> d = 3 \<or> d = 4 \<or> d = 5 \<or> d = 6 \<or> d = 7 \<or> d = 8 \<or> d = 9"
    by arith
  then show "digitVal (''0123456789'' ! d) = Some d" and "''0123456789'' ! d \<noteq> CHR '':''"
    by (auto simp: digitVal_def)
qed

lemma twoDigits_Number:
  assumes "n < 100"
  shows "js_Number (twoDigits n) = Integer n"
proof -
  have d: "n div 10 < 10" "n mod 10 < 10"
    using assms by simp_all
  have "digitsVal 0 (twoDigits n) = Some (n div 10 * 10 + n mod 10)"
    by (simp add: twoDigits_def digit_at(1) [OF d(1)] digit_at(1) [OF d(2)])
  then show ?thesis
    using assms by (simp add: js_Number_def)
qed

lemma js_split_hhmm:
  assumes "h < 100" "m < 100"
  shows "js_split CHR '':'' (hhmm h m) = [twoDigits h, twoDigits m]"
proof -
  have d: "h div 10 < 10" "h mod 10 < 10" "m div 10 < 10" "m mod 10 < 10"
    using assms by simp_all
  show ?thesis
    by (simp add: hhmm_def twoDigits_def digit_at(2) [OF d(1)] digit_at(2) [OF d(2)]
        digit_at(2) [OF d(3)] digit_at(2) [OF d(4)])
qed

lemma minuteOfDay_hhmm:
  assumes "h < 100" "m < 100"
  shows "minuteOfDay (hhmm h m) = Integer (h * 60 + m)"
  using assms
  by (simp add: minuteOfDay_def js_split_hhmm [OF assms] twoDigits_Number)

lemma hhmm_truthy: "\<not> falsy (Some (hhmm h m))"
  by (simp add: falsy_def hhmm_def twoDigits_def)

lemma isQuietHours_hhmm:
  assumes "u_quietHoursEnabled u"
    and "u_quietHoursStart u = Some (hhmm sh sm)" "sh < 100" "sm < 100"
    and "u_quietHoursEnd u = Some (hhmm eh em)" "eh < 100" "em < 100"
  shows "isQuietHours e u =
           Some (if sh * 60 + sm > eh * 60 + em
                 then hours e * 60 + minutes e \<ge> sh * 60 + sm \<or> hours e * 60 + minutes e < eh * 60 + em
                 else hours e * 60 + minutes e \<ge> sh * 60 + sm \<and> hours e * 60 + minutes e < eh * 60 + em)"
  using assms by (simp add: isQuietHours_def Let_def hhmm_truthy minuteOfDay_hhmm)

text \<open>
  Strings that are not of that format. With no colon the minute is \<open>undefined\<close>, the sum
  is \<open>NaN\<close> and the answer is \<open>false\<close>. A signed hour, which \<open>Number\<close> reads, and a
  minute above \<open>2^53\<close>, which \<open>Number\<close> rounds, get no answer here, and neither does
  the timeout of a session of such a user.
\<close>

lemma quiet_hours_other_strings:
  "isQuietHours (envAt 4 30) (user1\<lparr> u_quietHoursStart := Some ''2300'' \<rparr>) = Some False"
  "isQuietHours (envAt 4 30) (user1\<lparr> u_quietHoursEnd := Some ''+7:00'' \<rparr>) = None"
  "isQuietHours (envAt 0 0) (user1\<lparr> u_quietHoursStart := Some ''0:9007199254740993'',
                                       u_quietHoursEnd := Some ''0:9007199254740992'' \<rparr>) = None"
  "fst (handleTimeout (envAt 4 30) ''c1''
          (backend1\<lparr> users := [user1\<lparr> u_quietHoursEnd := Some ''+7:00'' \<rparr>] \<rparr>)) = Inl NotModelled"
  by (simp_all add: handleTimeout_def isQuietHours_def minuteOfDay_def js_Number_def digitVal_def
      falsy_def Let_def user1_def envAt_def backend1_def session1_def)

text \<open>
  Claim C3. A heartbeat timeout of a session whose user has quiet hours enabled, with start
  \<open>HH:MM\<close> and end \<open>HH:MM\<close> giving the minutes of the day \<open>s\<close> and \<open>en\<close>, at the minute
  of day \<open>m\<close>: inside the window (\<open>s \<le> m < en\<close> when \<open>s \<le> en\<close>, \<open>m \<ge> s\<close> or \<open>m < en\<close>
  when the window wraps overnight) the session goes to \<open>TIMEOUT\<close> with the message
  "Heartbeat timeout (quiet hours - no alert)" and \<open>alertSent = false\<close>, the call returns
  \<open>{alertSent: false, reason: "QUIET_HOURS"}\<close>, and neither a log nor a push happens
  (the only effect is the session write). Outside the window the push is invoked, the call
  returns \<open>alertSent: true\<close> and the session is written with \<open>alertSent = true\<close>.
\<close>

theorem quiet_hours_timeout:
  fixes e :: env and b :: backend
  assumes found: "\<not> findFails e"
      "find (\<lambda>x. s_wsClientId x = c) (sessions b) = Some session"
      "find (\<lambda>x. u_id x = s_userId session) (users b) = Some u"
    and quiet: "u_quietHoursEnabled u"
      "u_quietHoursStart u = Some (hhmm sh sm)" "sh < 24" "sm < 60"
      "u_quietHoursEnd u = Some (hhmm eh em)" "eh < 24" "em < 60"
    and s: "s = sh * 60 + sm"
    and en: "en = eh * 60 + em"
    and m: "m = hours e * 60 + minutes e"
    and r: "r = criticalPush e (s_userId session) (timeoutAlertData session u b)"
  shows "((if s \<le> en then s \<le> m \<and> m < en else m \<ge> s \<or> m < en) \<and> \<not> updateFails e \<longrightarrow>
            fst (handleTimeout e c b) =
              Inr (Some \<lparr> tr_session = session, tr_alertSent = False,
                           tr_reason = Some ''QUIET_HOURS'', tr_alertResult = None \<rparr>)
            \<and> sessions (snd (handleTimeout e c b)) =
                map (\<lambda>x. if s_id x = s_id session then quietData e x else x) (sessions b)
            \<and> s_status (quietData e session) = TIMEOUT
            \<and> s_disconnectMessage (quietData e session) = Some ''Heartbeat timeout (quiet hours - no alert)''
            \<and> \<not> s_alertSent (quietData e session)
            \<and> sessionLogs (snd (handleTimeout e c b)) = sessionLogs b
            \<and> trace (snd (handleTimeout e c b)) = trace b @ [SessionPersisted (s_id session)])
       \<and> (\<not> (if s \<le> en then s \<le> m \<and> m < en else m \<ge> s \<or> m < en)
            \<and> \<not> pushFails e \<and> \<not> loopFails e \<and> \<not> updateFails e \<longrightarrow>
            fst (handleTimeout e c b) =
              Inr (Some \<lparr> tr_session = session, tr_alertSent = True,
                           tr_reason = None, tr_alertResult = Some r \<rparr>)
            \<and> sessions (snd (handleTimeout e c b)) =
                map (\<lambda>x. if s_id x = s_id session then alertedData e r x else x) (sessions b)
            \<and> s_status (alertedData e r session) = TIMEOUT
            \<and> s_alertSent (alertedData e r session)
            \<and> trace (snd (handleTimeout e c b)) =
                trace b
                  @ (if logFails e then []
                     else [LogPersisted (logRow (s_id session) (s_userId session) (Some ''error'')
                                           (timeoutMessage session))])
                  @ [PushInvoked (s_userId session) (timeoutAlertData session u b),
                     SessionPersisted (s_id session)])"
proof -
  have mem: "session \<in> set (sessions b)"
    using found(2) by (simp add: find_Some_mem)
  have bounds: "sh < 100" "sm < 100" "eh < 100" "em < 100"
    using quiet by simp_all
  have iq: "isQuietHours e u = Some (if s \<le> en then s \<le> m \<and> m < en else m \<ge> s \<or> m < en)"
    unfolding isQuietHours_hhmm [OF quiet(1) quiet(2) bounds(1,2) quiet(5) bounds(3,4)] s en m
    by auto
  have ht: "handleTimeout e c b =
      (if (if s \<le> en then s \<le> m \<and> m < en else m \<ge> s \<or> m < en)
       then timeoutQuiet e session b else timeoutAlert e session u b)"
    using found quiet(1) by (simp add: handleTimeout_def iq)
  show ?thesis
  proof (intro conjI impI)
    assume a: "(if s \<le> en then s \<le> m \<and> m < en else m \<ge> s \<or> m < en) \<and> \<not> updateFails e"
    then have q: "handleTimeout e c b =
       (Inr (Some \<lparr> tr_session = session, tr_alertSent = False,
                        tr_reason = Some ''QUIET_HOURS'', tr_alertResult = None \<rparr>),
            b\<lparr> sessions := map (\<lambda>s. if s_id s = s_id session then quietData e s else s) (sessions b),
               trace := trace b @ [SessionPersisted (s_id session)] \<rparr>)"
      using ht timeoutQuiet_effect [OF mem, of e] by simp
    show "fst (handleTimeout e c b) =
              Inr (Some \<lparr> tr_session = session, tr_alertSent = False,
                           tr_reason = Some ''QUIET_HOURS'', tr_alertResult = None \<rparr>)"
      by (simp add: q)
    show "sessions (snd (handleTimeout e c b)) =
                map (\<lambda>x. if s_id x = s_id session then quietData e x else x) (sessions b)"
      by (simp add: q)
    show "s_status (quietData e session) = TIMEOUT"
      by (simp add: quietData_def)
    show "s_disconnectMessage (quietData e session) = Some ''Heartbeat timeout (quiet hours - no alert)''"
      by (simp add: quietData_def)
    show "\<not> s_alertSent (quietData e session)"
      by (simp add: quietData_def)
    show "sessionLogs (snd (handleTimeout e c b)) = sessionLogs b"
      by (simp add: q)
    show "trace (snd (handleTimeout e c b)) = trace b @ [SessionPersisted (s_id session)]"
      by (simp add: q)
  next
    assume a: "\<not> (if s \<le> en then s \<le> m \<and> m < en else m \<ge> s \<or> m < en)
            \<and> \<not> pushFails e \<and> \<not> loopFails e \<and> \<not> updateFails e"
    then have h: "handleTimeout e c b = timeoutAlert e session u b"
      using ht by simp
    from a have nf: "\<not> pushFails e" "\<not> loopFails e" "\<not> updateFails e"
      by simp_all
    note eff = timeoutAlert_faults [OF mem, of e u, folded r]
    show "fst (handleTimeout e c b) =
              Inr (Some \<lparr> tr_session = session, tr_alertSent = True,
                           tr_reason = None, tr_alertResult = Some r \<rparr>)"
      using eff(1) nf by (simp add: h)
    show "sessions (snd (handleTimeout e c b)) =
                map (\<lambda>x. if s_id x = s_id session then alertedData e r x else x) (sessions b)"
      using eff(2) nf by (simp add: h)
    show "s_status (alertedData e r session) = TIMEOUT"
      by (simp add: alertedData_def)
    show "s_alertSent (alertedData e r session)"
      by (simp add: alertedData_def)
    show "trace (snd (handleTimeout e c b)) =
                trace b
                  @ (if logFails e then []
                     else [LogPersisted (logRow (s_id session) (s_userId session) (Some ''error'')
                                           (timeoutMessage session))])
                  @ [PushInvoked (s_userId session) (timeoutAlertData session u b),
                     SessionPersisted (s_id session)]"
      using eff(3) nf by (simp add: h)
  qed
qed

lemma user1_quiet:
  "u_quietHoursEnabled user1"
  "u_quietHoursStart user1 = Some (hhmm 23 0)"
  "u_quietHoursEnd user1 = Some (hhmm 7 0)"
  by (simp_all add: user1_def hhmm_def twoDigits_def)

lemma backend1_find:
  "find (\<lambda>x. s_wsClientId x = ''c1'') (sessions backend1) = Some session1"
  "find (\<lambda>x. u_id x = s_userId session1) (users backend1) = Some user1"
  by (simp_all add: backend1_def session1_def user1_def)

text \<open>
  The example of the specification: quiet hours 23:00 to 07:00; a timeout at 04:30 is
  suppressed, one at 09:00 is not. And a window whose ends are not on the hour, 22:30 to
  06:45: a timeout at 06:40 is suppressed, one at 22:10 is not.
\<close>

theorem quiet_hours_timeout_witness:
  "u_quietHoursStart user1 = Some ''23:00'' \<and> u_quietHoursEnd user1 = Some ''07:00''
   \<and> fst (handleTimeout (envAt 4 30) ''c1'' backend1) =
       Inr (Some \<lparr> tr_session = session1, tr_alertSent = False,
                    tr_reason = Some ''QUIET_HOURS'', tr_alertResult = None \<rparr>)
   \<and> trace (snd (handleTimeout (envAt 4 30) ''c1'' backend1)) = [SessionPersisted ''s1'']
   \<and> fst (handleTimeout (envAt 9 0) ''c1'' backend1) =
       Inr (Some \<lparr> tr_session = session1, tr_alertSent = True, tr_reason = None,
                    tr_alertResult = Some \<lparr> pr_success = True, pr_resultsJson = Some ''[]'' \<rparr> \<rparr>)
   \<and> trace (snd (handleTimeout (envAt 9 0) ''c1'' backend1)) =
       [LogPersisted (logRow ''s1'' ''u1'' (Some ''error'') (timeoutMessage session1)),
        PushInvoked ''u1'' (timeoutAlertData session1 user1 backend1),
        SessionPersisted ''s1'']
   \<and> fst (handleTimeout (envAt 6 40) ''c1''
        (backend1\<lparr> users := [user1\<lparr> u_quietHoursStart := Some ''22:30'',
                                     u_quietHoursEnd := Some ''06:45'' \<rparr>] \<rparr>)) =
       Inr (Some \<lparr> tr_session = session1, tr_alertSent = False,
                    tr_reason = Some ''QUIET_HOURS'', tr_alertResult = None \<rparr>)
   \<and> fst (handleTimeout (envAt 22 10) ''c1''
        (backend1\<lparr> users := [user1\<lparr> u_quietHoursStart := Some ''22:30'',
                                     u_quietHoursEnd := Some ''06:45'' \<rparr>] \<rparr>)) =
       Inr (Some \<lparr> tr_session = session1, tr_alertSent = True, tr_reason = None,
                    tr_alertResult = Some \<lparr> pr_success = True, pr_resultsJson = Some ''[]'' \<rparr> \<rparr>)"
proof -
  let ?u = "user1\<lparr> u_quietHoursStart := Some ''22:30'', u_quietHoursEnd := Some ''06:45'' \<rparr>"
  let ?b = "backend1\<lparr> users := [?u] \<rparr>"
  have strings: "u_quietHoursStart user1 = Some ''23:00''" "u_quietHoursEnd user1 = Some ''07:00''"
    by (simp_all add: user1_def)
  have q2: "u_quietHoursEnabled ?u" "u_quietHoursStart ?u = Some (hhmm 22 30)"
      "u_quietHoursEnd ?u = Some (hhmm 6 45)"
    by (simp_all add: user1_def hhmm_def twoDigits_def)
  have found2: "find (\<lambda>x. s_wsClientId x = ''c1'') (sessions ?b) = Some session1"
      "find (\<lambda>x. u_id x = s_userId session1) (users ?b) = Some ?u"
    by (simp_all add: backend1_def session1_def user1_def)
  have ok: "\<not> findFails (envAt h m)" "\<not> logFails (envAt h m)" "\<not> pushFails (envAt h m)"
      "\<not> loopFails (envAt h m)" "\<not> updateFails (envAt h m)"
      "hours (envAt h m) * 60 + minutes (envAt h m) = h * 60 + m"
      "criticalPush (envAt h m) x y = \<lparr> pr_success = True, pr_resultsJson = Some ''[]'' \<rparr>" for h m x y
    by (simp_all add: envAt_def)
  have lt: "(23::nat) < 24" "(0::nat) < 60" "(7::nat) < 24" "(22::nat) < 24" "(30::nat) < 60"
      "(6::nat) < 24" "(45::nat) < 60"
    by simp_all
  note night = quiet_hours_timeout [OF ok(1) backend1_find user1_quiet(1) user1_quiet(2) lt(1) lt(2)
      user1_quiet(3) lt(3) lt(2) refl refl refl refl, of 4 30]
  note day = quiet_hours_timeout [OF ok(1) backend1_find user1_quiet(1) user1_quiet(2) lt(1) lt(2)
      user1_quiet(3) lt(3) lt(2) refl refl refl refl, of 9 0]
  note dawn = quiet_hours_timeout [OF ok(1) found2 q2(1) q2(2) lt(4) lt(5) q2(3) lt(6) lt(7)
      refl refl refl refl, of 6 40]
  note dusk = quiet_hours_timeout [OF ok(1) found2 q2(1) q2(2) lt(4) lt(5) q2(3) lt(6) lt(7)
      refl refl refl refl, of 22 10]
  have n1: "fst (handleTimeout (envAt 4 30) ''c1'' backend1) =
       Inr (Some \<lparr> tr_session = session1, tr_alertSent = False,
                    tr_reason = Some ''QUIET_HOURS'', tr_alertResult = None \<rparr>)"
    and n2: "trace (snd (handleTimeout (envAt 4 30) ''c1'' backend1)) = [SessionPersisted ''s1'']"
    using night by (simp_all add: ok backend1_def session1_def)
  have d1: "fst (handleTimeout (envAt 9 0) ''c1'' backend1) =
       Inr (Some \<lparr> tr_session = session1, tr_alertSent = True, tr_reason = None,
                    tr_alertResult = Some \<lparr> pr_success = True, pr_resultsJson = Some ''[]'' \<rparr> \<rparr>)"
    and d2: "trace (snd (handleTimeout (envAt 9 0) ''c1'' backend1)) =
       [LogPersisted (logRow ''s1'' ''u1'' (Some ''error'') (timeoutMessage session1)),
        PushInvoked ''u1'' (timeoutAlertData session1 user1 backend1),
        SessionPersisted ''s1'']"
    using day by (simp_all add: ok backend1_def session1_def)
  have w1: "fst (handleTimeout (envAt 6 40) ''c1'' ?b) =
       Inr (Some \<lparr> tr_session = session1, tr_alertSent = False,
                    tr_reason = Some ''QUIET_HOURS'', tr_alertResult = None \<rparr>)"
    using dawn by (simp add: ok)
  have w2: "fst (handleTimeout (envAt 22 10) ''c1'' ?b) =
       Inr (Some \<lparr> tr_session = session1, tr_alertSent = True, tr_reason = None,
                    tr_alertResult = Some \<lparr> pr_success = True, pr_resultsJson = Some ''[]'' \<rparr> \<rparr>)"
    using dusk by (simp add: ok)
  show ?thesis
    using strings n1 n2 d1 d2 w1 w2 by (intro conjI)
qed

text \<open>
  Claim C10. When the quiet-hours start or end of a user is \<open>null\<close> or empty, \<open>isQuietHours\<close>
  is false whatever the enabled flag says, so the timeout takes the alert branch: the
  error-level log row, the critical push, and \<open>alertSent = true\<close>, exactly as the branch
  runs for the same user with quiet hours disabled.
\<close>

theorem unset_quiet_hours_never_suppress:
  fixes e :: env and b :: backend
  assumes unset: "falsy (u_quietHoursStart u) \<or> falsy (u_quietHoursEnd u)"
    and found: "\<not> findFails e"
      "find (\<lambda>x. s_wsClientId x = c) (sessions b) = Some session"
      "find (\<lambda>x. u_id x = s_userId session) (users b) = Some u"
    and nf: "\<not> logFails e" "\<not> pushFails e" "\<not> loopFails e" "\<not> updateFails e"
    and r: "r = criticalPush e (s_userId session) (timeoutAlertData session u b)"
  shows "isQuietHours e u = Some False
       \<and> handleTimeout e c b = timeoutAlert e session u b
       \<and> timeoutAlert e session u b = timeoutAlert e session (u\<lparr> u_quietHoursEnabled := False \<rparr>) b
       \<and> fst (handleTimeout e c b) =
           Inr (Some \<lparr> tr_session = session, tr_alertSent = True,
                        tr_reason = None, tr_alertResult = Some r \<rparr>)
       \<and> sessions (snd (handleTimeout e c b)) =
           map (\<lambda>x. if s_id x = s_id session then alertedData e r x else x) (sessions b)
       \<and> s_alertSent (alertedData e r session)
       \<and> l_level (logRow (s_id session) (s_userId session) (Some ''error'') (timeoutMessage session)) = ERROR
       \<and> trace (snd (handleTimeout e c b)) =
           trace b @ [LogPersisted (logRow (s_id session) (s_userId session) (Some ''error'')
                                      (timeoutMessage session)),
                      PushInvoked (s_userId session) (timeoutAlertData session u b),
                      SessionPersisted (s_id session)]"
proof -
  have mem: "session \<in> set (sessions b)"
    using found(2) by (simp add: find_Some_mem)
  have iq: "isQuietHours e u = Some False"
    using unset by (auto simp: isQuietHours_def)
  have h: "handleTimeout e c b = timeoutAlert e session u b"
    using found iq by (simp add: handleTimeout_def)
  have same: "timeoutAlert e session u b = timeoutAlert e session (u\<lparr> u_quietHoursEnabled := False \<rparr>) b"
    by (simp add: timeoutAlert_def timeoutAlertData_def Let_def)
  note eff = timeoutAlert_effect [OF mem nf(1-3), of u, folded r]
  have lvl: "l_level (logRow (s_id session) (s_userId session) (Some ''error'') (timeoutMessage session)) = ERROR"
    by (simp add: logRow_def error_level)
  have sent: "s_alertSent (alertedData e r session)"
    by (simp add: alertedData_def)
  show ?thesis
    using iq h same eff(1-3) nf(4) lvl sent by simp
qed


theorem unset_quiet_hours_never_suppress_witness:
  "falsy (u_quietHoursStart (user1\<lparr> u_quietHoursStart := None \<rparr>))
   \<and> isQuietHours (envAt 4 30) (user1\<lparr> u_quietHoursStart := None \<rparr>) = Some False
   \<and> fst (handleTimeout (envAt 4 30) ''c1'' (backend1\<lparr> users := [user1\<lparr> u_quietHoursStart := None \<rparr>] \<rparr>)) =
       Inr (Some \<lparr> tr_session = session1, tr_alertSent = True, tr_reason = None,
                    tr_alertResult = Some \<lparr> pr_success = True, pr_resultsJson = Some ''[]'' \<rparr> \<rparr>)"
proof -
  let ?u = "user1\<lparr> u_quietHoursStart := None \<rparr>"
  let ?b = "backend1\<lparr> users := [?u] \<rparr>"
  have unset: "falsy (u_quietHoursStart ?u) \<or> falsy (u_quietHoursEnd ?u)"
    by (simp add: falsy_def)
  have found: "\<not> findFails (envAt 4 30)"
      "find (\<lambda>x. s_wsClientId x = ''c1'') (sessions ?b) = Some session1"
      "find (\<lambda>x. u_id x = s_userId session1) (users ?b) = Some ?u"
    by (simp_all add: envAt_def backend1_def session1_def user1_def)
  have nf: "\<not> logFails (envAt 4 30)" "\<not> pushFails (envAt 4 30)" "\<not> loopFails (envAt 4 30)"
      "\<not> updateFails (envAt 4 30)"
    by (simp_all add: envAt_def)
  note t = unset_quiet_hours_never_suppress [OF unset found nf refl]
  from t have q: "isQuietHours (envAt 4 30) ?u = Some False"
    by (rule conjunct1)
  from t have f: "fst (handleTimeout (envAt 4 30) ''c1'' ?b) =
      Inr (Some \<lparr> tr_session = session1, tr_alertSent = True, tr_reason = None,
                   tr_alertResult = Some (criticalPush (envAt 4 30) (s_userId session1)
                                            (timeoutAlertData session1 ?u ?b)) \<rparr>)"
    by blast
  have p: "criticalPush (envAt 4 30) x y = \<lparr> pr_success = True, pr_resultsJson = Some ''[]'' \<rparr>" for x y
    by (simp add: envAt_def)
  show ?thesis
    using q f by (simp add: falsy_def p)
qed

text \<open>
  Claim C5. On a timeout outside quiet hours the effects come in this order. First the
  SessionLog row: level \<open>ERROR\<close>, the session and the user, and the message that announces
  the timeout with the game name ("Unknown Game" when the session has none). Then the
  critical push with the session id, the game name, the hub name ("Unknown Script" when
  there is none), the reason, the last status and the alert sound. Only then the session
  write that records \<open>alertSent = true\<close>, the delivery outcome, the serialized error and
  the \<open>TIMEOUT\<close> state. The statement covers every combination of failing calls: a
  failing insert of the log row is caught and leaves no row, and the push follows all the
  same; when the push or the start of the alert loop rejects, the call rejects there and
  the session is not written; when the last write fails the call rejects and the session
  row is unchanged, yet the log and the push have happened.
\<close>

theorem timeout_alert_order:
  fixes e :: env and b :: backend
  assumes found: "\<not> findFails e"
      "find (\<lambda>x. s_wsClientId x = c) (sessions b) = Some session"
      "find (\<lambda>x. u_id x = s_userId session) (users b) = Some u"
    and loud: "isQuietHours e u = Some False"
    and game: "game = (case s_gameName session of
                         None \<Rightarrow> ''Unknown Game''
                       | Some g \<Rightarrow> if g = [] then ''Unknown Game'' else g)"
    and row: "row = logRow (s_id session) (s_userId session) (Some ''error'') (timeoutMessage session)"
    and alertData: "alertData = timeoutAlertData session u b"
    and r: "r = criticalPush e (s_userId session) alertData"
    and failed: "failed = (pushFails e \<or> (u_lifeOrDeathMode u \<and> loopFails e) \<or> updateFails e)"
  shows "l_level row = ERROR \<and> l_sessionId row = s_id session \<and> l_userId row = s_userId session
       \<and> l_message row =
           take 2000 ([287, 376, 353, 168]
                        @ map of_char ('' TIMEOUT: '' @ game
                            @ '' - Connection lost (possible crash, kick, or internet failure)''))
       \<and> ad_sessionId alertData = s_id session
       \<and> ad_gameName alertData = game
       \<and> ad_hubName alertData =
           (case find (\<lambda>h. h_id h = s_hubId session) (hubs b) of
              None \<Rightarrow> ''Unknown Script''
            | Some h \<Rightarrow> if h_name h = [] then ''Unknown Script'' else h_name h)
       \<and> ad_reason alertData = ''Connection lost - possible crash, kick, or internet failure''
       \<and> ad_lastStatus alertData = s_currentStatus session
       \<and> ad_alertSound alertData = u_alertSound u
       \<and> sessionLogs (snd (handleTimeout e c b)) =
           sessionLogs b @ (if logFails e then [] else [row])
       \<and> trace (snd (handleTimeout e c b)) =
           trace b @ (if logFails e then [] else [LogPersisted row])
             @ [PushInvoked (s_userId session) alertData]
             @ (if failed then [] else [SessionPersisted (s_id session)])
       \<and> sessions (snd (handleTimeout e c b)) =
           (if failed then sessions b
            else map (\<lambda>x. if s_id x = s_id session then alertedData e r x else x) (sessions b))
       \<and> fst (handleTimeout e c b) =
           (if pushFails e then Inl PushError
            else if failed then Inl StoreError
            else Inr (Some \<lparr> tr_session = session, tr_alertSent = True, tr_reason = None,
                              tr_alertResult = Some r \<rparr>))
       \<and> s_status (alertedData e r session) = TIMEOUT
       \<and> s_disconnectReason (alertedData e r session) = Some REASON_TIMEOUT
       \<and> s_disconnectMessage (alertedData e r session) = Some ''Heartbeat timeout''
       \<and> s_disconnectedAt (alertedData e r session) = Some (nowMs e)
       \<and> s_alertSent (alertedData e r session)
       \<and> s_alertSentAt (alertedData e r session) = Some (nowMs e)
       \<and> s_alertDelivered (alertedData e r session) = Some (pr_success r)
       \<and> (pr_success r \<longrightarrow> s_alertError (alertedData e r session) = None)
       \<and> (\<not> pr_success r \<longrightarrow> pr_resultsJson r \<noteq> None \<longrightarrow>
            s_alertError (alertedData e r session) = pr_resultsJson r)
       \<and> (\<not> pr_success r \<longrightarrow> pr_resultsJson r = None \<longrightarrow>
            s_alertError (alertedData e r session) = s_alertError session)"
proof -
  have mem: "session \<in> set (sessions b)"
    using found(2) by (simp add: find_Some_mem)
  have h: "handleTimeout e c b = timeoutAlert e session u b"
    using found loud by (simp add: handleTimeout_def)
  note eff = timeoutAlert_faults [OF mem, of e u, folded alertData row, folded r failed]
  have lvl: "l_level row = ERROR \<and> l_sessionId row = s_id session \<and> l_userId row = s_userId session"
    by (simp add: row logRow_def error_level)
  have g: "orElse (s_gameName session) ''Unknown Game'' = game"
    by (simp add: game orElse_def)
  have msg: "l_message row =
           take 2000 ([287, 376, 353, 168]
                        @ map of_char ('' TIMEOUT: '' @ game
                            @ '' - Connection lost (possible crash, kick, or internet failure)''))"
    by (simp add: row logRow_def timeoutMessage_def g)
  have ad1: "ad_sessionId alertData = s_id session \<and> ad_gameName alertData = game"
    by (simp add: alertData timeoutAlertData_def g)
  have ad2: "ad_hubName alertData =
           (case find (\<lambda>h. h_id h = s_hubId session) (hubs b) of
              None \<Rightarrow> ''Unknown Script''
            | Some h \<Rightarrow> if h_name h = [] then ''Unknown Script'' else h_name h)"
    by (simp add: alertData timeoutAlertData_def orElse_def split: option.splits)
  have ad3: "ad_reason alertData = ''Connection lost - possible crash, kick, or internet failure''
       \<and> ad_lastStatus alertData = s_currentStatus session
       \<and> ad_alertSound alertData = u_alertSound u"
    by (simp add: alertData timeoutAlertData_def)
  have w: "s_status (alertedData e r session) = TIMEOUT
       \<and> s_disconnectReason (alertedData e r session) = Some REASON_TIMEOUT
       \<and> s_disconnectMessage (alertedData e r session) = Some ''Heartbeat timeout''
       \<and> s_disconnectedAt (alertedData e r session) = Some (nowMs e)
       \<and> s_alertSent (alertedData e r session)
       \<and> s_alertSentAt (alertedData e r session) = Some (nowMs e)
       \<and> s_alertDelivered (alertedData e r session) = Some (pr_success r)
       \<and> (pr_success r \<longrightarrow> s_alertError (alertedData e r session) = None)
       \<and> (\<not> pr_success r \<longrightarrow> pr_resultsJson r \<noteq> None \<longrightarrow>
            s_alertError (alertedData e r session) = pr_resultsJson r)
       \<and> (\<not> pr_success r \<longrightarrow> pr_resultsJson r = None \<longrightarrow>
            s_alertError (alertedData e r session) = s_alertError session)"
    by (auto simp: alertedData_def)
  have run: "sessionLogs (snd (handleTimeout e c b)) =
           sessionLogs b @ (if logFails e then [] else [row])
       \<and> trace (snd (handleTimeout e c b)) =
           trace b @ (if logFails e then [] else [LogPersisted row])
             @ [PushInvoked (s_userId session) alertData]
             @ (if failed then [] else [SessionPersisted (s_id session)])
       \<and> sessions (snd (handleTimeout e c b)) =
           (if failed then sessions b
            else map (\<lambda>x. if s_id x = s_id session then alertedData e r x else x) (sessions b))
       \<and> fst (handleTimeout e c b) =
           (if pushFails e then Inl PushError
            else if failed then Inl StoreError
            else Inr (Some \<lparr> tr_session = session, tr_alertSent = True, tr_reason = None,
                              tr_alertResult = Some r \<rparr>))"
    unfolding h using eff by (intro conjI)
  show ?thesis
    using lvl msg ad1 ad2 ad3 run w by (intro conjI) blast+
qed

text \<open>
  The session of the scenario at 09:00, outside the quiet hours of its user. With the log
  insert and the last write both failing, the push is still invoked and the call rejects
  with the session row as it was. With nothing failing, the row that is logged and the
  payload that is pushed are these.
\<close>

theorem timeout_alert_order_witness:
  "isQuietHours ((envAt 9 0)\<lparr> logFails := True, updateFails := True \<rparr>) user1 = Some False
   \<and> fst (handleTimeout ((envAt 9 0)\<lparr> logFails := True, updateFails := True \<rparr>) ''c1'' backend1) =
       Inl StoreError
   \<and> sessions (snd (handleTimeout ((envAt 9 0)\<lparr> logFails := True, updateFails := True \<rparr>) ''c1''
                      backend1)) = [session1]
   \<and> sessionLogs (snd (handleTimeout ((envAt 9 0)\<lparr> logFails := True, updateFails := True \<rparr>) ''c1''
                         backend1)) = []
   \<and> trace (snd (handleTimeout ((envAt 9 0)\<lparr> logFails := True, updateFails := True \<rparr>) ''c1''
                   backend1)) =
       [PushInvoked ''u1'' (timeoutAlertData session1 user1 backend1)]
   \<and> trace (snd (handleTimeout (envAt 9 0) ''c1'' backend1)) =
       [LogPersisted
          \<lparr> l_sessionId = ''s1'', l_userId = ''u1'', l_level = ERROR,
            l_message = [287, 376, 353, 168]
              @ map of_char '' TIMEOUT: G - Connection lost (possible crash, kick, or internet failure)'' \<rparr>,
        PushInvoked ''u1''
          \<lparr> ad_sessionId = ''s1'', ad_gameName = ''G'', ad_hubName = ''Hub'',
            ad_reason = ''Connection lost - possible crash, kick, or internet failure'',
            ad_lastStatus = Some ''Farming'', ad_alertSound = Some ''alarm'' \<rparr>,
        SessionPersisted ''s1'']"
proof -
  let ?e = "(envAt 9 0)\<lparr> logFails := True, updateFails := True \<rparr>"
  have found: "\<not> findFails ?e" "\<not> findFails (envAt 9 0)"
    by (simp_all add: envAt_def)
  have lt: "(23::nat) < 100" "(0::nat) < 100" "(7::nat) < 100"
    by simp_all
  have loud: "isQuietHours ?e user1 = Some False" "isQuietHours (envAt 9 0) user1 = Some False"
    unfolding isQuietHours_hhmm [OF user1_quiet(1) user1_quiet(2) lt(1) lt(2) user1_quiet(3) lt(3) lt(2)]
    by (simp_all add: envAt_def)
  note bad = timeout_alert_order [OF found(1) backend1_find loud(1) refl refl refl refl refl]
  note good = timeout_alert_order [OF found(2) backend1_find loud(2) refl refl refl refl refl]
  have flags: "logFails ?e" "updateFails ?e" "\<not> pushFails ?e"
      "\<not> logFails (envAt 9 0)" "\<not> updateFails (envAt 9 0)" "\<not> pushFails (envAt 9 0)"
      "\<not> loopFails (envAt 9 0)"
    by (simp_all add: envAt_def)
  have b1: "sessions backend1 = [session1]" "sessionLogs backend1 = []" "trace backend1 = []"
      "hubs backend1 = [\<lparr> h_id = ''h1'', h_name = ''Hub'' \<rparr>]"
    by (simp_all add: backend1_def)
  have s1: "s_id session1 = ''s1''" "s_userId session1 = ''u1''" "s_gameName session1 = Some ''G''"
      "s_hubId session1 = ''h1''" "s_currentStatus session1 = Some ''Farming''"
    by (simp_all add: session1_def)
  have u1: "u_alertSound user1 = Some ''alarm''"
    by (simp add: user1_def)
  have a1: "fst (handleTimeout ?e ''c1'' backend1) = Inl StoreError"
    and a2: "sessions (snd (handleTimeout ?e ''c1'' backend1)) = [session1]"
    and a3: "sessionLogs (snd (handleTimeout ?e ''c1'' backend1)) = []"
    and a4: "trace (snd (handleTimeout ?e ''c1'' backend1)) =
       [PushInvoked ''u1'' (timeoutAlertData session1 user1 backend1)]"
    using bad by (simp_all add: flags b1 s1)
  have row: "logRow ''s1'' ''u1'' (Some ''error'') (timeoutMessage session1) =
      \<lparr> l_sessionId = ''s1'', l_userId = ''u1'', l_level = ERROR,
        l_message = [287, 376, 353, 168]
          @ map of_char '' TIMEOUT: G - Connection lost (possible crash, kick, or internet failure)'' \<rparr>"
    using good by (simp add: s1 logRow_def)
  have payload: "timeoutAlertData session1 user1 backend1 =
      \<lparr> ad_sessionId = ''s1'', ad_gameName = ''G'', ad_hubName = ''Hub'',
        ad_reason = ''Connection lost - possible crash, kick, or internet failure'',
        ad_lastStatus = Some ''Farming'', ad_alertSound = Some ''alarm'' \<rparr>"
    using good by (simp add: s1 u1 b1 timeoutAlertData_def)
  have g: "trace (snd (handleTimeout (envAt 9 0) ''c1'' backend1)) =
       [LogPersisted (logRow ''s1'' ''u1'' (Some ''error'') (timeoutMessage session1)),
        PushInvoked ''u1'' (timeoutAlertData session1 user1 backend1),
        SessionPersisted ''s1'']"
    using good by (simp add: flags b1 s1)
  show ?thesis
    using loud(1) a1 a2 a3 a4 g unfolding row payload by (intro conjI)
qed

subsection \<open>Token regeneration\<close>




subsection \<open>Disconnecting a session\<close>

lemma disconnectSessionById_found:
  "find (\<lambda>s. s_id s = sid) (sessions b) = Some x \<Longrightarrow>
   sessions (snd (disconnectSessionById e sid reason message b)) =
     map (\<lambda>s. if s_id s = sid then disconnectData e reason message s else s) (sessions b)"
  by (simp add: disconnectSessionById_def Let_def)

lemma disconnectSession_found:
  "find (\<lambda>s. s_wsClientId s = c) (sessions b) = Some x \<Longrightarrow>
   sessions (snd (disconnectSession e c reason message b)) =
     map (\<lambda>s. if s_wsClientId s = c then disconnectData e reason message s else s) (sessions b)"
  by (simp add: disconnectSession_def Let_def)

text \<open>
  The bulk operations select on \<open>status: 'ACTIVE'\<close>: a session that is not active is left
  as it is.
\<close>

lemma bulk_disconnect_keeps_inactive:
  assumes "i < length (sessions b)" "s_status (sessions b ! i) \<noteq> ACTIVE"
  shows "sessions (snd (disconnectAllUserSessions e userId reason b)) ! i = sessions b ! i"
    and "sessions (snd (cleanupStaleSessions e b)) ! i = sessions b ! i"
    and "sessions (snd (regenerateUserToken e gen userId b)) ! i = sessions b ! i"
proof -
  show "sessions (snd (disconnectAllUserSessions e userId reason b)) ! i = sessions b ! i"
    using assms by (simp add: disconnectAllUserSessions_def sessionUpdateMany_def)
  show "sessions (snd (cleanupStaleSessions e b)) ! i = sessions b ! i"
    using assms by (simp add: cleanupStaleSessions_def sessionUpdateMany_def)
  have "sessions (snd (regenerateUserToken e gen userId b)) =
      map (\<lambda>s. if s_userId s = userId \<and> s_status s = ACTIVE
                then disconnectData e TOKEN_REVOKED (Some ''User token regenerated'') s else s)
          (sessions b)"
    unfolding regenerateUserToken_def Let_def sessionUpdateMany_def by simp
  then show "sessions (snd (regenerateUserToken e gen userId b)) ! i = sessions b ! i"
    using assms by simp
qed

lemma find_some_row:
  assumes "i < length xs" "P (xs ! i)"
  shows "\<exists>x. find P xs = Some x"
proof (cases "find P xs")
  case None
  then have "\<not> (\<exists>x. x \<in> set xs \<and> P x)"
    by (simp add: find_None_iff)
  then show ?thesis
    using assms nth_mem by blast
next
  case (Some x)
  then show ?thesis by simp
qed

text \<open>
  Claim C4, as the code has it. \<open>disconnectSession\<close> and \<open>disconnectSessionById\<close> write
  \<open>DISCONNECTED\<close>, the time, the reason and the message into the session they find, whatever
  its state, and answer \<open>null\<close> without a change when they find none. Only the bulk
  operations (all sessions of a user, the reconciliation at startup, the regeneration of a
  token) select on the state \<open>ACTIVE\<close> and leave a session that is not active unchanged.
\<close>

theorem disconnect_writes_whenever_found:
  assumes i: "i < length (sessions b)"
  shows "(s_wsClientId (sessions b ! i) = c \<longrightarrow>
            sessions (snd (disconnectSession e c reason message b)) ! i =
              disconnectData e reason message (sessions b ! i))
       \<and> (s_id (sessions b ! i) = sid \<longrightarrow>
            sessions (snd (disconnectSessionById e sid reason message b)) ! i =
              disconnectData e reason message (sessions b ! i))
       \<and> s_status (disconnectData e reason message (sessions b ! i)) = DISCONNECTED
       \<and> s_disconnectReason (disconnectData e reason message (sessions b ! i)) = Some reason
       \<and> s_disconnectMessage (disconnectData e reason message (sessions b ! i)) = message
       \<and> s_disconnectedAt (disconnectData e reason message (sessions b ! i)) = Some (nowMs e)
       \<and> (find (\<lambda>s. s_wsClientId s = c) (sessions b) = None \<longrightarrow>
            disconnectSession e c reason message b = (None, b))
       \<and> (find (\<lambda>s. s_id s = sid) (sessions b) = None \<longrightarrow>
            disconnectSessionById e sid reason message b = (None, b))
       \<and> (s_status (sessions b ! i) \<noteq> ACTIVE \<longrightarrow>
            sessions (snd (disconnectAllUserSessions e userId reason b)) ! i = sessions b ! i
            \<and> sessions (snd (cleanupStaleSessions e b)) ! i = sessions b ! i
            \<and> sessions (snd (regenerateUserToken e gen userId b)) ! i = sessions b ! i)"
proof -
  have one: "s_wsClientId (sessions b ! i) = c \<longrightarrow>
            sessions (snd (disconnectSession e c reason message b)) ! i =
              disconnectData e reason message (sessions b ! i)"
  proof
    assume c: "s_wsClientId (sessions b ! i) = c"
    then obtain x where "find (\<lambda>s. s_wsClientId s = c) (sessions b) = Some x"
      using find_some_row [OF i, of "\<lambda>s. s_wsClientId s = c"] by blast
    from disconnectSession_found [OF this, of e reason message]
    show "sessions (snd (disconnectSession e c reason message b)) ! i =
              disconnectData e reason message (sessions b ! i)"
      using i c by simp
  qed
  have two: "s_id (sessions b ! i) = sid \<longrightarrow>
            sessions (snd (disconnectSessionById e sid reason message b)) ! i =
              disconnectData e reason message (sessions b ! i)"
  proof
    assume c: "s_id (sessions b ! i) = sid"
    then obtain x where "find (\<lambda>s. s_id s = sid) (sessions b) = Some x"
      using find_some_row [OF i, of "\<lambda>s. s_id s = sid"] by blast
    from disconnectSessionById_found [OF this, of e reason message]
    show "sessions (snd (disconnectSessionById e sid reason message b)) ! i =
              disconnectData e reason message (sessions b ! i)"
      using i c by simp
  qed
  have d: "s_status (disconnectData e reason message (sessions b ! i)) = DISCONNECTED"
      "s_disconnectReason (disconnectData e reason message (sessions b ! i)) = Some reason"
      "s_disconnectMessage (disconnectData e reason message (sessions b ! i)) = message"
      "s_disconnectedAt (disconnectData e reason message (sessions b ! i)) = Some (nowMs e)"
    by (simp_all add: disconnectData_def)
  have none: "find (\<lambda>s. s_wsClientId s = c) (sessions b) = None \<longrightarrow>
            disconnectSession e c reason message b = (None, b)"
      "find (\<lambda>s. s_id s = sid) (sessions b) = None \<longrightarrow>
            disconnectSessionById e sid reason message b = (None, b)"
    by (simp_all add: disconnectSession_def disconnectSessionById_def)
  have bulk: "s_status (sessions b ! i) \<noteq> ACTIVE \<longrightarrow>
            sessions (snd (disconnectAllUserSessions e userId reason b)) ! i = sessions b ! i
            \<and> sessions (snd (cleanupStaleSessions e b)) ! i = sessions b ! i
            \<and> sessions (snd (regenerateUserToken e gen userId b)) ! i = sessions b ! i"
    using bulk_disconnect_keeps_inactive [OF i] by blast
  show ?thesis
    using one two d none bulk by (intro conjI)
qed

theorem disconnect_writes_whenever_found_witness:
  "s_status (sessions (backend1\<lparr> sessions := [quietData (envAt 4 30) session1] \<rparr>) ! 0) = TIMEOUT
   \<and> s_status (sessions (snd (disconnectSessionById (envAt 9 0) ''s1'' MANUAL (Some ''stop'')
        (backend1\<lparr> sessions := [quietData (envAt 4 30) session1] \<rparr>))) ! 0) = DISCONNECTED
   \<and> s_status (sessions (snd (disconnectAllUserSessions (envAt 9 0) ''u1'' TOKEN_REVOKED
        (backend1\<lparr> sessions := [quietData (envAt 4 30) session1] \<rparr>))) ! 0) = TIMEOUT"
proof -
  let ?b = "backend1\<lparr> sessions := [quietData (envAt 4 30) session1] \<rparr>"
  have i: "0 < length (sessions ?b)"
    by simp
  have row: "sessions ?b ! 0 = quietData (envAt 4 30) session1"
    by simp
  have q: "s_status (quietData (envAt 4 30) session1) = TIMEOUT"
      "s_id (quietData (envAt 4 30) session1) = ''s1''"
    by (simp_all add: quietData_def session1_def)
  note t = disconnect_writes_whenever_found [OF i, where sid = "''s1''" and c = "''c1''"
      and e = "envAt 9 0" and reason = MANUAL and message = "Some ''stop''" and userId = "''u1''"
      and gen = "\<lparr> g_token = ''XYZ789'', g_hash = ''9c1d'', g_hint = ''XYZ789'' \<rparr>"]
  from t have a: "s_id (sessions ?b ! 0) = ''s1'' \<longrightarrow>
      sessions (snd (disconnectSessionById (envAt 9 0) ''s1'' MANUAL (Some ''stop'') ?b)) ! 0 =
        disconnectData (envAt 9 0) MANUAL (Some ''stop'') (sessions ?b ! 0)"
    by (elim conjE)
  from t have d: "s_status (disconnectData (envAt 9 0) MANUAL (Some ''stop'') (sessions ?b ! 0)) = DISCONNECTED"
    by (elim conjE)
  note t2 = disconnect_writes_whenever_found [OF i, where sid = "''s1''" and c = "''c1''"
      and e = "envAt 9 0" and reason = TOKEN_REVOKED and message = "Some ''stop''" and userId = "''u1''"
      and gen = "\<lparr> g_token = ''XYZ789'', g_hash = ''9c1d'', g_hint = ''XYZ789'' \<rparr>"]
  from t2 have k: "s_status (sessions ?b ! 0) \<noteq> ACTIVE \<longrightarrow>
      sessions (snd (disconnectAllUserSessions (envAt 9 0) ''u1'' TOKEN_REVOKED ?b)) ! 0 = sessions ?b ! 0
      \<and> sessions (snd (cleanupStaleSessions (envAt 9 0) ?b)) ! 0 = sessions ?b ! 0
      \<and> sessions (snd (regenerateUserToken (envAt 9 0)
            \<lparr> g_token = ''XYZ789'', g_hash = ''9c1d'', g_hint = ''XYZ789'' \<rparr> ''u1'' ?b)) ! 0 = sessions ?b ! 0"
    by (elim conjE)
  have s0: "s_status (sessions ?b ! 0) = TIMEOUT" "s_id (sessions ?b ! 0) = ''s1''"
    unfolding row by (rule q)+
  have one: "s_status (sessions (snd (disconnectSessionById (envAt 9 0) ''s1'' MANUAL (Some ''stop'') ?b)) ! 0)
      = DISCONNECTED"
    using a d s0(2) by simp
  have two: "s_status (sessions (snd (disconnectAllUserSessions (envAt 9 0) ''u1'' TOKEN_REVOKED ?b)) ! 0)
      = TIMEOUT"
    using k s0(1) by simp
  show ?thesis
    using s0(1) one two by (intro conjI)
qed

text \<open>
  Claim C4 as stated fails: \<open>disconnectSession\<close> and \<open>disconnectSessionById\<close> only
  test that the row exists. On a session already in \<open>TIMEOUT\<close> (reason \<open>TIMEOUT\<close>) both
  write \<open>DISCONNECTED\<close>, the caller's reason and the caller's message over it.
\<close>

theorem disconnect_overwrites_timeout:
  "s_status (quietData (envAt 4 30) session1) = TIMEOUT
   \<and> s_disconnectReason (quietData (envAt 4 30) session1) = Some REASON_TIMEOUT
   \<and> map s_status (sessions (snd (disconnectSessionById (envAt 9 0) ''s1'' MANUAL
        (Some ''Stopped by user from mobile app'')
        (backend1\<lparr> sessions := [quietData (envAt 4 30) session1] \<rparr>)))) = [DISCONNECTED]
   \<and> map s_disconnectReason (sessions (snd (disconnectSessionById (envAt 9 0) ''s1'' MANUAL
        (Some ''Stopped by user from mobile app'')
        (backend1\<lparr> sessions := [quietData (envAt 4 30) session1] \<rparr>)))) = [Some MANUAL]
   \<and> map s_disconnectMessage (sessions (snd (disconnectSessionById (envAt 9 0) ''s1'' MANUAL
        (Some ''Stopped by user from mobile app'')
        (backend1\<lparr> sessions := [quietData (envAt 4 30) session1] \<rparr>)))) =
        [Some ''Stopped by user from mobile app'']
   \<and> map s_status (sessions (snd (disconnectSession (envAt 9 0) ''c1'' MANUAL (Some ''done'')
        (backend1\<lparr> sessions := [quietData (envAt 4 30) session1] \<rparr>)))) = [DISCONNECTED]
   \<and> map s_disconnectReason (sessions (snd (disconnectSession (envAt 9 0) ''c1'' MANUAL (Some ''done'')
        (backend1\<lparr> sessions := [quietData (envAt 4 30) session1] \<rparr>)))) = [Some MANUAL]"
proof -
  let ?t = "quietData (envAt 4 30) session1"
  let ?b = "backend1\<lparr> sessions := [?t] \<rparr>"
  have ids: "s_id ?t = ''s1''" "s_wsClientId ?t = ''c1''"
    by (simp_all add: quietData_def session1_def)
  have f1: "find (\<lambda>s. s_id s = ''s1'') (sessions ?b) = Some ?t"
    and f2: "find (\<lambda>s. s_wsClientId s = ''c1'') (sessions ?b) = Some ?t"
    by (simp_all add: ids)
  have d: "s_status (disconnectData e r m s) = DISCONNECTED"
      "s_disconnectReason (disconnectData e r m s) = Some r"
      "s_disconnectMessage (disconnectData e r m s) = m" for e r m s
    by (simp_all add: disconnectData_def)
  have q: "s_status ?t = TIMEOUT" "s_disconnectReason ?t = Some REASON_TIMEOUT"
    by (simp_all add: quietData_def)
  show ?thesis
    by (simp add: disconnectSessionById_found [OF f1] disconnectSession_found [OF f2] ids d q)
qed

subsection \<open>The alert loop\<close>

lemma filter_empty_find: "find P xs = None \<Longrightarrow> filter P xs = []"
  by (induction xs) (auto split: if_splits)

lemma startLoop_fields:
  "activeAlerts (startLoop x u b) = activeAlerts b"
  "users (startLoop x u b) = users b"
  "nextInterval (startLoop x u b) = Suc (nextInterval b)"
  by (simp_all add: startLoop_def clearInterval_def Let_def split: option.splits)

lemma startLoop_activeLoops:
  "activeLoops (startLoop x u b) = (activeLoops b)(x \<mapsto> nextInterval b)"
  by (simp add: startLoop_def clearInterval_def Let_def split: option.splits)

lemma startLoop_intervals:
  "intervals (startLoop x u b) =
     (case activeLoops b x of
        None \<Rightarrow> intervals b
      | Some old \<Rightarrow> filter (\<lambda>t. fst t \<noteq> old) (intervals b)) @ [(nextInterval b, x, u)]"
  by (simp add: startLoop_def clearInterval_def Let_def split: option.splits)

lemma startLoop_running: "running x (startLoop x u b)"
  by (simp add: running_def startLoop_activeLoops startLoop_intervals)

lemma startLoop_keeps_running:
  assumes c: "loopsConsistent b" and r: "running y b"
  shows "running y (startLoop x u b)"
proof (cases "y = x")
  case True
  then show ?thesis by (simp add: startLoop_running)
next
  case False
  from r obtain h where h: "activeLoops b y = Some h"
    and t: "\<exists>t \<in> set (intervals b). fst t = h \<and> fst (snd t) = y"
    by (auto simp: running_def split: option.splits)
  have keep: "\<exists>t \<in> set (filter (\<lambda>t. fst t \<noteq> old) (intervals b)). fst t = h \<and> fst (snd t) = y"
    if "activeLoops b x = Some old" for old
  proof -
    have "old \<noteq> h"
      using c h that False unfolding loopsConsistent_def by blast
    then show ?thesis using t by auto
  qed
  show ?thesis
    using False h t keep
    by (auto simp: running_def startLoop_activeLoops startLoop_intervals split: option.splits)
qed

lemma startLoop_consistent:
  assumes c: "loopsConsistent b"
  shows "loopsConsistent (startLoop x u b)"
proof -
  have fresh: "activeLoops b y \<noteq> Some (nextInterval b)" for y
  proof
    assume a: "activeLoops b y = Some (nextInterval b)"
    then have "running y b"
      using c unfolding loopsConsistent_def by blast
    then obtain t where "t \<in> set (intervals b)" "fst t = nextInterval b"
      using a by (auto simp: running_def)
    then show False
      using c unfolding loopsConsistent_def by fastforce
  qed
  have one: "\<forall>y h. activeLoops (startLoop x u b) y = Some h \<longrightarrow> running y (startLoop x u b)"
  proof (intro allI impI)
    fix y h assume a: "activeLoops (startLoop x u b) y = Some h"
    show "running y (startLoop x u b)"
    proof (cases "y = x")
      case True
      then show ?thesis by (simp add: startLoop_running)
    next
      case False
      then have "activeLoops b y = Some h"
        using a by (simp add: startLoop_activeLoops)
      then have "running y b"
        using c unfolding loopsConsistent_def by blast
      then show ?thesis
        by (rule startLoop_keeps_running [OF c])
    qed
  qed
  have two: "\<forall>t \<in> set (intervals (startLoop x u b)). fst t < nextInterval (startLoop x u b)"
    using c unfolding loopsConsistent_def
    by (auto simp: startLoop_intervals startLoop_fields less_Suc_eq split: option.splits)
  have three: "\<forall>y z h. activeLoops (startLoop x u b) y = Some h
      \<and> activeLoops (startLoop x u b) z = Some h \<longrightarrow> y = z"
    using c fresh unfolding loopsConsistent_def
    by (auto simp: startLoop_activeLoops split: if_splits)
  show ?thesis
    unfolding loopsConsistent_def using one two three by blast
qed

text \<open>
  What the guard of \<open>startAlertLoop\<close> achieves for a call that nothing interrupts: \<open>null\<close>
  and no change when the user is unknown or has life-or-death mode off; the user's existing
  unacknowledged alert and no change when there is one; otherwise a new alert with
  \<open>notificationsSent = 1\<close> and an interval for it. Such a call keeps the store free of a
  second unacknowledged alert for a user.
\<close>

lemma start_alert_loop_uninterrupted:
  assumes inv: "oneUnacknowledgedPerUser (activeAlerts b)"
    and R: "R = startAlertLoop e userId sessionId reason gameName b"
    and lod: "lod = (case find (\<lambda>u. u_id u = userId) (users b) of
                       None \<Rightarrow> False | Some u \<Rightarrow> u_lifeOrDeathMode u)"
    and ex: "existing = find (\<lambda>a. a_userId a = userId \<and> \<not> a_acknowledged a) (activeAlerts b)"
  shows "oneUnacknowledgedPerUser (activeAlerts (snd R))
       \<and> (\<not> lod \<longrightarrow> R = (None, b))
       \<and> (lod \<and> existing \<noteq> None \<longrightarrow> R = (existing, b))
       \<and> (lod \<and> existing = None \<longrightarrow>
            (\<exists>alert. fst R = Some alert
               \<and> a_userId alert = userId \<and> a_sessionId alert = sessionId
               \<and> a_notificationsSent alert = 1 \<and> \<not> a_acknowledged alert
               \<and> activeAlerts (snd R) = activeAlerts b @ [alert]
               \<and> running (a_id alert) (snd R)))"
proof -
  let ?alert = "\<lparr> a_id = newId e, a_userId = userId, a_sessionId = sessionId,
                   a_reason = reason, a_gameName = gameName, a_startedAt = nowMs e,
                   a_notificationsSent = 1, a_maxNotifications = MAX_NOTIFICATIONS,
                   a_acknowledged = False, a_acknowledgedAt = None \<rparr>"
  have off: "\<not> lod \<Longrightarrow> R = (None, b)"
    unfolding R lod startAlertLoop_run by (auto split: option.splits)
  have dup: "lod \<Longrightarrow> existing \<noteq> None \<Longrightarrow> R = (existing, b)"
    unfolding R lod ex startAlertLoop_run by (auto split: option.splits)
  have new: "lod \<Longrightarrow> existing = None \<Longrightarrow>
      R = (Some ?alert, startLoop (newId e) userId (b\<lparr> activeAlerts := activeAlerts b @ [?alert] \<rparr>))"
    unfolding R lod ex startAlertLoop_run by (auto simp: Let_def split: option.splits)
  have inv_new: "oneUnacknowledgedPerUser (activeAlerts b @ [?alert])" if "existing = None"
  proof -
    have none: "filter (\<lambda>x. a_userId x = userId \<and> \<not> a_acknowledged x) (activeAlerts b) = []"
      using that ex by (simp add: filter_empty_find)
    show ?thesis
      unfolding oneUnacknowledgedPerUser_def
    proof
      fix a assume a: "a \<in> set (activeAlerts b @ [?alert])"
      show "length (filter (\<lambda>x. a_userId x = a_userId a \<and> \<not> a_acknowledged x)
                      (activeAlerts b @ [?alert])) \<le> 1"
      proof (cases "a_userId a = userId")
        case True
        then show ?thesis by (simp add: none)
      next
        case False
        then have "a \<in> set (activeAlerts b)"
          using a by auto
        then have "length (filter (\<lambda>x. a_userId x = a_userId a \<and> \<not> a_acknowledged x) (activeAlerts b)) \<le> 1"
          using inv unfolding oneUnacknowledgedPerUser_def by blast
        then show ?thesis using False by simp
      qed
    qed
  qed
  have keep: "oneUnacknowledgedPerUser (activeAlerts (snd R))"
  proof (cases "lod \<and> existing = None")
    case True
    then show ?thesis
      using new inv_new by (simp add: startLoop_fields)
  next
    case False
    then have "snd R = b"
      using off dup by (cases lod) auto
    then show ?thesis using inv by simp
  qed
  have created: "\<exists>alert. fst R = Some alert
               \<and> a_userId alert = userId \<and> a_sessionId alert = sessionId
               \<and> a_notificationsSent alert = 1 \<and> \<not> a_acknowledged alert
               \<and> activeAlerts (snd R) = activeAlerts b @ [alert]
               \<and> running (a_id alert) (snd R)" if "lod" "existing = None"
    by (rule exI [of _ ?alert]) (simp add: new [OF that] startLoop_fields startLoop_running)
  show ?thesis
    using keep off dup created by blast
qed

text \<open>
  Claim C8. The guard is a look-up followed by a \<open>create\<close>, two awaited store calls with
  no transaction around them and no uniqueness constraint behind them. User \<open>u1\<close> has
  life-or-death mode on, no alert yet, and two sessions that time out together. When the
  store answers the look-ups of both calls of \<open>startAlertLoop\<close> before it runs either
  \<open>create\<close>, both calls find no unacknowledged alert and both create one: the user ends
  with two unacknowledged alerts, \<open>a1\<close> and \<open>a2\<close>, and two running intervals. When the
  first call has returned before the second starts, the second returns the alert of the
  first and there is one alert and one interval.
\<close>

theorem interleaved_starts_leave_two_unacknowledged:
  "map u_id (users backend2) = [''u1''] \<and> map u_lifeOrDeathMode (users backend2) = [True]
   \<and> activeAlerts backend2 = []
   \<and> map lc_userId timeoutCalls = [''u1'', ''u1'']
   \<and> map lc_sessionId timeoutCalls = [''s1'', ''s2'']
   \<and> map fst raceSchedule = [0, 0, 1, 1, 0, 1]
   \<and> map a_id (activeAlerts (snd (runSchedule raceSchedule timeoutCalls backend2))) = [''a1'', ''a2'']
   \<and> map a_userId (activeAlerts (snd (runSchedule raceSchedule timeoutCalls backend2))) = [''u1'', ''u1'']
   \<and> map a_acknowledged (activeAlerts (snd (runSchedule raceSchedule timeoutCalls backend2))) =
        [False, False]
   \<and> length (filter (\<lambda>a. a_userId a = ''u1'' \<and> \<not> a_acknowledged a)
                (activeAlerts (snd (runSchedule raceSchedule timeoutCalls backend2)))) = 2
   \<and> intervals (snd (runSchedule raceSchedule timeoutCalls backend2)) =
        [(0, ''a1'', ''u1''), (1, ''a2'', ''u1'')]
   \<and> map (\<lambda>call. case lc_at call of Returned (Some alert) \<Rightarrow> a_id alert | _ \<Rightarrow> [])
        (fst (runSchedule raceSchedule timeoutCalls backend2)) = [''a1'', ''a2'']
   \<and> map fst serialSchedule = [0, 0, 0, 1, 1, 1]
   \<and> map a_id (activeAlerts (snd (runSchedule serialSchedule timeoutCalls backend2))) = [''a1'']
   \<and> intervals (snd (runSchedule serialSchedule timeoutCalls backend2)) = [(0, ''a1'', ''u1'')]
   \<and> map (\<lambda>call. case lc_at call of Returned (Some alert) \<Rightarrow> a_id alert | _ \<Rightarrow> [])
        (fst (runSchedule serialSchedule timeoutCalls backend2)) = [''a1'', ''a1'']"
proof -
  have b: "users backend2 = [user1]" "activeAlerts backend2 = []" "activeLoops backend2 = Map.empty"
      "intervals backend2 = []" "nextInterval backend2 = 0"
    by (simp_all add: backend2_def backend1_def)
  have u: "u_id user1 = ''u1''" "u_lifeOrDeathMode user1"
    by (simp_all add: user1_def)
  have race: "snd (runSchedule raceSchedule timeoutCalls backend2) =
      backend2\<lparr> activeAlerts :=
          [\<lparr> a_id = ''a1'', a_userId = ''u1'', a_sessionId = ''s1'',
             a_reason = ''Connection lost - possible crash, kick, or internet failure'',
             a_gameName = ''G'', a_startedAt = 31004, a_notificationsSent = 1,
             a_maxNotifications = 30, a_acknowledged = False, a_acknowledgedAt = None \<rparr>,
           \<lparr> a_id = ''a2'', a_userId = ''u1'', a_sessionId = ''s2'',
             a_reason = ''Connection lost - possible crash, kick, or internet failure'',
             a_gameName = ''G'', a_startedAt = 31005, a_notificationsSent = 1,
             a_maxNotifications = 30, a_acknowledged = False, a_acknowledgedAt = None \<rparr>],
        intervals := [(0, ''a1'', ''u1''), (1, ''a2'', ''u1'')],
        nextInterval := 2,
        activeLoops := [''a1'' \<mapsto> 0, ''a2'' \<mapsto> 1] \<rparr>"
    by (simp add: raceSchedule_def timeoutCalls_def resume_def Let_def b u stepEnv_def envAt_def
        startLoop_def clearInterval_def MAX_NOTIFICATIONS_def)
  have raceCalls: "map lc_at (fst (runSchedule raceSchedule timeoutCalls backend2)) =
      [Returned (Some \<lparr> a_id = ''a1'', a_userId = ''u1'', a_sessionId = ''s1'',
             a_reason = ''Connection lost - possible crash, kick, or internet failure'',
             a_gameName = ''G'', a_startedAt = 31004, a_notificationsSent = 1,
             a_maxNotifications = 30, a_acknowledged = False, a_acknowledgedAt = None \<rparr>),
       Returned (Some \<lparr> a_id = ''a2'', a_userId = ''u1'', a_sessionId = ''s2'',
             a_reason = ''Connection lost - possible crash, kick, or internet failure'',
             a_gameName = ''G'', a_startedAt = 31005, a_notificationsSent = 1,
             a_maxNotifications = 30, a_acknowledged = False, a_acknowledgedAt = None \<rparr>)]"
    by (simp add: raceSchedule_def timeoutCalls_def resume_def Let_def b u stepEnv_def envAt_def
        startLoop_def clearInterval_def MAX_NOTIFICATIONS_def)
  have serial: "snd (runSchedule serialSchedule timeoutCalls backend2) =
      backend2\<lparr> activeAlerts :=
          [\<lparr> a_id = ''a1'', a_userId = ''u1'', a_sessionId = ''s1'',
             a_reason = ''Connection lost - possible crash, kick, or internet failure'',
             a_gameName = ''G'', a_startedAt = 31002, a_notificationsSent = 1,
             a_maxNotifications = 30, a_acknowledged = False, a_acknowledgedAt = None \<rparr>],
        intervals := [(0, ''a1'', ''u1'')],
        nextInterval := 1,
        activeLoops := [''a1'' \<mapsto> 0] \<rparr>"
    by (simp add: serialSchedule_def timeoutCalls_def resume_def Let_def b u stepEnv_def envAt_def
        startLoop_def clearInterval_def MAX_NOTIFICATIONS_def)
  have serialCalls: "map lc_at (fst (runSchedule serialSchedule timeoutCalls backend2)) =
      [Returned (Some \<lparr> a_id = ''a1'', a_userId = ''u1'', a_sessionId = ''s1'',
             a_reason = ''Connection lost - possible crash, kick, or internet failure'',
             a_gameName = ''G'', a_startedAt = 31002, a_notificationsSent = 1,
             a_maxNotifications = 30, a_acknowledged = False, a_acknowledgedAt = None \<rparr>),
       Returned (Some \<lparr> a_id = ''a1'', a_userId = ''u1'', a_sessionId = ''s1'',
             a_reason = ''Connection lost - possible crash, kick, or internet failure'',
             a_gameName = ''G'', a_startedAt = 31002, a_notificationsSent = 1,
             a_maxNotifications = 30, a_acknowledged = False, a_acknowledgedAt = None \<rparr>)]"
    by (simp add: serialSchedule_def timeoutCalls_def resume_def Let_def b u stepEnv_def envAt_def
        startLoop_def clearInterval_def MAX_NOTIFICATIONS_def)
  have at: "map (\<lambda>call. case lc_at call of Returned (Some alert) \<Rightarrow> a_id alert | _ \<Rightarrow> []) cs =
      map (\<lambda>p. case p of Returned (Some alert) \<Rightarrow> a_id alert | _ \<Rightarrow> []) (map lc_at cs)" for cs
    by (simp add: comp_def)
  have start: "map u_id (users backend2) = [''u1'']" "map u_lifeOrDeathMode (users backend2) = [True]"
      "map lc_userId timeoutCalls = [''u1'', ''u1'']" "map lc_sessionId timeoutCalls = [''s1'', ''s2'']"
      "map fst raceSchedule = [0, 0, 1, 1, 0, 1]" "map fst serialSchedule = [0, 0, 0, 1, 1, 1]"
    by (simp_all add: b u timeoutCalls_def raceSchedule_def serialSchedule_def)
  show ?thesis
    unfolding at raceCalls serialCalls race serial
    using start b(2) by simp
qed

subsection \<open>Restoring alert loops at boot\<close>

lemma restoreOne_alerts:
  "activeAlerts (restoreOne e b a) =
     (if nowMs e - a_startedAt a < 10 * 60 * 1000 then activeAlerts b
      else map (\<lambda>x. if a_id x = a_id a then x\<lparr> a_acknowledged := True \<rparr> else x) (activeAlerts b))"
  by (simp add: restoreOne_def Let_def startLoop_fields)

lemma restoreOne_loops:
  assumes "\<not> nowMs e - a_startedAt a < 10 * 60 * 1000"
  shows "activeLoops (restoreOne e b a) = activeLoops b"
    and "intervals (restoreOne e b a) = intervals b"
    and "nextInterval (restoreOne e b a) = nextInterval b"
  using assms by (simp_all add: restoreOne_def Let_def)

lemma running_cong:
  "activeLoops b' = activeLoops b \<Longrightarrow> intervals b' = intervals b \<Longrightarrow> running y b' = running y b"
  by (simp add: running_def split: option.splits)

lemma restoreOne_consistent:
  assumes c: "loopsConsistent b"
  shows "loopsConsistent (restoreOne e b a)"
proof (cases "nowMs e - a_startedAt a < 10 * 60 * 1000")
  case True
  then show ?thesis
    using startLoop_consistent [OF c] by (simp add: restoreOne_def Let_def)
next
  case False
  then show ?thesis
    using c by (simp add: loopsConsistent_def restoreOne_loops [OF False]
        running_cong [OF restoreOne_loops(1,2) [OF False]])
qed

lemma restoreOne_keeps_running:
  assumes c: "loopsConsistent b" and r: "running y b"
  shows "running y (restoreOne e b a)"
proof (cases "nowMs e - a_startedAt a < 10 * 60 * 1000")
  case True
  then show ?thesis
    using startLoop_keeps_running [OF c r] by (simp add: restoreOne_def Let_def)
next
  case False
  then show ?thesis
    using r by (simp add: running_cong [OF restoreOne_loops(1,2) [OF False]])
qed

lemma restoreOne_running:
  "nowMs e - a_startedAt a < 10 * 60 * 1000 \<Longrightarrow> running (a_id a) (restoreOne e b a)"
  by (simp add: restoreOne_def Let_def startLoop_running)

lemma restore_fold_running:
  assumes "loopsConsistent b"
  shows "loopsConsistent (foldl (restoreOne e) b q)
       \<and> (\<forall>y. running y b \<longrightarrow> running y (foldl (restoreOne e) b q))
       \<and> (\<forall>a \<in> set q. nowMs e - a_startedAt a < 10 * 60 * 1000 \<longrightarrow>
             running (a_id a) (foldl (restoreOne e) b q))"
  using assms
proof (induction q arbitrary: b)
  case Nil
  then show ?case by simp
next
  case (Cons x q)
  have c1: "loopsConsistent (restoreOne e b x)"
    using Cons.prems by (rule restoreOne_consistent)
  note ih = Cons.IH [OF c1]
  have keep: "running y b \<Longrightarrow> running y (foldl (restoreOne e) (restoreOne e b x) q)" for y
    using ih restoreOne_keeps_running [OF Cons.prems] by blast
  have here: "nowMs e - a_startedAt x < 10 * 60 * 1000 \<Longrightarrow>
      running (a_id x) (foldl (restoreOne e) (restoreOne e b x) q)"
    using ih restoreOne_running by blast
  show ?case
    using ih keep here by auto
qed

lemma acknowledged_idem:
  "(if a_id (if P then x\<lparr> a_acknowledged := True \<rparr> else x) \<in> S
    then (if P then x\<lparr> a_acknowledged := True \<rparr> else x)\<lparr> a_acknowledged := True \<rparr>
    else (if P then x\<lparr> a_acknowledged := True \<rparr> else x)) =
   (if P \<or> a_id x \<in> S then x\<lparr> a_acknowledged := True \<rparr> else x)"
  by simp

lemma restore_fold_alerts:
  "activeAlerts (foldl (restoreOne e) b q) =
     map (\<lambda>a. if a_id a \<in> a_id ` {x \<in> set q. \<not> nowMs e - a_startedAt x < 10 * 60 * 1000}
               then a\<lparr> a_acknowledged := True \<rparr> else a) (activeAlerts b)"
proof (induction q arbitrary: b)
  case Nil
  then show ?case by simp
next
  case (Cons x q)
  let ?S = "a_id ` {y \<in> set q. \<not> nowMs e - a_startedAt y < 10 * 60 * 1000}"
  show ?case
  proof (cases "nowMs e - a_startedAt x < 10 * 60 * 1000")
    case True
    then have "a_id ` {y \<in> set (x # q). \<not> nowMs e - a_startedAt y < 10 * 60 * 1000} = ?S"
      by auto
    then show ?thesis
      using True by (simp add: Cons.IH restoreOne_alerts)
  next
    case False
    then have S: "a_id ` {y \<in> set (x # q). \<not> nowMs e - a_startedAt y < 10 * 60 * 1000} = insert (a_id x) ?S"
      by auto
    show ?thesis
      unfolding S using False
      by (simp add: Cons.IH restoreOne_alerts acknowledged_idem comp_def)
  qed
qed

text \<open>
  What the loop of \<open>restoreActiveLoops\<close> does to the rows it is given: each one that is less
  than 10 minutes old gets a running interval, each older one is marked acknowledged. This
  is the restore the function was written to perform.
\<close>

lemma restore_loop_intent:
  assumes boot: "activeLoops b = Map.empty" "intervals b = []"
    and b': "b' = foldl (restoreOne e) b (filter restoreQuery (activeAlerts b))"
  shows "(\<forall>a \<in> set (activeAlerts b).
            \<not> a_acknowledged a \<and> a_notificationsSent a < a_maxNotifications a
            \<and> nowMs e - a_startedAt a < 10 * 60 * 1000 \<longrightarrow> running (a_id a) b')
       \<and> (\<forall>a' \<in> set (activeAlerts b').
            \<not> a_acknowledged a' \<and> a_notificationsSent a' < a_maxNotifications a'
            \<longrightarrow> nowMs e - a_startedAt a' < 10 * 60 * 1000)"
proof (intro conjI ballI impI)
  have c: "loopsConsistent b"
    using boot by (simp add: loopsConsistent_def)
  fix a assume a: "a \<in> set (activeAlerts b)"
    and q: "\<not> a_acknowledged a \<and> a_notificationsSent a < a_maxNotifications a
            \<and> nowMs e - a_startedAt a < 10 * 60 * 1000"
  then have "a \<in> set (filter restoreQuery (activeAlerts b))"
    by (simp add: restoreQuery_def)
  then show "running (a_id a) b'"
    using restore_fold_running [OF c, of e "filter restoreQuery (activeAlerts b)"] q
    unfolding b' by blast
next
  let ?S = "a_id ` {x \<in> set (filter restoreQuery (activeAlerts b)). \<not> nowMs e - a_startedAt x < 10 * 60 * 1000}"
  fix a' assume a': "a' \<in> set (activeAlerts b')"
    and q: "\<not> a_acknowledged a' \<and> a_notificationsSent a' < a_maxNotifications a'"
  have "a' \<in> (\<lambda>a. if a_id a \<in> ?S then a\<lparr> a_acknowledged := True \<rparr> else a) ` set (activeAlerts b)"
    using a' unfolding b' restore_fold_alerts by simp
  then obtain a where a: "a \<in> set (activeAlerts b)"
    and eq: "a' = (if a_id a \<in> ?S then a\<lparr> a_acknowledged := True \<rparr> else a)"
    by (rule imageE)
  have notin: "a_id a \<notin> ?S"
  proof
    assume "a_id a \<in> ?S"
    then have "a_acknowledged a'" by (simp add: eq)
    then show False using q by simp
  qed
  then have same: "a' = a"
    by (simp add: eq)
  have "a \<in> set (filter restoreQuery (activeAlerts b))"
    using a q by (simp add: same restoreQuery_def)
  then show "nowMs e - a_startedAt a' < 10 * 60 * 1000"
    using notin unfolding same by blast
qed

text \<open>The loop is never reached: building the query throws, and the \<open>catch\<close> returns.\<close>

lemma restoreActiveLoops_returns_unchanged: "restoreActiveLoops e b = b"
  by (simp add: restoreActiveLoops_def prisma_raw_def)

text \<open>
  Claim C6. The server restarts at \<open>nowMs = 1200000\<close> with two unacknowledged alerts in the
  store, both at 4 of their 30 notifications: \<open>a3\<close>, started 200 s earlier, and \<open>a4\<close>,
  started 1100 s earlier. \<open>restoreActiveLoops\<close> leaves the store and the service as they
  were: \<open>a3\<close>, younger than 10 minutes, has no interval (no loop is recorded and no timer is
  installed), and \<open>a4\<close>, older than 10 minutes, is still unacknowledged.
\<close>

theorem restore_active_loops_restores_nothing:
  "map a_id (activeAlerts (backend1\<lparr> activeAlerts := [fresh3, stale4] \<rparr>)) = [''a3'', ''a4'']
   \<and> map a_acknowledged (activeAlerts (backend1\<lparr> activeAlerts := [fresh3, stale4] \<rparr>)) = [False, False]
   \<and> map a_notificationsSent [fresh3, stale4] = [4, 4]
   \<and> map a_maxNotifications [fresh3, stale4] = [30, 30]
   \<and> nowMs bootEnv - a_startedAt fresh3 = 200000
   \<and> nowMs bootEnv - a_startedAt stale4 = 1100000
   \<and> (10::int) * 60 * 1000 = 600000
   \<and> activeLoops (backend1\<lparr> activeAlerts := [fresh3, stale4] \<rparr>) = Map.empty
   \<and> intervals (backend1\<lparr> activeAlerts := [fresh3, stale4] \<rparr>) = []
   \<and> restoreActiveLoops bootEnv (backend1\<lparr> activeAlerts := [fresh3, stale4] \<rparr>) =
        backend1\<lparr> activeAlerts := [fresh3, stale4] \<rparr>
   \<and> activeLoops (restoreActiveLoops bootEnv (backend1\<lparr> activeAlerts := [fresh3, stale4] \<rparr>)) ''a3''
        = None
   \<and> intervals (restoreActiveLoops bootEnv (backend1\<lparr> activeAlerts := [fresh3, stale4] \<rparr>)) = []
   \<and> map a_acknowledged
        (activeAlerts (restoreActiveLoops bootEnv (backend1\<lparr> activeAlerts := [fresh3, stale4] \<rparr>)))
      = [False, False]"
proof -
  have same: "restoreActiveLoops bootEnv (backend1\<lparr> activeAlerts := [fresh3, stale4] \<rparr>) =
      backend1\<lparr> activeAlerts := [fresh3, stale4] \<rparr>"
    by (simp add: restoreActiveLoops_def prisma_raw_def)
  show ?thesis
    unfolding same
    by (simp add: fresh3_def stale4_def bootEnv_def envAt_def backend1_def)
qed

subsection \<open>Operations that only acknowledge\<close>

text \<open>
  Marking rows acknowledged cannot add a second unacknowledged alert for a user:
  acknowledging keeps a store free of one, and so does the restore at boot.
\<close>

lemma acknowledging_keeps_invariant:
  assumes inv: "oneUnacknowledgedPerUser as"
    and f: "\<And>a. a_userId (f a) = a_userId a" "\<And>a. a_acknowledged a \<Longrightarrow> a_acknowledged (f a)"
  shows "oneUnacknowledgedPerUser (map f as)"
proof -
  have le: "length (filter (\<lambda>x. a_userId x = u \<and> \<not> a_acknowledged x) (map f xs))
            \<le> length (filter (\<lambda>x. a_userId x = u \<and> \<not> a_acknowledged x) xs)" for u xs
  proof (induction xs)
    case Nil
    then show ?case by simp
  next
    case (Cons x xs)
    then show ?case using f [of x] by auto
  qed
  show ?thesis
    unfolding oneUnacknowledgedPerUser_def
  proof
    fix a' assume "a' \<in> set (map f as)"
    then have "a' \<in> f ` set as" by simp
    then obtain a where a: "a \<in> set as" "a' = f a"
      by (rule imageE)
    have "length (filter (\<lambda>x. a_userId x = a_userId a \<and> \<not> a_acknowledged x) as) \<le> 1"
      using inv a(1) unfolding oneUnacknowledgedPerUser_def by blast
    then show "length (filter (\<lambda>x. a_userId x = a_userId a' \<and> \<not> a_acknowledged x) (map f as)) \<le> 1"
      using le [of "a_userId a" as] by (simp add: a(2) f(1))
  qed
qed

lemma stopLoop_alerts: "activeAlerts (stopLoop x b) = activeAlerts b"
  by (simp add: stopLoop_def clearInterval_def split: option.splits)

lemma acknowledgeAlert_keeps_invariant:
  assumes "oneUnacknowledgedPerUser (activeAlerts b)"
  shows "oneUnacknowledgedPerUser (activeAlerts (snd (acknowledgeAlert e alertId userId b)))"
proof (cases "find (\<lambda>a. a_id a = alertId \<and> a_userId a = userId \<and> \<not> a_acknowledged a) (activeAlerts b)")
  case None
  then show ?thesis
    using assms by (simp add: acknowledgeAlert_def)
next
  case (Some alert)
  have "oneUnacknowledgedPerUser
          (map (\<lambda>a. if a_id a = alertId
                     then a\<lparr> a_acknowledged := True, a_acknowledgedAt := Some (nowMs e) \<rparr>
                     else a) (activeAlerts b))"
    by (rule acknowledging_keeps_invariant [OF assms]) simp_all
  then show ?thesis
    using Some by (simp add: acknowledgeAlert_def stopLoop_alerts)
qed

lemma restoreActiveLoops_keeps_invariant:
  assumes "oneUnacknowledgedPerUser (activeAlerts b)"
  shows "oneUnacknowledgedPerUser (activeAlerts (restoreActiveLoops e b))"
  using assms by (simp add: restoreActiveLoops_returns_unchanged)

subsection \<open>Fan-out and rate limiting\<close>

lemma send_fields:
  "clients (send ws d r) = clients r"
  "openSockets (send ws d r) = openSockets r"
  "rateLimits (send ws d r) = rateLimits r"
  "heartbeatTimers (send ws d r) = heartbeatTimers r"
  "timeouts (send ws d r) = timeouts r"
  "nextTimeout (send ws d r) = nextTimeout r"
  "sent (send ws d r) = sent r @ (if ws \<in> openSockets r then [(ws, d)] else [])"
  by (simp_all add: send_def)

lemma notifyOne_fields:
  "clients (notifyOne u d r x) = clients r"
  "openSockets (notifyOne u d r x) = openSockets r"
  "rateLimits (notifyOne u d r x) = rateLimits r"
  "heartbeatTimers (notifyOne u d r x) = heartbeatTimers r"
  "timeouts (notifyOne u d r x) = timeouts r"
  "nextTimeout (notifyOne u d r x) = nextTimeout r"
  "sent (notifyOne u d r x) =
     sent r @ (if c_type (snd x) = Some Mobile \<and> c_userId (snd x) = u \<and> c_authenticated (snd x)
                  \<and> fst x \<in> openSockets r then [(fst x, d)] else [])"
  by (simp_all add: notifyOne_def send_fields)

lemma notify_fold:
  "clients (foldl (notifyOne u d) r xs) = clients r
   \<and> openSockets (foldl (notifyOne u d) r xs) = openSockets r
   \<and> rateLimits (foldl (notifyOne u d) r xs) = rateLimits r
   \<and> heartbeatTimers (foldl (notifyOne u d) r xs) = heartbeatTimers r
   \<and> timeouts (foldl (notifyOne u d) r xs) = timeouts r
   \<and> nextTimeout (foldl (notifyOne u d) r xs) = nextTimeout r
   \<and> sent (foldl (notifyOne u d) r xs) =
       sent r @ map (\<lambda>entry. (fst entry, d))
         (filter (\<lambda>entry. c_type (snd entry) = Some Mobile \<and> c_userId (snd entry) = u
                            \<and> c_authenticated (snd entry) \<and> fst entry \<in> openSockets r) xs)"
proof (induction xs arbitrary: r)
  case Nil
  then show ?case by simp
next
  case (Cons x xs)
  show ?case
    by (simp add: Cons.IH notifyOne_fields)
qed

lemma notifyMobileApps_fields:
  "clients (notifyMobileApps u d r) = clients r"
  "openSockets (notifyMobileApps u d r) = openSockets r"
  "rateLimits (notifyMobileApps u d r) = rateLimits r"
  "heartbeatTimers (notifyMobileApps u d r) = heartbeatTimers r"
  "timeouts (notifyMobileApps u d r) = timeouts r"
  "nextTimeout (notifyMobileApps u d r) = nextTimeout r"
  "sent (notifyMobileApps u d r) = sent r @ fanout r u d"
  using notify_fold [of u d r "clients r"]
  by (simp_all add: notifyMobileApps_def fanout_def)

lemma fanout_cong:
  "clients r' = clients r \<Longrightarrow> openSockets r' = openSockets r \<Longrightarrow> fanout r' u d = fanout r u d"
  by (simp add: fanout_def)

lemma status_limit: "RATE_LIMITS ''status'' = Some \<lparr> lim_max = 6, lim_windowMs = 60000 \<rparr>"
  by (simp add: RATE_LIMITS_def)

lemma check_opens_window:
  assumes "case rateLimits r (rateKey cid ''status'') of
             None \<Rightarrow> True | Some existing \<Rightarrow> nowMs e > rl_resetTime existing"
  shows "checkRateLimit e cid ''status'' r =
           (True, r\<lparr> rateLimits := (rateLimits r)(rateKey cid ''status'' \<mapsto>
                       \<lparr> rl_count = 1, rl_resetTime = nowMs e + 60000 \<rparr>) \<rparr>)"
proof (cases "rateLimits r (rateKey cid ''status'')")
  case None
  then show ?thesis
    by (simp add: checkRateLimit_def status_limit Let_def)
next
  case (Some existing)
  then have "nowMs e > rl_resetTime existing"
    using assms by simp
  then show ?thesis
    using Some by (simp add: checkRateLimit_def status_limit Let_def)
qed

lemma check_counts:
  assumes "rateLimits r (rateKey cid ''status'') = Some \<lparr> rl_count = n, rl_resetTime = T \<rparr>"
    and "nowMs e \<le> T" and "n < 6"
  shows "checkRateLimit e cid ''status'' r =
           (True, r\<lparr> rateLimits := (rateLimits r)(rateKey cid ''status'' \<mapsto>
                       \<lparr> rl_count = Suc n, rl_resetTime = T \<rparr>) \<rparr>)"
  using assms by (simp add: checkRateLimit_def status_limit Let_def)

lemma check_rejects:
  assumes "rateLimits r (rateKey cid ''status'') = Some \<lparr> rl_count = n, rl_resetTime = T \<rparr>"
    and "nowMs e \<le> T" and "6 \<le> n"
  shows "checkRateLimit e cid ''status'' r = (False, r)"
  using assms by (simp add: checkRateLimit_def status_limit Let_def)

lemma updateStatus_row:
  assumes "\<exists>s \<in> set (sessions b). s_wsClientId s = cid"
  shows "\<exists>b1. updateStatus cid t b = Inr b1 \<and> (\<exists>s \<in> set (sessions b1). s_wsClientId s = cid)"
proof -
  from assms obtain s where s: "s \<in> set (sessions b)" "s_wsClientId s = cid"
    by blast
  let ?f = "\<lambda>s::session. case t of None \<Rightarrow> s | Some v \<Rightarrow> s\<lparr> s_currentStatus := Some v \<rparr>"
  have w: "s_wsClientId (?f x) = s_wsClientId x" for x
    by (cases t) simp_all
  have u: "updateStatus cid t b =
      Inr (b\<lparr> sessions := map (\<lambda>s. if s_wsClientId s = cid then ?f s else s) (sessions b) \<rparr>)"
    unfolding updateStatus_def using sessionUpdate_mem [OF s(1), of "\<lambda>s. s_wsClientId s = cid" ?f] s(2)
    by simp
  have m: "?f s \<in> set (map (\<lambda>s. if s_wsClientId s = cid then ?f s else s) (sessions b))"
    using s by force
  show ?thesis
  proof (intro exI conjI)
    show "updateStatus cid t b =
      Inr (b\<lparr> sessions := map (\<lambda>s. if s_wsClientId s = cid then ?f s else s) (sessions b) \<rparr>)"
      by (rule u)
    show "\<exists>x \<in> set (sessions (b\<lparr> sessions := map (\<lambda>s. if s_wsClientId s = cid then ?f s else s)
                                                  (sessions b) \<rparr>)). s_wsClientId x = cid"
    proof (rule bexI [of _ "?f s"])
      show "s_wsClientId (?f s) = cid"
        using w [of s] s(2) by simp
      show "?f s \<in> set (sessions (b\<lparr> sessions := map (\<lambda>s. if s_wsClientId s = cid then ?f s else s)
                                                  (sessions b) \<rparr>))"
        using m by simp
    qed
  qed
qed

text \<open>An admitted \<open>status\<close> message: the row is written and the consumers get the update.\<close>

lemma handleStatus_admitted:
  assumes auth: "c_authenticated client" "c_type client = Some Roblox"
    and chk: "checkRateLimit e (c_id client) ''status'' r = (True, r2)"
    and row: "\<exists>s \<in> set (sessions b). s_wsClientId s = c_id client"
  shows "\<exists>b1. handleStatus e ws client msg r b =
           (None, notifyMobileApps (c_userId client)
                    (StatusUpdate (c_sessionId client) (m_status msg) (m_data msg) (nowMs e)) r2, b1)
         \<and> (\<exists>s \<in> set (sessions b1). s_wsClientId s = c_id client)"
proof -
  obtain b1 where b1: "updateStatus (c_id client) (m_status msg) b = Inr b1"
      "\<exists>s \<in> set (sessions b1). s_wsClientId s = c_id client"
    using updateStatus_row [OF row] by blast
  show ?thesis
    using auth chk b1 by (simp add: handleStatus_def requireAuth_def)
qed

lemma handleStatus_rejected:
  assumes auth: "c_authenticated client" "c_type client = Some Roblox"
    and chk: "checkRateLimit e (c_id client) ''status'' r = (False, r)"
  shows "handleStatus e ws client msg r b =
           (None, sendError ws ''RATE_LIMITED'' ''Status updates limited to 6 per minute'' r, b)"
  using auth chk by (simp add: handleStatus_def requireAuth_def)

lemma burst_within_window:
  assumes auth: "c_authenticated client" "c_type client = Some Roblox"
  shows "rateLimits r (rateKey (c_id client) ''status'') = Some \<lparr> rl_count = n, rl_resetTime = T \<rparr> \<Longrightarrow>
         \<forall>em \<in> set ems. nowMs (fst em) \<le> T \<Longrightarrow> n + length ems \<le> 6 \<Longrightarrow>
         \<exists>s \<in> set (sessions b). s_wsClientId s = c_id client \<Longrightarrow>
         sent (fst (statusBurst ws client ems (r, b))) =
           sent r @ concat (map (\<lambda>em. fanout r (c_userId client)
                            (StatusUpdate (c_sessionId client) (m_status (snd em)) (m_data (snd em))
                               (nowMs (fst em)))) ems)
         \<and> rateLimits (fst (statusBurst ws client ems (r, b))) (rateKey (c_id client) ''status'') =
             Some \<lparr> rl_count = n + length ems, rl_resetTime = T \<rparr>
         \<and> clients (fst (statusBurst ws client ems (r, b))) = clients r
         \<and> openSockets (fst (statusBurst ws client ems (r, b))) = openSockets r
         \<and> (\<exists>s \<in> set (sessions (snd (statusBurst ws client ems (r, b)))). s_wsClientId s = c_id client)"
proof (induction ems arbitrary: r b n)
  case Nil
  then show ?case by simp
next
  case (Cons em ems)
  let ?key = "rateKey (c_id client) ''status''"
  let ?r2 = "r\<lparr> rateLimits := (rateLimits r)(?key \<mapsto> \<lparr> rl_count = Suc n, rl_resetTime = T \<rparr>) \<rparr>"
  let ?d = "StatusUpdate (c_sessionId client) (m_status (snd em)) (m_data (snd em)) (nowMs (fst em))"
  let ?r3 = "notifyMobileApps (c_userId client) ?d ?r2"
  have n: "n < 6" and t: "nowMs (fst em) \<le> T"
    using Cons.prems by simp_all
  have chk: "checkRateLimit (fst em) (c_id client) ''status'' r = (True, ?r2)"
    by (rule check_counts [OF Cons.prems(1) t n])
  obtain b1 where step: "handleStatus (fst em) ws client (snd em) r b = (None, ?r3, b1)"
    and row1: "\<exists>s \<in> set (sessions b1). s_wsClientId s = c_id client"
    using handleStatus_admitted [OF auth chk Cons.prems(4)] by blast
  have rl3: "rateLimits ?r3 ?key = Some \<lparr> rl_count = Suc n, rl_resetTime = T \<rparr>"
    by (simp add: notifyMobileApps_fields)
  have f3: "clients ?r3 = clients r" "openSockets ?r3 = openSockets r"
    by (simp_all add: notifyMobileApps_fields)
  have s3: "sent ?r3 = sent r @ fanout r (c_userId client) ?d"
    by (simp add: notifyMobileApps_fields fanout_def)
  have w: "\<forall>em \<in> set ems. nowMs (fst em) \<le> T" and l: "Suc n + length ems \<le> 6"
    using Cons.prems by simp_all
  note ih = Cons.IH [OF rl3 w l row1]
  have unfold: "statusBurst ws client (em # ems) (r, b) = statusBurst ws client ems (?r3, b1)"
    by (simp add: step statusMessage_def)
  show ?case
    unfolding unfold using ih by (simp add: s3 f3 fanout_cong [OF f3])
qed

text \<open>
  The key \<open>clientId:class\<close> tells clients and classes apart: a class name holds no colon,
  so the last colon of the key is the one that joins the two.
\<close>

lemma split_at_first:
  "a \<notin> set xs \<Longrightarrow> a \<notin> set xs' \<Longrightarrow> xs @ a # ys = xs' @ a # ys' \<Longrightarrow> xs = xs' \<and> ys = ys'"
proof (induction xs arbitrary: xs')
  case Nil
  then show ?case by (cases xs') auto
next
  case (Cons x xs)
  then show ?case by (cases xs') auto
qed

lemma rateKey_inj:
  assumes "CHR '':'' \<notin> set t" "CHR '':'' \<notin> set t'" "rateKey c t = rateKey c' t'"
  shows "c = c' \<and> t = t'"
proof -
  have "rev (rateKey c t) = rev (rateKey c' t')"
    using assms(3) by simp
  then have eq: "rev t @ CHR '':'' # rev c = rev t' @ CHR '':'' # rev c'"
    by (simp add: rateKey_def)
  have n: "CHR '':'' \<notin> set (rev t)" "CHR '':'' \<notin> set (rev t')"
    using assms(1,2) by simp_all
  have "rev t = rev t' \<and> rev c = rev c'"
    using split_at_first [OF n eq] .
  then show ?thesis by simp
qed

lemma rateKey_other:
  assumes "CHR '':'' \<notin> set t'" "c' \<noteq> c \<or> t' \<noteq> ''status''"
  shows "rateKey c' t' \<noteq> rateKey c ''status''"
proof
  assume "rateKey c' t' = rateKey c ''status''"
  then have "c' = c \<and> t' = ''status''"
    using rateKey_inj [of t' "''status''" c' c] assms(1) by simp
  then show False using assms(2) by simp
qed

text \<open>A check charges the counter of its own key and no other.\<close>

lemma checkRateLimit_other_keys:
  "k \<noteq> rateKey cid type \<Longrightarrow> rateLimits (snd (checkRateLimit e cid type r)) k = rateLimits r k"
  by (simp add: checkRateLimit_def Let_def split: option.splits)

lemma handleStatus_other_keys:
  assumes "k \<noteq> rateKey (c_id client) ''status''"
  shows "rateLimits (fst (snd (handleStatus e ws client msg r b))) k = rateLimits r k"
proof (cases "c_authenticated client \<and> c_type client = Some Roblox")
  case False
  then show ?thesis
    by (auto simp: handleStatus_def requireAuth_def sendError_def send_fields)
next
  case True
  obtain ok r2 where chk: "checkRateLimit e (c_id client) ''status'' r = (ok, r2)"
    by (cases "checkRateLimit e (c_id client) ''status'' r")
  have r2: "rateLimits r2 k = rateLimits r k"
    using checkRateLimit_other_keys [OF assms, of e r] by (simp add: chk)
  show ?thesis
  proof (cases ok)
    case False
    then show ?thesis
      using True chk r2 by (simp add: handleStatus_def requireAuth_def sendError_def send_fields)
  next
    case ok: True
    show ?thesis
    proof (cases "updateStatus (c_id client) (m_status msg) b")
      case (Inl err)
      then show ?thesis
        using True chk ok r2 by (simp add: handleStatus_def requireAuth_def)
    next
      case (Inr b1)
      then show ?thesis
        using True chk ok r2 by (simp add: handleStatus_def requireAuth_def notifyMobileApps_fields)
    qed
  qed
qed

lemma statusMessage_other_keys:
  assumes "k \<noteq> rateKey (c_id client) ''status''"
  shows "rateLimits (fst (statusMessage e ws client msg rb)) k = rateLimits (fst rb) k"
proof -
  obtain err r1 b1 where h: "handleStatus e ws client msg (fst rb) (snd rb) = (err, r1, b1)"
    by (cases "handleStatus e ws client msg (fst rb) (snd rb)")
  have "rateLimits r1 k = rateLimits (fst rb) k"
    using handleStatus_other_keys [OF assms, of e ws msg "fst rb" "snd rb"] by (simp add: h)
  then show ?thesis
    by (cases err) (simp_all add: statusMessage_def h sendError_def send_fields)
qed

lemma statusBurst_other_keys:
  assumes "k \<noteq> rateKey (c_id client) ''status''"
  shows "rateLimits (fst (statusBurst ws client ems rb)) k = rateLimits (fst rb) k"
proof (induction ems arbitrary: rb)
  case Nil
  then show ?case by simp
next
  case (Cons em ems)
  show ?case
    by (simp add: Cons.IH statusMessage_other_keys [OF assms])
qed

text \<open>
  Claim C7. The limiter counts per key \<open>clientId:class\<close> in a fixed window: status 6, log 30,
  notify 5 and alert 5 per 60 s, heartbeat and disconnect without a limit. A producer whose
  first \<open>status\<close> message opens the window and that sends six in all and then a seventh
  before the window's reset time: the six are fanned out to the user's consumers, the
  seventh adds only the \<open>RATE_LIMITED\<close> error frame to the producer's own socket, changes
  neither the store nor the socket map nor any socket's open state, and a message after
  the reset time is fanned out again with the counter back at 1. The counting is this
  client's and this class's alone: all through the run the counter of every other client
  and of every other class stands as it stood, and right after the seventh message was
  turned away a \<open>status\<close> message of any other client that has no counter yet is admitted.
\<close>

theorem status_rate_limit:
  assumes auth: "c_authenticated client" "c_type client = Some Roblox"
    and row: "\<exists>s \<in> set (sessions b). s_wsClientId s = c_id client"
    and start: "case rateLimits r (rateKey (c_id client) ''status'') of
                  None \<Rightarrow> True | Some existing \<Rightarrow> nowMs e1 > rl_resetTime existing"
    and five: "length rest = 5"
    and window: "\<forall>em \<in> set rest. nowMs (fst em) \<le> nowMs e1 + 60000" "nowMs e7 \<le> nowMs e1 + 60000"
    and later: "nowMs e8 > nowMs e1 + 60000"
    and six: "rb6 = statusBurst ws client ((e1, m1) # rest) (r, b)"
    and seventh: "x7 = handleStatus e7 ws client m7 (fst rb6) (snd rb6)"
    and eighth: "x8 = handleStatus e8 ws client m8 (fst (snd x7)) (snd (snd x7))"
  shows "RATE_LIMITS ''status'' = Some \<lparr> lim_max = 6, lim_windowMs = 60000 \<rparr>
       \<and> RATE_LIMITS ''log'' = Some \<lparr> lim_max = 30, lim_windowMs = 60000 \<rparr>
       \<and> RATE_LIMITS ''notify'' = Some \<lparr> lim_max = 5, lim_windowMs = 60000 \<rparr>
       \<and> RATE_LIMITS ''alert'' = Some \<lparr> lim_max = 5, lim_windowMs = 60000 \<rparr>
       \<and> RATE_LIMITS ''heartbeat'' = None \<and> RATE_LIMITS ''disconnect'' = None
       \<and> sent (fst rb6) =
           sent r @ concat (map (\<lambda>em. fanout r (c_userId client)
                            (StatusUpdate (c_sessionId client) (m_status (snd em)) (m_data (snd em))
                               (nowMs (fst em)))) ((e1, m1) # rest))
       \<and> fst x7 = None
       \<and> sent (fst (snd x7)) =
           sent (fst rb6) @ (if ws \<in> openSockets r
                             then [(ws, ErrorFrame ''RATE_LIMITED'' ''Status updates limited to 6 per minute'')]
                             else [])
       \<and> snd (snd x7) = snd rb6
       \<and> clients (fst (snd x7)) = clients r
       \<and> openSockets (fst (snd x7)) = openSockets r
       \<and> fst x8 = None
       \<and> sent (fst (snd x8)) =
           sent (fst (snd x7)) @ fanout r (c_userId client)
             (StatusUpdate (c_sessionId client) (m_status m8) (m_data m8) (nowMs e8))
       \<and> rateLimits (fst (snd x8)) (rateKey (c_id client) ''status'') =
           Some \<lparr> rl_count = 1, rl_resetTime = nowMs e8 + 60000 \<rparr>
       \<and> (\<forall>cid' type'. CHR '':'' \<notin> set type' \<and> (cid' \<noteq> c_id client \<or> type' \<noteq> ''status'') \<longrightarrow>
             rateLimits (fst rb6) (rateKey cid' type') = rateLimits r (rateKey cid' type')
             \<and> rateLimits (fst (snd x7)) (rateKey cid' type') = rateLimits r (rateKey cid' type')
             \<and> rateLimits (fst (snd x8)) (rateKey cid' type') = rateLimits r (rateKey cid' type'))
       \<and> (\<forall>cid' e'. cid' \<noteq> c_id client \<and> rateLimits r (rateKey cid' ''status'') = None \<longrightarrow>
             fst (checkRateLimit e' cid' ''status'' (fst (snd x7))))"
proof -
  let ?key = "rateKey (c_id client) ''status''"
  let ?T = "nowMs e1 + 60000"
  let ?d = "\<lambda>e m. StatusUpdate (c_sessionId client) (m_status m) (m_data m) (nowMs e)"
  \<comment> \<open>the first message opens the window\<close>
  let ?r1 = "r\<lparr> rateLimits := (rateLimits r)(?key \<mapsto> \<lparr> rl_count = Suc 0, rl_resetTime = ?T \<rparr>) \<rparr>"
  let ?r1' = "notifyMobileApps (c_userId client) (?d e1 m1) ?r1"
  have chk1: "checkRateLimit e1 (c_id client) ''status'' r = (True, ?r1)"
    using check_opens_window [OF start] by simp
  obtain b1 where step1: "handleStatus e1 ws client m1 r b = (None, ?r1', b1)"
    and row1: "\<exists>s \<in> set (sessions b1). s_wsClientId s = c_id client"
    using handleStatus_admitted [OF auth chk1 row] by blast
  have f1: "clients ?r1' = clients r" "openSockets ?r1' = openSockets r"
    by (simp_all add: notifyMobileApps_fields)
  have s1: "sent ?r1' = sent r @ fanout r (c_userId client) (?d e1 m1)"
    by (simp add: notifyMobileApps_fields fanout_def)
  have rl1: "rateLimits ?r1' ?key = Some \<lparr> rl_count = Suc 0, rl_resetTime = ?T \<rparr>"
    by (simp add: notifyMobileApps_fields)
  \<comment> \<open>the next five stay inside it\<close>
  have fits: "Suc 0 + length rest \<le> 6"
    using five by simp
  note burst = burst_within_window [OF auth rl1 window(1) fits row1, of ws]
  have rb6: "rb6 = statusBurst ws client rest (?r1', b1)"
    by (simp add: six step1 statusMessage_def)
  have s6: "sent (fst rb6) =
      sent r @ concat (map (\<lambda>em. fanout r (c_userId client) (?d (fst em) (snd em))) ((e1, m1) # rest))"
    using burst by (simp add: rb6 s1 fanout_cong [OF f1])
  have rl6: "rateLimits (fst rb6) ?key = Some \<lparr> rl_count = 6, rl_resetTime = ?T \<rparr>"
    using burst five by (simp add: rb6)
  have f6: "clients (fst rb6) = clients r" "openSockets (fst rb6) = openSockets r"
    using burst by (simp_all add: rb6 f1)
  have row6: "\<exists>s \<in> set (sessions (snd rb6)). s_wsClientId s = c_id client"
    using burst by (simp add: rb6)
  \<comment> \<open>the seventh is turned away\<close>
  have chk7: "checkRateLimit e7 (c_id client) ''status'' (fst rb6) = (False, fst rb6)"
    by (rule check_rejects [OF rl6 window(2)]) simp
  have x7: "x7 = (None, sendError ws ''RATE_LIMITED'' ''Status updates limited to 6 per minute'' (fst rb6),
                  snd rb6)"
    unfolding seventh by (rule handleStatus_rejected [OF auth chk7])
  have s7: "sent (fst (snd x7)) =
      sent (fst rb6) @ (if ws \<in> openSockets r
                        then [(ws, ErrorFrame ''RATE_LIMITED'' ''Status updates limited to 6 per minute'')]
                        else [])"
    by (simp add: x7 sendError_def send_fields f6)
  have f7: "clients (fst (snd x7)) = clients r" "openSockets (fst (snd x7)) = openSockets r"
    by (simp_all add: x7 sendError_def send_fields f6)
  have rl7: "rateLimits (fst (snd x7)) ?key = Some \<lparr> rl_count = 6, rl_resetTime = ?T \<rparr>"
    by (simp add: x7 sendError_def send_fields rl6)
  \<comment> \<open>after the reset time the window starts over\<close>
  let ?r7 = "fst (snd x7)"
  let ?r8 = "?r7\<lparr> rateLimits := (rateLimits ?r7)(?key \<mapsto>
                 \<lparr> rl_count = Suc 0, rl_resetTime = nowMs e8 + 60000 \<rparr>) \<rparr>"
  have expired: "case rateLimits ?r7 ?key of None \<Rightarrow> True | Some existing \<Rightarrow> nowMs e8 > rl_resetTime existing"
    using later by (simp add: rl7)
  have chk8: "checkRateLimit e8 (c_id client) ''status'' ?r7 = (True, ?r8)"
    using check_opens_window [OF expired] by simp
  have row7: "\<exists>s \<in> set (sessions (snd (snd x7))). s_wsClientId s = c_id client"
    using row6 by (simp add: x7)
  obtain b8 where x8: "x8 = (None, notifyMobileApps (c_userId client) (?d e8 m8) ?r8, b8)"
    using handleStatus_admitted [OF auth chk8 row7, of ws m8] unfolding eighth by blast
  have f8: "clients ?r8 = clients r" "openSockets ?r8 = openSockets r"
    by (simp_all add: f7)
  have s8: "sent (fst (snd x8)) = sent ?r7 @ fanout r (c_userId client) (?d e8 m8)"
    by (simp add: x8 notifyMobileApps_fields fanout_cong [OF f8])
  have rl8: "rateLimits (fst (snd x8)) ?key = Some \<lparr> rl_count = 1, rl_resetTime = nowMs e8 + 60000 \<rparr>"
    by (simp add: x8 notifyMobileApps_fields)
  have limits: "RATE_LIMITS ''status'' = Some \<lparr> lim_max = 6, lim_windowMs = 60000 \<rparr>
       \<and> RATE_LIMITS ''log'' = Some \<lparr> lim_max = 30, lim_windowMs = 60000 \<rparr>
       \<and> RATE_LIMITS ''notify'' = Some \<lparr> lim_max = 5, lim_windowMs = 60000 \<rparr>
       \<and> RATE_LIMITS ''alert'' = Some \<lparr> lim_max = 5, lim_windowMs = 60000 \<rparr>
       \<and> RATE_LIMITS ''heartbeat'' = None \<and> RATE_LIMITS ''disconnect'' = None"
    by (simp add: RATE_LIMITS_def)
  have x7n: "fst x7 = None" "snd (snd x7) = snd rb6"
    by (simp_all add: x7)
  have x8n: "fst x8 = None"
    by (simp add: x8)
  \<comment> \<open>no other counter is touched\<close>
  have k6: "rateLimits (fst rb6) k = rateLimits r k" if "k \<noteq> ?key" for k
    unfolding six using statusBurst_other_keys [OF that, of ws "(e1, m1) # rest" "(r, b)"] by simp
  have k7: "rateLimits (fst (snd x7)) k = rateLimits r k" if "k \<noteq> ?key" for k
    unfolding seventh using handleStatus_other_keys [OF that, of e7 ws m7 "fst rb6" "snd rb6"] k6 [OF that]
    by simp
  have k8: "rateLimits (fst (snd x8)) k = rateLimits r k" if "k \<noteq> ?key" for k
    unfolding eighth
    using handleStatus_other_keys [OF that, of e8 ws m8 "fst (snd x7)" "snd (snd x7)"] k7 [OF that]
    by simp
  have others: "\<forall>cid' type'. CHR '':'' \<notin> set type' \<and> (cid' \<noteq> c_id client \<or> type' \<noteq> ''status'') \<longrightarrow>
             rateLimits (fst rb6) (rateKey cid' type') = rateLimits r (rateKey cid' type')
             \<and> rateLimits (fst (snd x7)) (rateKey cid' type') = rateLimits r (rateKey cid' type')
             \<and> rateLimits (fst (snd x8)) (rateKey cid' type') = rateLimits r (rateKey cid' type')"
  proof (intro allI impI)
    fix cid' type'
    assume a: "CHR '':'' \<notin> set type' \<and> (cid' \<noteq> c_id client \<or> type' \<noteq> ''status'')"
    then have ne: "rateKey cid' type' \<noteq> ?key"
      using rateKey_other [of type' cid' "c_id client"] by blast
    show "rateLimits (fst rb6) (rateKey cid' type') = rateLimits r (rateKey cid' type')
             \<and> rateLimits (fst (snd x7)) (rateKey cid' type') = rateLimits r (rateKey cid' type')
             \<and> rateLimits (fst (snd x8)) (rateKey cid' type') = rateLimits r (rateKey cid' type')"
      using k6 [OF ne] k7 [OF ne] k8 [OF ne] by (intro conjI)
  qed
  have admitted: "\<forall>cid' e'. cid' \<noteq> c_id client \<and> rateLimits r (rateKey cid' ''status'') = None \<longrightarrow>
             fst (checkRateLimit e' cid' ''status'' (fst (snd x7)))"
  proof (intro allI impI)
    fix cid' and e' :: env
    assume a: "cid' \<noteq> c_id client \<and> rateLimits r (rateKey cid' ''status'') = None"
    then have ne: "rateKey cid' ''status'' \<noteq> ?key"
      using rateKey_other [of "''status''" cid' "c_id client"] by simp
    have "rateLimits (fst (snd x7)) (rateKey cid' ''status'') = None"
      using k7 [OF ne] a by simp
    then have "case rateLimits (fst (snd x7)) (rateKey cid' ''status'') of
                 None \<Rightarrow> True | Some existing \<Rightarrow> nowMs e' > rl_resetTime existing"
      by simp
    from check_opens_window [OF this]
    show "fst (checkRateLimit e' cid' ''status'' (fst (snd x7)))"
      by simp
  qed
  show ?thesis
    using limits s6 x7n s7 f7 x8n s8 rl8 others admitted by (intro conjI) blast+
qed

lemma fanout_router0:
  "fanout router0 (Some ''u1'') d = [(8, d)]"
  by (simp add: fanout_def router0_def producer1_def consumer1_def consumer2_def)

text \<open>
  The producer of socket 7 sends its seven messages while another producer, client \<open>c5\<close>,
  is at its own limit of six and while its own \<open>notify\<close> counter is at its limit of five:
  its six are fanned out all the same, the seventh is turned away, the two other counters
  stand as they stood, and a client \<open>c9\<close> that has sent nothing is admitted.
\<close>

theorem status_rate_limit_witness:
  "length fiveMore = 5
   \<and> rateLimits routerOthersLimited (rateKey ''c5'' ''status'') =
       Some \<lparr> rl_count = 6, rl_resetTime = 60500 \<rparr>
   \<and> sent (fst (statusBurst 7 producer1 ((clockAt 1000, statusMsg ''Farming'') # fiveMore)
                  (routerOthersLimited, backend1))) =
       [(8, StatusUpdate (Some ''s1'') (Some ''Farming'') None 1000),
        (8, StatusUpdate (Some ''s1'') (Some ''Farming'') None 1001),
        (8, StatusUpdate (Some ''s1'') (Some ''Farming'') None 1002),
        (8, StatusUpdate (Some ''s1'') (Some ''Farming'') None 1003),
        (8, StatusUpdate (Some ''s1'') (Some ''Farming'') None 1004),
        (8, StatusUpdate (Some ''s1'') (Some ''Farming'') None 1005)]
   \<and> sent (fst (snd (handleStatus (clockAt 1006) 7 producer1 (statusMsg ''Farming'')
        (fst (statusBurst 7 producer1 ((clockAt 1000, statusMsg ''Farming'') # fiveMore)
                (routerOthersLimited, backend1)))
        (snd (statusBurst 7 producer1 ((clockAt 1000, statusMsg ''Farming'') # fiveMore)
                (routerOthersLimited, backend1)))))) =
       sent (fst (statusBurst 7 producer1 ((clockAt 1000, statusMsg ''Farming'') # fiveMore)
                  (routerOthersLimited, backend1)))
       @ [(7, ErrorFrame ''RATE_LIMITED'' ''Status updates limited to 6 per minute'')]
   \<and> rateLimits (fst (snd (handleStatus (clockAt 1006) 7 producer1 (statusMsg ''Farming'')
        (fst (statusBurst 7 producer1 ((clockAt 1000, statusMsg ''Farming'') # fiveMore)
                (routerOthersLimited, backend1)))
        (snd (statusBurst 7 producer1 ((clockAt 1000, statusMsg ''Farming'') # fiveMore)
                (routerOthersLimited, backend1)))))) (rateKey ''c5'' ''status'') =
       Some \<lparr> rl_count = 6, rl_resetTime = 60500 \<rparr>
   \<and> rateLimits (fst (snd (handleStatus (clockAt 1006) 7 producer1 (statusMsg ''Farming'')
        (fst (statusBurst 7 producer1 ((clockAt 1000, statusMsg ''Farming'') # fiveMore)
                (routerOthersLimited, backend1)))
        (snd (statusBurst 7 producer1 ((clockAt 1000, statusMsg ''Farming'') # fiveMore)
                (routerOthersLimited, backend1)))))) (rateKey ''c1'' ''notify'') =
       Some \<lparr> rl_count = 5, rl_resetTime = 60500 \<rparr>
   \<and> fst (checkRateLimit (clockAt 1007) ''c9'' ''status''
        (fst (snd (handleStatus (clockAt 1006) 7 producer1 (statusMsg ''Farming'')
           (fst (statusBurst 7 producer1 ((clockAt 1000, statusMsg ''Farming'') # fiveMore)
                   (routerOthersLimited, backend1)))
           (snd (statusBurst 7 producer1 ((clockAt 1000, statusMsg ''Farming'') # fiveMore)
                   (routerOthersLimited, backend1)))))))"
proof -
  let ?B = "statusBurst 7 producer1 ((clockAt 1000, statusMsg ''Farming'') # fiveMore)
              (routerOthersLimited, backend1)"
  let ?x7 = "handleStatus (clockAt 1006) 7 producer1 (statusMsg ''Farming'') (fst ?B) (snd ?B)"
  have auth: "c_authenticated producer1" "c_type producer1 = Some Roblox"
    by (simp_all add: producer1_def)
  have row: "\<exists>s \<in> set (sessions backend1). s_wsClientId s = c_id producer1"
    by (simp add: backend1_def session1_def producer1_def)
  have limited: "rateLimits routerOthersLimited (rateKey ''c5'' ''status'') =
      Some \<lparr> rl_count = 6, rl_resetTime = 60500 \<rparr>"
    and notify: "rateLimits routerOthersLimited (rateKey ''c1'' ''notify'') =
      Some \<lparr> rl_count = 5, rl_resetTime = 60500 \<rparr>"
    and free: "rateLimits routerOthersLimited (rateKey ''c9'' ''status'') = None"
    and own: "rateLimits routerOthersLimited (rateKey (c_id producer1) ''status'') = None"
    by (simp_all add: routerOthersLimited_def rateKey_def producer1_def)
  have start: "case rateLimits routerOthersLimited (rateKey (c_id producer1) ''status'') of
                 None \<Rightarrow> True | Some existing \<Rightarrow> nowMs (clockAt 1000) > rl_resetTime existing"
    by (simp add: own)
  have five: "length fiveMore = 5"
    by (simp add: fiveMore_def)
  have window: "\<forall>em \<in> set fiveMore. nowMs (fst em) \<le> nowMs (clockAt 1000) + 60000"
      "nowMs (clockAt 1006) \<le> nowMs (clockAt 1000) + 60000"
    by (simp_all add: fiveMore_def clockAt_def)
  have later: "nowMs (clockAt 70000) > nowMs (clockAt 1000) + 60000"
    by (simp add: clockAt_def)
  note t = status_rate_limit [OF auth row start five window later refl refl refl,
      of 7 "statusMsg ''Farming''" "statusMsg ''Farming''" "statusMsg ''Farming''"]
  have six: "sent (fst ?B) =
      sent routerOthersLimited @ concat (map (\<lambda>em. fanout routerOthersLimited (c_userId producer1)
                        (StatusUpdate (c_sessionId producer1) (m_status (snd em)) (m_data (snd em))
                           (nowMs (fst em)))) ((clockAt 1000, statusMsg ''Farming'') # fiveMore))"
    using t by (elim conjE)
  have seven: "sent (fst (snd ?x7)) =
      sent (fst ?B) @ (if 7 \<in> openSockets routerOthersLimited
                       then [(7, ErrorFrame ''RATE_LIMITED'' ''Status updates limited to 6 per minute'')]
                       else [])"
    using t by (elim conjE)
  have others: "\<forall>cid' type'. CHR '':'' \<notin> set type' \<and> (cid' \<noteq> c_id producer1 \<or> type' \<noteq> ''status'') \<longrightarrow>
             rateLimits (fst ?B) (rateKey cid' type') = rateLimits routerOthersLimited (rateKey cid' type')
             \<and> rateLimits (fst (snd ?x7)) (rateKey cid' type') =
                 rateLimits routerOthersLimited (rateKey cid' type')
             \<and> rateLimits (fst (snd (handleStatus (clockAt 70000) 7 producer1 (statusMsg ''Farming'')
                                       (fst (snd ?x7)) (snd (snd ?x7))))) (rateKey cid' type') =
                 rateLimits routerOthersLimited (rateKey cid' type')"
    using t by (elim conjE)
  have admitted: "\<forall>cid' e'. cid' \<noteq> c_id producer1
             \<and> rateLimits routerOthersLimited (rateKey cid' ''status'') = None \<longrightarrow>
             fst (checkRateLimit e' cid' ''status'' (fst (snd ?x7)))"
    using t by (elim conjE)
  have c5: "rateLimits (fst (snd ?x7)) (rateKey ''c5'' ''status'') =
      rateLimits routerOthersLimited (rateKey ''c5'' ''status'')"
    using others [rule_format, of "''status''" "''c5''"] by (simp add: producer1_def)
  have c1: "rateLimits (fst (snd ?x7)) (rateKey ''c1'' ''notify'') =
      rateLimits routerOthersLimited (rateKey ''c1'' ''notify'')"
    using others [rule_format, of "''notify''" "''c1''"] by simp
  have c9: "fst (checkRateLimit (clockAt 1007) ''c9'' ''status'' (fst (snd ?x7)))"
    using admitted [rule_format, of "''c9''" "clockAt 1007"] free by (simp add: producer1_def)
  have u: "c_userId producer1 = Some ''u1''" "c_sessionId producer1 = Some ''s1''"
    by (simp_all add: producer1_def)
  have r0: "sent routerOthersLimited = []" "7 \<in> openSockets routerOthersLimited"
      "clients routerOthersLimited = clients router0"
      "openSockets routerOthersLimited = openSockets router0"
    by (simp_all add: routerOthersLimited_def router0_def)
  have fo: "fanout routerOthersLimited (Some ''u1'') d = [(8, d)]" for d
    using fanout_cong [OF r0(3,4)] by (simp add: fanout_router0)
  have six': "sent (fst ?B) =
       [(8, StatusUpdate (Some ''s1'') (Some ''Farming'') None 1000),
        (8, StatusUpdate (Some ''s1'') (Some ''Farming'') None 1001),
        (8, StatusUpdate (Some ''s1'') (Some ''Farming'') None 1002),
        (8, StatusUpdate (Some ''s1'') (Some ''Farming'') None 1003),
        (8, StatusUpdate (Some ''s1'') (Some ''Farming'') None 1004),
        (8, StatusUpdate (Some ''s1'') (Some ''Farming'') None 1005)]"
    unfolding six u by (simp add: fo fiveMore_def statusMsg_def clockAt_def r0(1))
  have seven': "sent (fst (snd ?x7)) =
      sent (fst ?B) @ [(7, ErrorFrame ''RATE_LIMITED'' ''Status updates limited to 6 per minute'')]"
    unfolding seven by (simp add: r0(2))
  show ?thesis
    using five limited six' seven' c5 [unfolded limited] c1 [unfolded notify] c9 by (intro conjI)
qed

subsection \<open>Commands from consumers\<close>

text \<open>
  Claim C1. \<open>handleCommand\<close> looks for a producer socket by session id and client type
  only; the user id of the commanding consumer plays no part. The consumer of user \<open>u2\<close> on
  socket 9 names session \<open>s1\<close> of user \<open>u1\<close>: the command frame goes to that producer's
  socket 7 and the consumer is told \<open>command_sent\<close>.
\<close>

theorem command_crosses_users:
  "c_userId consumer2 = Some ''u2'' \<and> c_type consumer2 = Some Mobile \<and> c_authenticated consumer2
   \<and> map_of (clients router0) 9 = Some consumer2
   \<and> map_of (clients router0) 7 = Some producer1
   \<and> c_sessionId producer1 = Some ''s1'' \<and> c_userId producer1 = Some ''u1''
   \<and> s_id session1 = ''s1'' \<and> s_userId session1 = ''u1''
   \<and> sent (handleCommand 9 consumer2 (commandMsg ''s1'' ''stop'') router0) =
       [(7, CommandFrame ''stop'' None), (9, CommandSent ''s1'')]"
  by (simp add: handleCommand_def requireAuth_def send_def sendError_def commandMsg_def router0_def
      producer1_def consumer1_def consumer2_def session1_def)

subsection \<open>Abrupt close of a producer socket\<close>

lemma map_of_filter_out: "map_of (filter (\<lambda>entry. fst entry \<noteq> k) xs) k = None"
  by (induction xs) auto

lemma handleClose_producer:
  assumes "map_of (clients r) ws = Some client" "c_type client = Some Roblox" "c_authenticated client"
  shows "handleClose e ws r =
           (notifyMobileApps (c_userId client) (SessionConnectionLost (c_sessionId client) (nowMs e)) r)
             \<lparr> clients := filter (\<lambda>entry. fst entry \<noteq> ws) (clients r) \<rparr>"
  using assms by (simp add: handleClose_def Let_def notifyMobileApps_fields)

lemma startHeartbeatMonitor_fresh:
  assumes "heartbeatTimers r cid = None"
  shows "timeouts (startHeartbeatMonitor cfg e cid sid uid r) =
           timeouts r @ [(nextTimeout r,
                          nowMs e + (if heartbeatTimeout cfg = 0 then 30000 else heartbeatTimeout cfg),
                          cid, sid, uid)]"
  using assms by (simp add: startHeartbeatMonitor_def stopHeartbeatMonitor_def Let_def)

lemma triggerDeadManSwitch_backend:
  "snd (snd (triggerDeadManSwitch e cid r b)) = snd (handleTimeout e cid b)"
  by (simp add: triggerDeadManSwitch_def split: prod.splits sum.splits option.splits)

lemma fireTimeout_backend:
  assumes "find (\<lambda>t. fst t = h) (timeouts r) = Some t" "fst (snd t) \<le> nowMs e"
  shows "snd (snd (fireTimeout e h r b)) = snd (handleTimeout e (fst (snd (snd t))) b)"
  using assms by (simp add: fireTimeout_def triggerDeadManSwitch_backend)

text \<open>
  Claim C2, as the code has it. When the socket of an authenticated producer closes, the
  router sends \<open>session_connection_lost\<close> to the open sockets of that user's authenticated
  consumers at once and drops the socket from its map. It schedules nothing and cancels
  nothing: the heartbeat timer of the client stays pending, a client that connects under a
  new client id gets a timer of its own beside it, and when a pending timer comes due the
  state machine's timeout path runs for its client id. The grace-period check belongs to the
  legacy watchdog: \<open>handleAbruptDisconnect\<close> schedules it \<open>reconnectGracePeriod\<close> (default
  5 s) ahead, and when it runs it does nothing if a timer is registered for the session id
  and otherwise runs the watchdog's timeout path if a connection record exists.
\<close>

theorem abrupt_close_leaves_heartbeat_timer:
  assumes cl: "map_of (clients r) ws = Some client" "c_type client = Some Roblox"
      "c_authenticated client"
    and r': "r' = handleClose e ws r"
  shows "sent r' = sent r @ fanout r (c_userId client)
                              (SessionConnectionLost (c_sessionId client) (nowMs e))
       \<and> map_of (clients r') ws = None
       \<and> heartbeatTimers r' = heartbeatTimers r
       \<and> timeouts r' = timeouts r
       \<and> (\<forall>cfg e2 cid sid uid. heartbeatTimers r cid = None \<longrightarrow>
            timeouts (startHeartbeatMonitor cfg e2 cid sid uid r') =
              timeouts r @ [(nextTimeout r,
                             nowMs e2 + (if heartbeatTimeout cfg = 0 then 30000 else heartbeatTimeout cfg),
                             cid, sid, uid)])
       \<and> (\<forall>e3 h t b. find (\<lambda>t. fst t = h) (timeouts r') = Some t \<and> fst (snd t) \<le> nowMs e3 \<longrightarrow>
            snd (snd (fireTimeout e3 h r' b)) = snd (handleTimeout e3 (fst (snd (snd t))) b))
       \<and> wd_timeouts (handleAbruptDisconnect cfg0 e sid0 w) =
            wd_timeouts w @ [(wd_nextTimeout w, nowMs e + reconnectGracePeriod cfg0, GraceCheck sid0)]
       \<and> reconnectGracePeriod defaultConfig = 5000
       \<and> (monitoredSessions w sid0 \<noteq> None \<longrightarrow> graceCheck sid0 w = w)
       \<and> (monitoredSessions w sid0 = None \<longrightarrow>
            graceCheck sid0 w = (case activeConnections w sid0 of
                                   None \<Rightarrow> w | Some connection \<Rightarrow> watchdogTimeout sid0 w))"
proof -
  note hc = handleClose_producer [OF cl, of e]
  have f: "heartbeatTimers r' = heartbeatTimers r" "timeouts r' = timeouts r"
      "nextTimeout r' = nextTimeout r"
    by (simp_all add: r' hc notifyMobileApps_fields)
  have s: "sent r' = sent r @ fanout r (c_userId client)
                              (SessionConnectionLost (c_sessionId client) (nowMs e))"
    by (simp add: r' hc notifyMobileApps_fields)
  have gone: "map_of (clients r') ws = None"
    by (simp add: r' hc map_of_filter_out)
  have again: "\<forall>cfg e2 cid sid uid. heartbeatTimers r cid = None \<longrightarrow>
            timeouts (startHeartbeatMonitor cfg e2 cid sid uid r') =
              timeouts r @ [(nextTimeout r,
                             nowMs e2 + (if heartbeatTimeout cfg = 0 then 30000 else heartbeatTimeout cfg),
                             cid, sid, uid)]"
  proof (intro allI impI)
    fix cfg e2 cid sid uid
    assume "heartbeatTimers r cid = None"
    then have "heartbeatTimers r' cid = None"
      by (simp add: f)
    from startHeartbeatMonitor_fresh [OF this, of cfg e2 sid uid]
    show "timeouts (startHeartbeatMonitor cfg e2 cid sid uid r') =
              timeouts r @ [(nextTimeout r,
                             nowMs e2 + (if heartbeatTimeout cfg = 0 then 30000 else heartbeatTimeout cfg),
                             cid, sid, uid)]"
      by (simp add: f)
  qed
  have fire: "\<forall>e3 h t b. find (\<lambda>t. fst t = h) (timeouts r') = Some t \<and> fst (snd t) \<le> nowMs e3 \<longrightarrow>
            snd (snd (fireTimeout e3 h r' b)) = snd (handleTimeout e3 (fst (snd (snd t))) b)"
    using fireTimeout_backend by blast
  have wd: "wd_timeouts (handleAbruptDisconnect cfg0 e sid0 w) =
            wd_timeouts w @ [(wd_nextTimeout w, nowMs e + reconnectGracePeriod cfg0, GraceCheck sid0)]"
      "reconnectGracePeriod defaultConfig = 5000"
    by (simp_all add: handleAbruptDisconnect_def defaultConfig_def)
  have g1: "monitoredSessions w sid0 \<noteq> None \<longrightarrow> graceCheck sid0 w = w"
    by (simp add: graceCheck_def)
  have g2: "monitoredSessions w sid0 = None \<longrightarrow>
            graceCheck sid0 w = (case activeConnections w sid0 of
                                   None \<Rightarrow> w | Some connection \<Rightarrow> watchdogTimeout sid0 w)"
    by (simp add: graceCheck_def)
  show ?thesis
    using s gone f(1,2) again fire wd g1 g2 by (intro conjI)
qed

lemma router1_eval:
  "router1 = router0\<lparr> timeouts := [(0, 31000, ''c1'', ''s1'', ''u1'')], nextTimeout := 1,
                       heartbeatTimers := [''c1'' \<mapsto> \<lparr> hb_timer = 0, hb_sessionId = ''s1'',
                                                      hb_userId = ''u1'' \<rparr>] \<rparr>"
  by (simp add: router1_def startHeartbeatMonitor_def stopHeartbeatMonitor_def Let_def router0_def
      defaultConfig_def clockAt_def envAt_def)

lemma router1_fields:
  "clients router1 = [(7, producer1), (8, consumer1), (9, consumer2)]"
  "openSockets router1 = {7, 8, 9}"
  "sent router1 = []"
  "timeouts router1 = [(0, 31000, ''c1'', ''s1'', ''u1'')]"
  "nextTimeout router1 = 1"
  "heartbeatTimers router1 ''c4'' = None"
  by (simp_all add: router1_eval router0_def)

lemma fanout_router1:
  "fanout router1 (Some ''u1'') d = [(8, d)]"
  by (simp add: fanout_def router1_fields producer1_def consumer1_def consumer2_def)

theorem abrupt_close_leaves_heartbeat_timer_witness:
  "map_of (clients router1) 7 = Some producer1
   \<and> sent (handleClose (clockAt 2000) 7 router1) = [(8, SessionConnectionLost (Some ''s1'') 2000)]
   \<and> timeouts (handleClose (clockAt 2000) 7 router1) = [(0, 31000, ''c1'', ''s1'', ''u1'')]
   \<and> wd_timeouts (handleAbruptDisconnect defaultConfig (clockAt 2000) ''c1'' watchdog0) =
       [(0, 7000, GraceCheck ''c1'')]"
proof -
  have cl: "map_of (clients router1) 7 = Some producer1" "c_type producer1 = Some Roblox"
      "c_authenticated producer1"
    by (simp_all add: router1_fields producer1_def)
  note t = abrupt_close_leaves_heartbeat_timer [OF cl refl, where e = "clockAt 2000"
      and ?cfg0.0 = defaultConfig and ?sid0.0 = "''c1''" and w = watchdog0]
  from t have s: "sent (handleClose (clockAt 2000) 7 router1) =
      sent router1 @ fanout router1 (c_userId producer1)
                       (SessionConnectionLost (c_sessionId producer1) (nowMs (clockAt 2000)))"
    by (rule conjunct1)
  from t have k: "timeouts (handleClose (clockAt 2000) 7 router1) = timeouts router1"
    by (elim conjE)
  from t have g: "wd_timeouts (handleAbruptDisconnect defaultConfig (clockAt 2000) ''c1'' watchdog0) =
      wd_timeouts watchdog0 @ [(wd_nextTimeout watchdog0,
                                nowMs (clockAt 2000) + reconnectGracePeriod defaultConfig,
                                GraceCheck ''c1'')]"
    by (elim conjE)
  have u: "c_userId producer1 = Some ''u1''" "c_sessionId producer1 = Some ''s1''"
      "nowMs (clockAt 2000) = 2000"
    by (simp_all add: producer1_def clockAt_def)
  have w0: "wd_timeouts watchdog0 = []" "wd_nextTimeout watchdog0 = 0"
      "reconnectGracePeriod defaultConfig = 5000"
    by (simp_all add: watchdog0_def defaultConfig_def)
  show ?thesis
    using cl(1) by (simp add: s k g u w0 fanout_router1 router1_fields)
qed

text \<open>
  Claim C2 as stated fails. The producer on socket 7 connected at 1 s, so its heartbeat
  timer is due at 31 s. The socket closes at 2 s: nothing is scheduled and the timer stays.
  The client reconnects at 3 s, inside the 5 s grace period, under the new client id
  \<open>c4\<close>: its own timer is added and the old one is still pending. At 31 s the old timer
  fires and the session goes to \<open>TIMEOUT\<close> with the alert sent.
\<close>

theorem abrupt_close_reconnect_still_times_out:
  "timeouts (handleClose (clockAt 2000) 7 router1) = [(0, 31000, ''c1'', ''s1'', ''u1'')]
   \<and> timeouts (startHeartbeatMonitor defaultConfig (clockAt 3000) ''c4'' ''s4'' ''u1''
                 (handleClose (clockAt 2000) 7 router1)) =
       [(0, 31000, ''c1'', ''s1'', ''u1''), (1, 33000, ''c4'', ''s4'', ''u1'')]
   \<and> map s_status (sessions (snd (snd (fireTimeout (clockAt 31000) 0
        (startHeartbeatMonitor defaultConfig (clockAt 3000) ''c4'' ''s4'' ''u1''
           (handleClose (clockAt 2000) 7 router1)) backend1)))) = [TIMEOUT]
   \<and> map s_alertSent (sessions (snd (snd (fireTimeout (clockAt 31000) 0
        (startHeartbeatMonitor defaultConfig (clockAt 3000) ''c4'' ''s4'' ''u1''
           (handleClose (clockAt 2000) 7 router1)) backend1)))) = [True]"
proof -
  let ?r2 = "handleClose (clockAt 2000) 7 router1"
  let ?r3 = "startHeartbeatMonitor defaultConfig (clockAt 3000) ''c4'' ''s4'' ''u1'' ?r2"
  have cl: "map_of (clients router1) 7 = Some producer1" "c_type producer1 = Some Roblox"
      "c_authenticated producer1"
    by (simp_all add: router1_fields producer1_def)
  note hc = handleClose_producer [OF cl, of "clockAt 2000"]
  have f2: "timeouts ?r2 = [(0, 31000, ''c1'', ''s1'', ''u1'')]" "nextTimeout ?r2 = 1"
      "heartbeatTimers ?r2 ''c4'' = None"
    by (simp_all add: hc notifyMobileApps_fields router1_fields)
  have t3: "timeouts ?r3 = [(0, 31000, ''c1'', ''s1'', ''u1''), (1, 33000, ''c4'', ''s4'', ''u1'')]"
  proof -
    have n: "nowMs (clockAt 3000) + (if heartbeatTimeout defaultConfig = 0 then 30000
                                     else heartbeatTimeout defaultConfig) = 33000"
      by (simp add: defaultConfig_def clockAt_def)
    show ?thesis
      unfolding startHeartbeatMonitor_fresh [OF f2(3)] f2 n by simp
  qed
  have due: "find (\<lambda>t. fst t = 0) (timeouts ?r3) = Some (0, 31000, ''c1'', ''s1'', ''u1'')"
      "fst (snd (0::nat, 31000::int, ''c1'', ''s1'', ''u1'')) \<le> nowMs (clockAt 31000)"
    unfolding t3 by (simp_all add: clockAt_def)
  have fired: "snd (snd (fireTimeout (clockAt 31000) 0 ?r3 backend1)) =
      snd (handleTimeout (clockAt 31000) ''c1'' backend1)"
    using fireTimeout_backend [OF due, of backend1] by simp
  have lt: "(23::nat) < 100" "(0::nat) < 100" "(7::nat) < 100"
    by simp_all
  have loud: "isQuietHours (clockAt 31000) user1 = Some False"
    unfolding isQuietHours_hhmm [OF user1_quiet(1) user1_quiet(2) lt(1) lt(2) user1_quiet(3) lt(3) lt(2)]
    by (simp add: clockAt_def envAt_def)
  have nf: "\<not> findFails (clockAt 31000)" "\<not> logFails (clockAt 31000)" "\<not> pushFails (clockAt 31000)"
      "\<not> loopFails (clockAt 31000)" "\<not> updateFails (clockAt 31000)"
    by (simp_all add: clockAt_def envAt_def)
  have ht: "handleTimeout (clockAt 31000) ''c1'' backend1 = timeoutAlert (clockAt 31000) session1 user1 backend1"
    using nf(1) loud backend1_find by (simp add: handleTimeout_def)
  have sb: "sessions backend1 = [session1]"
    by (simp add: backend1_def)
  have mem: "session1 \<in> set (sessions backend1)"
    by (simp add: sb)
  have ss: "sessions (snd (handleTimeout (clockAt 31000) ''c1'' backend1)) =
      [alertedData (clockAt 31000)
         (criticalPush (clockAt 31000) (s_userId session1) (timeoutAlertData session1 user1 backend1))
         session1]"
    unfolding ht using timeoutAlert_effect(2) [OF mem nf(2-4), of user1] nf(5)
    by (simp add: sb)
  have w: "s_status (alertedData e r s) = TIMEOUT" "s_alertSent (alertedData e r s)" for e r s
    by (simp_all add: alertedData_def)
  show ?thesis
    by (simp add: f2 t3 fired ss w)
qed

end
